theory Spec2Isabelle
  imports Main "HOL-Library.Word"
begin

section \<open>KNXnet/IP stack: wire codec, datagram builder and connection state machine\<close>

text \<open>
  A shallow embedding of the JavaScript sources: the frame codec
  (\<^verbatim>\<open>KnxProtocol\<close>, src/unnamed/part_000), the datagram builder
  (src/src/KnxDatagram.js) and the connection state machine (src/unnamed/part_001).

  JavaScript objects are records, a property that may be absent, \<^verbatim>\<open>null\<close> or
  \<^verbatim>\<open>undefined\<close> is an \<open>option\<close>, a \<^verbatim>\<open>Buffer\<close> is a list of bytes, and every
  \<^verbatim>\<open>throw\<close> is the \<open>Inl\<close> branch of a sum. Numbers are natural numbers (the payload
  of an APDU is an integer, so that a negative value can be written down).
\<close>

subsection \<open>Errors and bytes\<close>

type_synonym byte = "8 word"

datatype error =
    NullValue               \<comment> \<open>"cannot write null ... value"\<close>
  | InvalidEndpoint         \<comment> \<open>"Invalid IPv4 endpoint ..."\<close>
  | UnsupportedConnectionType
  | IncompleteHPAI          \<comment> \<open>"Incomplete KNXNet HPAI header"\<close>
  | TcpNotSupported         \<comment> \<open>"TCP is not supported"\<close>
  | IncompleteDIB           \<comment> \<open>"Incomplete KNXNet DIB Devinfo header"\<close>
  | UnknownDevinfo          \<comment> \<open>"Unknown Devinfo structure"\<close>
  | ApduTooSmall            \<comment> \<open>"APDU is too small (%d bytes)"\<close>
  | ApduTooBig              \<comment> \<open>"APDU is too big (%d bytes)"\<close>
  | ApduValueEmpty          \<comment> \<open>"APDU value is empty"\<close>
  | ApduValueTooBig         \<comment> \<open>"APDU value too big, must be <= 14 bytes"\<close>
  | ApduPayloadInvalid      \<comment> \<open>"APDU payload must be a 6-bit int or an Array/Buffer (1 to 14 bytes)"\<close>
  | NoControlField          \<comment> \<open>"no Control Field supplied"\<close>
  | NoAPDU                  \<comment> \<open>"no APDU supplied)"\<close>
  | IncompletePacket        \<comment> \<open>"Incomplete KNXNet packet: got %d bytes (expected %d)"\<close>
  | UnhandledServiceType    \<comment> \<open>"write KNXNetHeader: unhandled serviceType = ..."\<close>
  | InvalidAddress          \<comment> \<open>an address the address codec refuses\<close>
  | RangeError              \<comment> \<open>raised by the buffer primitives\<close>
  | TypeError               \<comment> \<open>raised by the JavaScript runtime\<close>

subsubsection \<open>The writer's primitives\<close>

text \<open>
  The writer object of the \<^verbatim>\<open>binary-protocol\<close> library appends to a buffer. Its
  primitives end in Node's \<^verbatim>\<open>Buffer.writeUInt8\<close> and \<^verbatim>\<open>writeUInt16BE\<close>: the value
  is coerced to a number, a number outside the range raises, and \<^verbatim>\<open>null\<close>,
  \<^verbatim>\<open>undefined\<close> and \<^verbatim>\<open>NaN\<close> are stored as 0. A write is the bytes it appends, or
  the error it raises.
\<close>

type_synonym wr = "error + byte list"

definition UInt8 :: "nat \<Rightarrow> wr" where
  "UInt8 v = (if v \<le> 255 then Inr [of_nat v] else Inl RangeError)"

definition UInt8_opt :: "nat option \<Rightarrow> wr" where
  "UInt8_opt v = (case v of None \<Rightarrow> Inr [0] | Some n \<Rightarrow> UInt8 n)"

definition UInt16BE :: "nat \<Rightarrow> wr" where
  "UInt16BE v =
     (if v \<le> 65535 then Inr [of_nat (v div 256), of_nat (v mod 256)] else Inl RangeError)"

definition UInt16BE_opt :: "nat option \<Rightarrow> wr" where
  "UInt16BE_opt v = (case v of None \<Rightarrow> Inr [0, 0] | Some n \<Rightarrow> UInt16BE n)"

definition raw :: "byte list \<Rightarrow> wr" where
  "raw bs = Inr bs"

text \<open>Two writes in sequence: the first error raised ends the write.\<close>

definition andThen :: "wr \<Rightarrow> wr \<Rightarrow> wr" where
  "andThen a b =
     (case a of
        Inl e \<Rightarrow> Inl e
      | Inr xs \<Rightarrow> (case b of Inl e \<Rightarrow> Inl e | Inr ys \<Rightarrow> Inr (xs @ ys)))"

fun chain :: "wr list \<Rightarrow> wr" where
  "chain [] = Inr []"
| "chain (w # ws) = andThen w (chain ws)"

subsubsection \<open>The reader's primitives\<close>

text \<open>
  The reader object holds a buffer and an offset. A read is a function of the bytes from
  the offset on: it returns the value read and the bytes left, or the error raised. A
  primitive that needs more bytes than are left raises \<open>RangeError\<close>. Where the source
  reads \<^verbatim>\<open>this.buffer.length\<close>, the length of the whole buffer is a parameter
  \<open>buflen\<close>.
\<close>

type_synonym 'a rd = "byte list \<Rightarrow> error + ('a \<times> byte list)"

definition rd_return :: "'a \<Rightarrow> 'a rd" where
  "rd_return x = (\<lambda>bs. Inr (x, bs))"

definition rd_throw :: "error \<Rightarrow> 'a rd" where
  "rd_throw e = (\<lambda>bs. Inl e)"

definition rd_bind :: "'a rd \<Rightarrow> ('a \<Rightarrow> 'b rd) \<Rightarrow> 'b rd" where
  "rd_bind m f = (\<lambda>bs. case m bs of Inl e \<Rightarrow> Inl e | Inr (x, bs') \<Rightarrow> f x bs')"

definition rd_UInt8 :: "nat rd" where
  "rd_UInt8 = (\<lambda>bs. case bs of [] \<Rightarrow> Inl RangeError | b # r \<Rightarrow> Inr (unat b, r))"

definition rd_UInt16BE :: "nat rd" where
  "rd_UInt16BE =
     (\<lambda>bs. case bs of
        b1 # b2 # r \<Rightarrow> Inr (unat b1 * 256 + unat b2, r)
      | _ \<Rightarrow> Inl RangeError)"

definition rd_raw :: "nat \<Rightarrow> (byte list) rd" where
  "rd_raw n = (\<lambda>bs. if n \<le> length bs then Inr (take n bs, drop n bs) else Inl RangeError)"

subsection \<open>Constants\<close>

text \<open>
  Modelled from the spec: the constants of \<^verbatim>\<open>KnxConstants\<close>, a file of the
  repository that is not among the sources. The spec gives the connection types, the
  KNX layer, the message codes, the protocol types and \<open>NO_ERROR\<close> by value, and the
  service types as "per KNX standard values"; \<open>E_NO_MORE_CONNECTIONS\<close> is the
  standard's value too.
\<close>

abbreviation (input) SEARCH_REQUEST :: nat where "SEARCH_REQUEST \<equiv> 0x0201"
abbreviation (input) SEARCH_RESPONSE :: nat where "SEARCH_RESPONSE \<equiv> 0x0202"
abbreviation (input) DESCRIPTION_REQUEST :: nat where "DESCRIPTION_REQUEST \<equiv> 0x0203"
abbreviation (input) DESCRIPTION_RESPONSE :: nat where "DESCRIPTION_RESPONSE \<equiv> 0x0204"
abbreviation (input) CONNECT_REQUEST :: nat where "CONNECT_REQUEST \<equiv> 0x0205"
abbreviation (input) CONNECT_RESPONSE :: nat where "CONNECT_RESPONSE \<equiv> 0x0206"
abbreviation (input) CONNECTIONSTATE_REQUEST :: nat where "CONNECTIONSTATE_REQUEST \<equiv> 0x0207"
abbreviation (input) CONNECTIONSTATE_RESPONSE :: nat where "CONNECTIONSTATE_RESPONSE \<equiv> 0x0208"
abbreviation (input) DISCONNECT_REQUEST :: nat where "DISCONNECT_REQUEST \<equiv> 0x0209"
abbreviation (input) DISCONNECT_RESPONSE :: nat where "DISCONNECT_RESPONSE \<equiv> 0x020A"
abbreviation (input) TUNNELING_REQUEST :: nat where "TUNNELING_REQUEST \<equiv> 0x0420"
abbreviation (input) TUNNELING_ACK :: nat where "TUNNELING_ACK \<equiv> 0x0421"
abbreviation (input) ROUTING_INDICATION :: nat where "ROUTING_INDICATION \<equiv> 0x0530"

abbreviation (input) DEVICE_MGMT_CONNECTION :: nat where "DEVICE_MGMT_CONNECTION \<equiv> 0x03"
abbreviation (input) TUNNEL_CONNECTION :: nat where "TUNNEL_CONNECTION \<equiv> 0x04"
abbreviation (input) LINK_LAYER :: nat where "LINK_LAYER \<equiv> 0x02"
abbreviation (input) IPV4_UDP :: nat where "IPV4_UDP \<equiv> 0x01"
abbreviation (input) IPV4_TCP :: nat where "IPV4_TCP \<equiv> 0x02"
abbreviation (input) L_Data_req :: nat where "L_Data_req \<equiv> 0x11"
abbreviation (input) L_Data_ind :: nat where "L_Data_ind \<equiv> 0x29"
abbreviation (input) L_Data_con :: nat where "L_Data_con \<equiv> 0x2E"
abbreviation (input) NO_ERROR :: nat where "NO_ERROR \<equiv> 0x00"
abbreviation (input) E_NO_MORE_CONNECTIONS :: nat where "E_NO_MORE_CONNECTIONS \<equiv> 0x24"

text \<open>
  The table \<^verbatim>\<open>KnxConstants.APCICODES\<close> (an array of names; the position of a name is
  its four-bit code) is missing as well and the spec names only its first entries, so
  the codec takes the table as its parameter \<open>codes\<close>. \<open>indexOf\<close> is
  \<^verbatim>\<open>Array.prototype.indexOf\<close>: the first position of the name, \<open>None\<close> for -1.
\<close>

fun indexOf :: "'a list \<Rightarrow> 'a \<Rightarrow> nat option" where
  "indexOf [] x = None"
| "indexOf (y # ys) x = (if y = x then Some 0 else map_option Suc (indexOf ys x))"

definition nth_opt :: "'a list \<Rightarrow> nat \<Rightarrow> 'a option" where
  "nth_opt xs i = (if i < length xs then Some (xs ! i) else None)"

subsection \<open>Addresses\<close>

text \<open>
  Modelled from the spec: the address codec (\<^verbatim>\<open>./Address\<close>, not among the sources).
  The spec: \<^verbatim>\<open>parse\<close> accepts "A.B.C" for a physical address (4/4/8 bits) and "A/B/C"
  or "A/B" for a group address (5/3/8 or 5/11 bits, by \<^verbatim>\<open>twoLevel\<close>), fails on a
  component out of range and on a kind mismatch, and \<^verbatim>\<open>format\<close> is its inverse. The
  text of an address is kept here as its components. The address type is 0 for
  physical and 1 for group, the values of \<^verbatim>\<open>ctrl.destAddrType\<close>.
\<close>

datatype knx_address =
    Physical nat nat nat     \<comment> \<open>"A.B.C"\<close>
  | Group3 nat nat nat       \<comment> \<open>"A/B/C"\<close>
  | Group2 nat nat           \<comment> \<open>"A/B"\<close>

abbreviation (input) TYPE_PHYSICAL :: nat where "TYPE_PHYSICAL \<equiv> 0"
abbreviation (input) TYPE_GROUP :: nat where "TYPE_GROUP \<equiv> 1"

fun Address_parse :: "knx_address \<Rightarrow> nat \<Rightarrow> bool \<Rightarrow> error + byte list" where
  "Address_parse (Physical a l d) ty twoLevel =
     (if ty = TYPE_PHYSICAL \<and> a < 16 \<and> l < 16 \<and> d < 256
      then Inr [of_nat (a * 16 + l), of_nat d] else Inl InvalidAddress)"
| "Address_parse (Group3 m mi s) ty twoLevel =
     (if ty = TYPE_GROUP \<and> \<not> twoLevel \<and> m < 32 \<and> mi < 8 \<and> s < 256
      then Inr [of_nat (m * 8 + mi), of_nat s] else Inl InvalidAddress)"
| "Address_parse (Group2 m s) ty twoLevel =
     (if ty = TYPE_GROUP \<and> twoLevel \<and> m < 32 \<and> s < 2048
      then Inr [of_nat (m * 8 + s div 256), of_nat (s mod 256)] else Inl InvalidAddress)"

definition Address_toString :: "byte list \<Rightarrow> nat \<Rightarrow> bool \<Rightarrow> knx_address" where
  "Address_toString buf ty twoLevel =
     (let hi = unat (buf ! 0); lo = unat (buf ! 1) in
      if ty = TYPE_PHYSICAL then Physical (hi div 16) (hi mod 16) lo
      else if twoLevel then Group2 (hi div 8) ((hi mod 8) * 256 + lo)
      else Group3 (hi div 8) (hi mod 8) lo)"

subsection \<open>The structures of a frame\<close>

text \<open>
  An endpoint is the string "a.b.c.d:port" in the source, parsed and printed by the
  \<^verbatim>\<open>ipaddr.js\<close> library; it is kept here as its four octets and its port.
\<close>

datatype IPv4Endpoint = Endpoint (ep_addr: "nat list") (ep_port: nat)

record HPAI =
  hpai_headerLength :: "nat option"
  protocolType :: nat
  tunnelEndpoint :: "IPv4Endpoint option"

record CRI =
  cri_headerLength :: "nat option"
  connectionType :: nat
  knxLayer :: nat
  unused :: nat

record ConnState =
  cs_channelId :: "nat option"
  cs_status :: "nat option"
  cs_state :: "nat option"     \<comment> \<open>set by the builder only (\<^verbatim>\<open>state: 0\<close>)\<close>

record TunnState =
  ts_headerLength :: "nat option"
  ts_channelId :: "nat option"
  seqnum :: "nat option"
  ts_status :: "nat option"
  ts_tunnelEndpoint :: "IPv4Endpoint option option"
    \<comment> \<open>set by the builder only: the remote control endpoint, \<open>Some None\<close> when that is
        unknown\<close>

record DIBdevinfo =
  dib_headerLength :: nat
  descriptionType :: nat
  dib_unused :: "byte list"
  physicalAddr :: knx_address
  serial :: "byte list"        \<comment> \<open>the hex string, as the bytes it prints\<close>
  name :: "byte list"          \<comment> \<open>the ASCII string, as its character codes\<close>

record ctrl =
  frameType :: nat
  reserved :: nat
  repeat :: nat
  broadcast :: nat
  priority :: nat
  acknowledge :: nat
  confirm :: nat
  destAddrType :: nat
  hopCount :: nat
  extendedFrame :: nat

text \<open>
  The payload of an APDU is an integer or a buffer: what the builder sets and what the
  reader returns. The tests of the source also let through other values that have a
  length or read as a number (a fraction such as 1.5, written as 1; a string such as
  '5', written as 5; an array of numbers): these are outside the model, and nothing
  below is stated of them.
\<close>

datatype payload = Num int | Buf "byte list"

record APDU =
  apduLength :: "nat option"
  apduRaw :: "byte list option"
  tpci :: nat
  apci :: "string option"      \<comment> \<open>\<open>None\<close>: \<^verbatim>\<open>undefined\<close>, read for a code past the table\<close>
  data :: payload
  bitlength :: "nat option"

record CEMI =
  msgcode :: nat
  addinfoLength :: "nat option"
  cemi_ctrl :: "ctrl option"
  srcAddr :: knx_address
  destAddr :: knx_address
  apdu :: "APDU option"

record KNXNetHeader =
  headerLength :: nat
  protocolVersion :: nat
  serviceType :: nat
  totalLength :: "nat option"
  hpai :: "HPAI option"
  tunn :: "HPAI option"
  cri :: "CRI option"
  connstate :: "ConnState option"
  tunnstate :: "TunnState option"
  cemi :: "CEMI option"
  devinfo :: "DIBdevinfo option"
  description :: "byte list option"   \<comment> \<open>the property \<^verbatim>\<open>value\<close> of a DESCRIPTION_RESPONSE\<close>

subsection \<open>Lengths (\<^verbatim>\<open>KnxProtocol.lengths\<close>)\<close>

definition lengths_CRI :: "CRI option \<Rightarrow> nat" where
  "lengths_CRI v = (case v of None \<Rightarrow> 0 | Some _ \<Rightarrow> 4)"

definition lengths_ConnState :: "ConnState option \<Rightarrow> nat" where
  "lengths_ConnState v = (case v of None \<Rightarrow> 0 | Some _ \<Rightarrow> 2)"

definition lengths_TunnState :: "TunnState option \<Rightarrow> nat" where
  "lengths_TunnState v = (case v of None \<Rightarrow> 0 | Some _ \<Rightarrow> 4)"

definition lengths_HPAI :: "HPAI option \<Rightarrow> nat" where
  "lengths_HPAI v = (case v of None \<Rightarrow> 0 | Some _ \<Rightarrow> 8)"

definition lengths_DIBdevinfo :: "DIBdevinfo option \<Rightarrow> nat" where
  "lengths_DIBdevinfo v = (case v of None \<Rightarrow> 0 | Some _ \<Rightarrow> 54)"

text \<open>
  \<^verbatim>\<open>lengths.APDU\<close>. A \<^verbatim>\<open>bitlength\<close> that is set (and not 0) decides the length
  alone. Otherwise the payload decides: a buffer that is not empty has a truthy
  \<^verbatim>\<open>length\<close>; a number, and the empty buffer, take the last branch, where only an
  integer from 0 to 63 passes. (A \<^verbatim>\<open>bitlength\<close> property of the payload object itself
  is not modelled: numbers and buffers have none.)
\<close>

definition lengths_APDU :: "APDU option \<Rightarrow> error + nat" where
  "lengths_APDU val =
     (case val of
        None \<Rightarrow> Inr 0
      | Some v \<Rightarrow>
          (case bitlength v of
             Some (Suc b) \<Rightarrow> Inr (3 + (if Suc b > 6 then (Suc b + 7) div 8 else 0))
           | _ \<Rightarrow>
               (case data v of
                  Buf (b # bs) \<Rightarrow>
                    (if length (b # bs) < 1 then Inl ApduValueEmpty
                     else if length (b # bs) > 14 then Inl ApduValueTooBig
                     else if length (b # bs) = 1 \<and> unat b \<le> 63 then Inr 3
                     else Inr (3 + length (b # bs)))
                | Buf [] \<Rightarrow> Inl ApduPayloadInvalid
                | Num n \<Rightarrow> (if 0 \<le> n \<and> n \<le> 63 then Inr 3 else Inl ApduPayloadInvalid))))"

definition lengths_CEMI :: "CEMI option \<Rightarrow> error + nat" where
  "lengths_CEMI val =
     (case val of
        None \<Rightarrow> Inr 0
      | Some v \<Rightarrow>
          (case lengths_APDU (apdu v) of Inl e \<Rightarrow> Inl e | Inr n \<Rightarrow> Inr (8 + n)))"

text \<open>
  \<^verbatim>\<open>lengths.KNXNetHeader\<close>: the \<^verbatim>\<open>switch\<close> has no default, so the result is
  \<^verbatim>\<open>undefined\<close> (\<open>None\<close>) for every other service type.
\<close>

definition lengths_KNXNetHeader :: "KNXNetHeader \<Rightarrow> error + nat option" where
  "lengths_KNXNetHeader v =
     (let st = serviceType v in
      if st = SEARCH_REQUEST \<or> st = CONNECT_REQUEST then
        Inr (Some (6 + lengths_HPAI (hpai v) + lengths_HPAI (tunn v) + lengths_CRI (cri v)))
      else if st = SEARCH_RESPONSE \<or> st = CONNECT_RESPONSE \<or> st = CONNECTIONSTATE_REQUEST
              \<or> st = CONNECTIONSTATE_RESPONSE \<or> st = DISCONNECT_REQUEST then
        Inr (Some (6 + lengths_ConnState (connstate v) + lengths_HPAI (hpai v)
                     + lengths_CRI (cri v)))
      else if st = TUNNELING_ACK \<or> st = TUNNELING_REQUEST then
        (case lengths_CEMI (cemi v) of
           Inl e \<Rightarrow> Inl e
         | Inr n \<Rightarrow> Inr (Some (6 + lengths_TunnState (tunnstate v) + n)))
      else if st = ROUTING_INDICATION then
        (case lengths_CEMI (cemi v) of Inl e \<Rightarrow> Inl e | Inr n \<Rightarrow> Inr (Some (6 + n)))
      else Inr None)"

subsection \<open>Writing\<close>

definition IPv4Endpoint_write :: "IPv4Endpoint option \<Rightarrow> wr" where
  "IPv4Endpoint_write val =
     (case val of
        None \<Rightarrow> Inl NullValue
      | Some (Endpoint a p) \<Rightarrow>
          (if length a = 4 \<and> (\<forall>x \<in> set a. x \<le> 255)
           then chain [raw (map of_nat a), UInt16BE p]
           else Inl InvalidEndpoint))"

text \<open>
  The writers of CRI, ConnState, TunnState and HPAI log and return on a null value;
  those of CEMI and APDU raise.
\<close>

definition CRI_write :: "CRI option \<Rightarrow> wr" where
  "CRI_write val =
     (case val of
        None \<Rightarrow> Inr []
      | Some v \<Rightarrow> chain [UInt8 0x04, UInt8 (connectionType v), UInt8 (knxLayer v), UInt8 (unused v)])"

definition ConnState_write :: "ConnState option \<Rightarrow> wr" where
  "ConnState_write val =
     (case val of
        None \<Rightarrow> Inr []
      | Some v \<Rightarrow> chain [UInt8_opt (cs_channelId v), UInt8_opt (cs_status v)])"

definition TunnState_write :: "TunnState option \<Rightarrow> wr" where
  "TunnState_write val =
     (case val of
        None \<Rightarrow> Inr []
      | Some v \<Rightarrow>
          chain [UInt8 0x04, UInt8_opt (ts_channelId v), UInt8_opt (seqnum v),
                 UInt8_opt (ts_status v)])"

definition HPAI_write :: "HPAI option \<Rightarrow> wr" where
  "HPAI_write val =
     (case val of
        None \<Rightarrow> Inr []
      | Some v \<Rightarrow> chain [UInt8 0x08, UInt8 (protocolType v), IPv4Endpoint_write (tunnelEndpoint v)])"

definition apci_index :: "string list \<Rightarrow> string option \<Rightarrow> nat option" where
  "apci_index codes a = (case a of None \<Rightarrow> None | Some s \<Rightarrow> indexOf codes s)"

definition UInt16BE_int :: "int \<Rightarrow> wr" where
  "UInt16BE_int v = (if 0 \<le> v \<and> v \<le> 65535 then UInt16BE (nat v) else Inl RangeError)"

text \<open>
  \<^verbatim>\<open>Buffer.from\<close> copies a buffer (its second argument is not read then) and raises
  on a number.
\<close>

definition Buffer_from :: "payload \<Rightarrow> wr" where
  "Buffer_from d = (case d of Buf bs \<Rightarrow> raw bs | Num n \<Rightarrow> Inl TypeError)"

text \<open>
  \<^verbatim>\<open>APDU.write\<close>. The length is computed first (and may raise); an APCI name that is
  not in the table is logged and the writer returns, having written nothing. In the
  three-byte case the payload is added to the word: the number itself, or the first
  byte of the buffer (\<^verbatim>\<open>parseInt(undefined)\<close> is \<^verbatim>\<open>NaN\<close> for the empty buffer, and
  a \<^verbatim>\<open>NaN\<close> word is written as 0).
\<close>

definition APDU_write :: "string list \<Rightarrow> APDU option \<Rightarrow> wr" where
  "APDU_write codes val =
     (case val of
        None \<Rightarrow> Inl NullValue
      | Some v \<Rightarrow>
          (case lengths_APDU (Some v) of
             Inl e \<Rightarrow> Inl e
           | Inr tlen \<Rightarrow>
               (case apci_index codes (apci v) of
                  None \<Rightarrow> Inr []
                | Some idx \<Rightarrow>
                    if tlen < 3 then Inl ApduTooSmall
                    else if tlen > 17 then Inl ApduTooBig
                    else
                      (let word = tpci v * 0x400 + idx * 0x40 in
                       if tlen = 3 then
                         chain [UInt8 (tlen - 2),
                                (case data v of
                                   Num n \<Rightarrow> UInt16BE_int (int word + n)
                                 | Buf (b # bs) \<Rightarrow> UInt16BE (word + unat b)
                                 | Buf [] \<Rightarrow> UInt16BE_opt None)]
                       else
                         chain [UInt8 (tlen - 2), UInt16BE word, Buffer_from (data v)]))))"

definition is_L_Data :: "nat \<Rightarrow> bool" where
  "is_L_Data mc = (mc = L_Data_req \<or> mc = L_Data_ind \<or> mc = L_Data_con)"

definition ctrlField1 :: "ctrl \<Rightarrow> nat" where
  "ctrlField1 c =
     frameType c * 0x80 + reserved c * 0x40 + repeat c * 0x20 + broadcast c * 0x10
       + priority c * 0x04 + acknowledge c * 0x02 + confirm c"

definition ctrlField2 :: "ctrl \<Rightarrow> nat" where
  "ctrlField2 c = destAddrType c * 0x80 + hopCount c * 0x10 + extendedFrame c"

text \<open>
  \<^verbatim>\<open>CEMI.write\<close>. \<open>None\<close> for the control field or for the APDU is \<^verbatim>\<open>null\<close>, which
  the source tests for (\<^verbatim>\<open>=== null\<close>) and refuses with its own message; where the
  property is absent altogether the source raises a \<^verbatim>\<open>TypeError\<close> at the same place
  instead (for the APDU, the error of the APDU writer). Either way nothing is written.
\<close>

definition CEMI_write :: "string list \<Rightarrow> bool \<Rightarrow> CEMI option \<Rightarrow> wr" where
  "CEMI_write codes twoLevel val =
     (case val of
        None \<Rightarrow> Inl NullValue
      | Some v \<Rightarrow>
          (case cemi_ctrl v of
             None \<Rightarrow> Inl NoControlField
           | Some c \<Rightarrow>
               chain [UInt8 (msgcode v), UInt8_opt (addinfoLength v),
                      UInt8 (ctrlField1 c), UInt8 (ctrlField2 c),
                      Address_parse (srcAddr v) TYPE_PHYSICAL twoLevel,
                      Address_parse (destAddr v) (destAddrType c) twoLevel,
                      (if is_L_Data (msgcode v) then
                         (case apdu v of
                            None \<Rightarrow> Inl NoAPDU
                          | Some a \<Rightarrow> APDU_write codes (Some a))
                       else Inr [])]))"

text \<open>
  \<^verbatim>\<open>KNXNetHeader.write\<close>. The total length is computed and stored in the value, the
  six header bytes are written, then the substructures that are present, by service
  type; every other service type raises. \<open>present w x\<close> is
  \<^verbatim>\<open>if (value.x) this.X(value.x)\<close>.
\<close>

definition present :: "('a option \<Rightarrow> wr) \<Rightarrow> 'a option \<Rightarrow> wr" where
  "present w x = (case x of None \<Rightarrow> Inr [] | Some y \<Rightarrow> w (Some y))"

definition KNXNetHeader_body :: "string list \<Rightarrow> bool \<Rightarrow> KNXNetHeader \<Rightarrow> wr" where
  "KNXNetHeader_body codes twoLevel v =
     (let st = serviceType v in
      if st = SEARCH_REQUEST \<or> st = CONNECT_REQUEST then
        chain [present HPAI_write (hpai v), present HPAI_write (tunn v),
               present CRI_write (cri v)]
      else if st = SEARCH_RESPONSE \<or> st = CONNECT_RESPONSE \<or> st = CONNECTIONSTATE_REQUEST
              \<or> st = CONNECTIONSTATE_RESPONSE \<or> st = DISCONNECT_REQUEST then
        chain [present ConnState_write (connstate v), present HPAI_write (hpai v),
               present CRI_write (cri v)]
      else if st = ROUTING_INDICATION \<or> st = TUNNELING_ACK \<or> st = TUNNELING_REQUEST then
        chain [present TunnState_write (tunnstate v),
               present (CEMI_write codes twoLevel) (cemi v)]
      else Inl UnhandledServiceType)"

definition KNXNetHeader_write :: "string list \<Rightarrow> bool \<Rightarrow> KNXNetHeader \<Rightarrow> wr" where
  "KNXNetHeader_write codes twoLevel v =
     (case lengths_KNXNetHeader v of
        Inl e \<Rightarrow> Inl e
      | Inr tlen \<Rightarrow>
          chain [UInt8 6, UInt8 0x10, UInt16BE (serviceType v), UInt16BE_opt tlen,
                 KNXNetHeader_body codes twoLevel v])"

subsection \<open>Reading\<close>

definition IPv4Endpoint_read :: "IPv4Endpoint rd" where
  "IPv4Endpoint_read =
     rd_bind (rd_raw 4) (\<lambda>a.
     rd_bind rd_UInt16BE (\<lambda>p.
     rd_return (Endpoint (map unat a) p)))"

definition CRI_read :: "CRI rd" where
  "CRI_read =
     rd_bind rd_UInt8 (\<lambda>hl.
     rd_bind rd_UInt8 (\<lambda>ct.
     rd_bind rd_UInt8 (\<lambda>kl.
     rd_bind rd_UInt8 (\<lambda>un.
       if ct = DEVICE_MGMT_CONNECTION \<or> ct = TUNNEL_CONNECTION
       then rd_return \<lparr>cri_headerLength = Some hl, connectionType = ct, knxLayer = kl,
                        unused = un\<rparr>
       else rd_throw UnsupportedConnectionType))))"

definition ConnState_read :: "ConnState rd" where
  "ConnState_read =
     rd_bind rd_UInt8 (\<lambda>c.
     rd_bind rd_UInt8 (\<lambda>st.
     rd_return \<lparr>cs_channelId = Some c, cs_status = Some st, cs_state = None\<rparr>))"

definition TunnState_read :: "TunnState rd" where
  "TunnState_read =
     rd_bind rd_UInt8 (\<lambda>hl.
     rd_bind rd_UInt8 (\<lambda>c.
     rd_bind rd_UInt8 (\<lambda>sq.
     rd_bind rd_UInt8 (\<lambda>st.
     rd_return \<lparr>ts_headerLength = Some hl, ts_channelId = Some c, seqnum = Some sq,
                ts_status = Some st, ts_tunnelEndpoint = None\<rparr>))))"

definition HPAI_read :: "nat \<Rightarrow> HPAI rd" where
  "HPAI_read buflen =
     rd_bind rd_UInt8 (\<lambda>hl.
     rd_bind rd_UInt8 (\<lambda>pt.
     rd_bind IPv4Endpoint_read (\<lambda>ep.
       if buflen < hl then rd_throw IncompleteHPAI
       else if pt = IPV4_TCP then rd_throw TcpNotSupported
       else rd_return \<lparr>hpai_headerLength = Some hl, protocolType = pt,
                         tunnelEndpoint = Some ep\<rparr>)))"

text \<open>
  The name of a device is read up to its first zero byte and decoded as ASCII, which
  drops the high bit of a byte. The property \<^verbatim>\<open>unused\<close> is written four times and
  keeps the last six bytes read into it.
\<close>

definition DIBdevinfo_read :: "nat \<Rightarrow> bool \<Rightarrow> DIBdevinfo rd" where
  "DIBdevinfo_read buflen twoLevel =
     rd_bind rd_UInt8 (\<lambda>hl.
     rd_bind rd_UInt8 (\<lambda>dt.
     rd_bind (rd_raw 2) (\<lambda>u1.
     rd_bind (rd_raw 2) (\<lambda>pa.
     rd_bind (rd_raw 2) (\<lambda>u2.
     rd_bind (rd_raw 6) (\<lambda>sn.
     rd_bind (rd_raw 4) (\<lambda>u3.
     rd_bind (rd_raw 6) (\<lambda>u4.
     rd_bind (rd_raw 30) (\<lambda>nm.
       if buflen < hl then rd_throw IncompleteDIB
       else if dt \<noteq> 1 then rd_throw UnknownDevinfo
       else rd_return
         \<lparr>dib_headerLength = hl, descriptionType = dt, dib_unused = u4,
          physicalAddr = Address_toString pa TYPE_PHYSICAL twoLevel,
          serial = sn,
          name = map (\<lambda>b. and b 0x7F) (takeWhile (\<lambda>b. b \<noteq> 0) nm)\<rparr>)))))))))"

text \<open>
  The two control bytes and the TPCI/APCI word are read by bit-field parsers that take
  the first field from the most significant bits: \<^verbatim>\<open>ctrlStruct\<close> is 1, 1, 1, 1, 2, 1,
  1 bits, then 1, 3, 4 bits; \<^verbatim>\<open>apduStruct\<close> is 6, 4, 6 bits of a 16-bit word, and
  raises when it is given fewer than two bytes.
\<close>

definition ctrlStruct_parse :: "byte list \<Rightarrow> ctrl" where
  "ctrlStruct_parse bs =
     (let c1 = unat (bs ! 0); c2 = unat (bs ! 1) in
      \<lparr>frameType = c1 div 128, reserved = (c1 div 64) mod 2, repeat = (c1 div 32) mod 2,
       broadcast = (c1 div 16) mod 2, priority = (c1 div 4) mod 4,
       acknowledge = (c1 div 2) mod 2, confirm = c1 mod 2,
       destAddrType = c2 div 128, hopCount = (c2 div 16) mod 8,
       extendedFrame = c2 mod 16\<rparr>)"

definition apduStruct_parse :: "byte list \<Rightarrow> error + (nat \<times> nat \<times> nat)" where
  "apduStruct_parse bs =
     (case bs of
        b1 # b2 # r \<Rightarrow>
          (let w = unat b1 * 256 + unat b2 in Inr (w div 1024, (w div 64) mod 16, w mod 64))
      | _ \<Rightarrow> Inl RangeError)"

definition APDU_read :: "string list \<Rightarrow> APDU rd" where
  "APDU_read codes =
     rd_bind rd_UInt8 (\<lambda>len.
     rd_bind (rd_raw (len + 1)) (\<lambda>rw.
       case apduStruct_parse rw of
         Inl e \<Rightarrow> rd_throw e
       | Inr (t, a, d) \<Rightarrow>
           rd_return
             \<lparr>apduLength = Some len, apduRaw = Some rw, tpci = t, apci = nth_opt codes a,
              data = (if len > 1 then Buf (drop 2 rw) else Buf [of_nat d]),
              bitlength = None\<rparr>))"

definition CEMI_read :: "string list \<Rightarrow> bool \<Rightarrow> CEMI rd" where
  "CEMI_read codes twoLevel =
     rd_bind rd_UInt8 (\<lambda>mc.
     rd_bind rd_UInt8 (\<lambda>ail.
     rd_bind (rd_raw 2) (\<lambda>cb.
     rd_bind (rd_raw 2) (\<lambda>sa.
     rd_bind (rd_raw 2) (\<lambda>da.
       (let c = ctrlStruct_parse cb;
            hdr = \<lparr>msgcode = mc, addinfoLength = Some ail, cemi_ctrl = Some c,
                   srcAddr = Address_toString sa TYPE_PHYSICAL twoLevel,
                   destAddr = Address_toString da (destAddrType c) twoLevel,
                   apdu = None\<rparr>
        in if is_L_Data mc
           then rd_bind (APDU_read codes) (\<lambda>a. rd_return (hdr\<lparr>apdu := Some a\<rparr>))
           else rd_return hdr))))))"

text \<open>
  \<^verbatim>\<open>KNXNetHeader.read\<close>. The guard of the source is
  \<^verbatim>\<open>this.buffer.length + hdr.headerLength < this.totalLength\<close>, in a callback where
  \<^verbatim>\<open>this\<close> is the reader and \<^verbatim>\<open>hdr\<close> the header being read. The reader has a
  buffer and an offset and no property \<^verbatim>\<open>totalLength\<close> (the total length read from
  the wire is \<^verbatim>\<open>hdr.totalLength\<close>), so the right-hand side is \<^verbatim>\<open>undefined\<close>, and a
  number is never less than \<^verbatim>\<open>undefined\<close>.
\<close>

definition reader_totalLength :: "nat option" where
  "reader_totalLength = None"

definition js_less :: "nat \<Rightarrow> nat option \<Rightarrow> bool" where
  "js_less a b = (case b of None \<Rightarrow> False | Some n \<Rightarrow> a < n)"

definition KNXNetHeader_read_body ::
  "string list \<Rightarrow> bool \<Rightarrow> nat \<Rightarrow> nat \<Rightarrow> KNXNetHeader \<Rightarrow> KNXNetHeader rd" where
  "KNXNetHeader_read_body codes twoLevel buflen tot hdr =
     (let st = serviceType hdr in
      if st = SEARCH_REQUEST \<or> st = CONNECT_REQUEST then
        rd_bind (HPAI_read buflen) (\<lambda>h.
        rd_bind (HPAI_read buflen) (\<lambda>t.
        rd_bind CRI_read (\<lambda>c.
        rd_return (hdr\<lparr>hpai := Some h, tunn := Some t, cri := Some c\<rparr>))))
      else if st = SEARCH_RESPONSE then
        rd_bind (HPAI_read buflen) (\<lambda>h.
        rd_bind (DIBdevinfo_read buflen twoLevel) (\<lambda>d.
        rd_return (hdr\<lparr>hpai := Some h, devinfo := Some d\<rparr>)))
      else if st = CONNECT_RESPONSE \<or> st = CONNECTIONSTATE_REQUEST
              \<or> st = CONNECTIONSTATE_RESPONSE \<or> st = DISCONNECT_REQUEST
              \<or> st = DISCONNECT_RESPONSE then
        rd_bind ConnState_read (\<lambda>cs.
        rd_bind (if tot > 8
                 then rd_bind (HPAI_read buflen) (\<lambda>h. rd_return (Some h))
                 else rd_return None) (\<lambda>h.
        rd_bind (if tot > 16
                 then rd_bind CRI_read (\<lambda>c. rd_return (Some c))
                 else rd_return None) (\<lambda>c.
        rd_return (hdr\<lparr>connstate := Some cs, hpai := h, cri := c\<rparr>))))
      else if st = DESCRIPTION_RESPONSE then
        rd_bind (rd_raw tot) (\<lambda>v.
        rd_return (hdr\<lparr>description := Some v\<rparr>))
      else if st = TUNNELING_REQUEST then
        rd_bind TunnState_read (\<lambda>ts.
        rd_bind (CEMI_read codes twoLevel) (\<lambda>ce.
        rd_return (hdr\<lparr>tunnstate := Some ts, cemi := Some ce\<rparr>)))
      else if st = TUNNELING_ACK then
        rd_bind TunnState_read (\<lambda>ts.
        rd_return (hdr\<lparr>tunnstate := Some ts\<rparr>))
      else if st = ROUTING_INDICATION then
        rd_bind (CEMI_read codes twoLevel) (\<lambda>ce.
        rd_return (hdr\<lparr>cemi := Some ce\<rparr>))
      else rd_return hdr)"

definition KNXNetHeader_rd :: "string list \<Rightarrow> bool \<Rightarrow> nat \<Rightarrow> KNXNetHeader rd" where
  "KNXNetHeader_rd codes twoLevel buflen =
     rd_bind rd_UInt8 (\<lambda>hl.
     rd_bind rd_UInt8 (\<lambda>pv.
     rd_bind rd_UInt16BE (\<lambda>st.
     rd_bind rd_UInt16BE (\<lambda>tot.
       if js_less (buflen + hl) reader_totalLength then rd_throw IncompletePacket
       else KNXNetHeader_read_body codes twoLevel buflen tot
              \<lparr>headerLength = hl, protocolVersion = pv, serviceType = st,
               totalLength = Some tot, hpai = None, tunn = None, cri = None,
               connstate = None, tunnstate = None, cemi = None, devinfo = None,
               description = None\<rparr>))))"

text \<open>Reading a whole message: the reader is created on the buffer, at offset 0.\<close>

definition KNXNetHeader_read :: "string list \<Rightarrow> bool \<Rightarrow> byte list \<Rightarrow> error + KNXNetHeader" where
  "KNXNetHeader_read codes twoLevel msg =
     (case KNXNetHeader_rd codes twoLevel (length msg) msg of
        Inl e \<Rightarrow> Inl e
      | Inr (v, rest) \<Rightarrow> Inr v)"

subsection \<open>The datagram builder (\<^verbatim>\<open>KnxDatagram\<close>)\<close>

text \<open>
  The options bundle: a key that is not given is \<open>None\<close>. The constructor assigns the
  given options over its defaults; the state machine does the same with its own
  defaults first and hands the result to every datagram it builds.
\<close>

record options =
  suppress_ack_ldatareq :: "bool option"
  use_tunneling :: "bool option"
  twoLevelAddressing :: "bool option"
  physAddr :: "knx_address option"
  remoteEndpoint :: "IPv4Endpoint option"
  physServerAddr :: "knx_address option"

definition assign :: "'a option \<Rightarrow> 'a option \<Rightarrow> 'a option" where
  "assign dflt given = (case given of None \<Rightarrow> dflt | Some x \<Rightarrow> Some x)"

definition truthy :: "bool option \<Rightarrow> bool" where
  "truthy b = (case b of None \<Rightarrow> False | Some x \<Rightarrow> x)"

text \<open>
  A datagram object: its options, the channel and the remote control endpoint it was
  built for, the frame, and its correlation id (a fresh \<^verbatim>\<open>uuidv4()\<close> in the source, a
  parameter here). The remote control endpoint is the object \<^verbatim>\<open>{addr, port}\<close> of the
  state machine: \<open>None\<close> while both are \<^verbatim>\<open>null\<close>. The constructor also copies
  \<^verbatim>\<open>twoLevelAddressing\<close> into the codec's process-wide flag; the codec functions here
  take the flag of the datagram they serve.
\<close>

record KnxDatagram =
  dg_options :: options
  useTunneling :: bool
  dg_channelID :: "nat option"
  dg_remoteControlEndpoint :: "IPv4Endpoint option"
  datagram :: KNXNetHeader
  uuid :: nat

definition KnxDatagram_options :: "options \<Rightarrow> options" where
  "KnxDatagram_options opts =
     opts\<lparr>suppress_ack_ldatareq := assign (Some True) (suppress_ack_ldatareq opts),
          use_tunneling := assign (Some True) (use_tunneling opts),
          twoLevelAddressing := assign (Some True) (twoLevelAddressing opts)\<rparr>"

definition dg_twoLevel :: "KnxDatagram \<Rightarrow> bool" where
  "dg_twoLevel dg = truthy (twoLevelAddressing (dg_options dg))"

definition addHPAI :: "KNXNetHeader \<Rightarrow> KNXNetHeader" where
  "addHPAI d =
     d\<lparr>hpai := Some \<lparr>hpai_headerLength = None, protocolType = 1,
                      tunnelEndpoint = Some (Endpoint [0, 0, 0, 0] 0)\<rparr>\<rparr>"

definition addTunn :: "KNXNetHeader \<Rightarrow> KNXNetHeader" where
  "addTunn d =
     d\<lparr>tunn := Some \<lparr>hpai_headerLength = None, protocolType = 1,
                      tunnelEndpoint = Some (Endpoint [0, 0, 0, 0] 0)\<rparr>\<rparr>"

definition addCRI :: "KNXNetHeader \<Rightarrow> KNXNetHeader" where
  "addCRI d =
     d\<lparr>cri := Some \<lparr>cri_headerLength = None, connectionType = TUNNEL_CONNECTION,
                     knxLayer = LINK_LAYER, unused = 0\<rparr>\<rparr>"

definition addConnState :: "nat option \<Rightarrow> KNXNetHeader \<Rightarrow> KNXNetHeader" where
  "addConnState channelID d =
     d\<lparr>connstate := Some \<lparr>cs_channelId = channelID, cs_status = None, cs_state = Some 0\<rparr>\<rparr>"

definition addTunnState ::
  "nat option \<Rightarrow> IPv4Endpoint option \<Rightarrow> KNXNetHeader \<Rightarrow> KNXNetHeader" where
  "addTunnState channelID remote d =
     d\<lparr>tunnstate := Some \<lparr>ts_headerLength = None, ts_channelId = channelID, seqnum = None,
                           ts_status = None, ts_tunnelEndpoint = Some remote\<rparr>\<rparr>"

definition addCEMI :: "options \<Rightarrow> nat option \<Rightarrow> KNXNetHeader \<Rightarrow> KNXNetHeader" where
  "addCEMI opts mc d =
     (let mcode = (case mc of None \<Rightarrow> L_Data_req | Some 0 \<Rightarrow> L_Data_req | Some m \<Rightarrow> m);
          sendAck = (mcode = L_Data_req \<and> \<not> truthy (suppress_ack_ldatareq opts))
      in d\<lparr>cemi := Some
            \<lparr>msgcode = mcode,
             addinfoLength = None,
             cemi_ctrl = Some
               \<lparr>frameType = 1, reserved = 0, repeat = 1, broadcast = 1, priority = 3,
                acknowledge = (if sendAck then 1 else 0), confirm = 0,
                destAddrType = 1, hopCount = 6, extendedFrame = 0\<rparr>,
             srcAddr = (case physAddr opts of None \<Rightarrow> Physical 15 15 15 | Some a \<Rightarrow> a),
             destAddr = Group3 0 0 0,
             apdu = Some
               \<lparr>apduLength = None, apduRaw = None, tpci = 0,
                apci = Some ''GroupValue_Write'', data = Num 0, bitlength = None\<rparr>\<rparr>\<rparr>)"

text \<open>
  \<^verbatim>\<open>buildDatagram\<close>. \<^verbatim>\<open>channelID || null\<close> turns the channel 0 into \<^verbatim>\<open>null\<close>. The
  case of CONNECT_REQUEST falls through into that of CONNECTIONSTATE_REQUEST.
\<close>

definition buildDatagram ::
  "nat \<Rightarrow> IPv4Endpoint option \<Rightarrow> nat option \<Rightarrow> KnxDatagram \<Rightarrow> KnxDatagram" where
  "buildDatagram svcType remote channelID dg =
     (let ch = (case channelID of Some 0 \<Rightarrow> None | c \<Rightarrow> c);
          d0 = addHPAI
                 \<lparr>headerLength = 6, protocolVersion = 16, serviceType = svcType,
                  totalLength = None, hpai = None, tunn = None, cri = None,
                  connstate = None, tunnstate = None, cemi = None, devinfo = None,
                  description = None\<rparr>;
          d1 =
            (if svcType = SEARCH_REQUEST then d0
             else if svcType = CONNECT_REQUEST then addConnState ch (addCRI (addTunn d0))
             else if svcType = CONNECTIONSTATE_REQUEST \<or> svcType = DISCONNECT_REQUEST
               then addConnState ch d0
             else if svcType = ROUTING_INDICATION
               then addCEMI (dg_options dg) (Some L_Data_ind) d0
             else if svcType = TUNNELING_REQUEST
               then addCEMI (dg_options dg) None (addTunnState ch remote (addTunn d0))
             else if svcType = TUNNELING_ACK then addTunnState ch remote d0
             else d0)
      in dg\<lparr>dg_channelID := ch, dg_remoteControlEndpoint := remote, datagram := d1\<rparr>)"

definition fromServiceRequest ::
  "nat \<Rightarrow> nat \<Rightarrow> options \<Rightarrow> IPv4Endpoint option \<Rightarrow> nat option \<Rightarrow> KnxDatagram" where
  "fromServiceRequest fresh svcType opts remote channelID =
     (let o' = KnxDatagram_options opts in
      buildDatagram svcType remote channelID
        \<lparr>dg_options = o', useTunneling = truthy (use_tunneling o'), dg_channelID = None,
         dg_remoteControlEndpoint = None,
         datagram = \<lparr>headerLength = 6, protocolVersion = 16, serviceType = svcType,
                      totalLength = None, hpai = None, tunn = None, cri = None,
                      connstate = None, tunnstate = None, cemi = None, devinfo = None,
                      description = None\<rparr>,
         uuid = fresh\<rparr>)"

text \<open>
  \<^verbatim>\<open>getSeqNum\<close> is \<^verbatim>\<open>this.datagram.tunnstate.seqnum || -1\<close>: a sequence number that
  is absent or 0 is falsy. Both accessors raise on a datagram without a
  \<^verbatim>\<open>tunnstate\<close>.
\<close>

definition getSeqNum :: "KnxDatagram \<Rightarrow> error + int" where
  "getSeqNum dg =
     (case tunnstate (datagram dg) of
        None \<Rightarrow> Inl TypeError
      | Some ts \<Rightarrow>
          (case seqnum ts of None \<Rightarrow> Inr (- 1) | Some 0 \<Rightarrow> Inr (- 1) | Some n \<Rightarrow> Inr (int n)))"

definition setSeqNum :: "nat \<Rightarrow> KnxDatagram \<Rightarrow> error + KnxDatagram" where
  "setSeqNum n dg =
     (case tunnstate (datagram dg) of
        None \<Rightarrow> Inl TypeError
      | Some ts \<Rightarrow>
          Inr (dg\<lparr>datagram := (datagram dg)\<lparr>tunnstate := Some (ts\<lparr>seqnum := Some n\<rparr>)\<rparr>\<rparr>))"

text \<open>
  The request mutators apply their template to the frame, then set the service type:
  TUNNELING_REQUEST, or ROUTING_INDICATION when \<^verbatim>\<open>use_tunneling\<close> is off. They raise
  on a frame without \<^verbatim>\<open>cemi.apdu\<close>. (\<^verbatim>\<open>makeWriteRequest\<close> and
  \<^verbatim>\<open>makeRespondRequest\<close> fill the APDU through the datapoint library, which is not
  among the sources.)
\<close>

definition request_serviceType :: "KnxDatagram \<Rightarrow> nat" where
  "request_serviceType dg = (if useTunneling dg then TUNNELING_REQUEST else ROUTING_INDICATION)"

definition with_apdu ::
  "(CEMI \<Rightarrow> APDU \<Rightarrow> CEMI) \<Rightarrow> KnxDatagram \<Rightarrow> error + KnxDatagram" where
  "with_apdu f dg =
     (case cemi (datagram dg) of
        None \<Rightarrow> Inl TypeError
      | Some ce \<Rightarrow>
          (case apdu ce of
             None \<Rightarrow> Inl TypeError
           | Some a \<Rightarrow>
               Inr (dg\<lparr>datagram := (datagram dg)\<lparr>cemi := Some (f ce a),
                                                 serviceType := request_serviceType dg\<rparr>\<rparr>)))"

definition makeReadRequest :: "knx_address \<Rightarrow> KnxDatagram \<Rightarrow> error + KnxDatagram" where
  "makeReadRequest grpaddr dg =
     with_apdu (\<lambda>ce a. ce\<lparr>apdu := Some (a\<lparr>apci := Some ''GroupValue_Read''\<rparr>),
                           destAddr := grpaddr\<rparr>) dg"

definition makeWriteRawRequest ::
  "knx_address \<Rightarrow> byte list \<Rightarrow> nat option \<Rightarrow> KnxDatagram \<Rightarrow> error + KnxDatagram" where
  "makeWriteRawRequest grpaddr val bitlen dg =
     with_apdu (\<lambda>ce a. ce\<lparr>apdu := Some (a\<lparr>data := Buf val,
                                            bitlength := Some (case bitlen of
                                                                 None \<Rightarrow> length val * 8
                                                               | Some 0 \<Rightarrow> length val * 8
                                                               | Some b \<Rightarrow> b)\<rparr>),
                           destAddr := grpaddr\<rparr>) dg"

text \<open>
  \<^verbatim>\<open>datagramDesc\<close>: the service type and, for a tunneling request and a routing
  indication, the message code of the CEMI (the source joins their names into one
  string).
\<close>

definition datagramDesc :: "KnxDatagram \<Rightarrow> error + (nat \<times> nat option)" where
  "datagramDesc dg =
     (let st = serviceType (datagram dg) in
      if st = TUNNELING_REQUEST \<or> st = ROUTING_INDICATION then
        (case cemi (datagram dg) of
           None \<Rightarrow> Inl TypeError
         | Some ce \<Rightarrow> Inr (st, Some (msgcode ce)))
      else Inr (st, None))"

text \<open>
  \<^verbatim>\<open>send\<close>: the frame is written and handed to the socket with the remote address.
  Everything happens inside \<^verbatim>\<open>try\<close>: an error is logged (and passed to the callback
  when that is a function) and nothing is sent. \<open>Inr\<close> is the buffer given to the
  socket and its destination. The socket is \<^verbatim>\<open>null\<close> when \<open>sock\<close> is false.
\<close>

definition send ::
  "string list \<Rightarrow> KnxDatagram \<Rightarrow> bool \<Rightarrow> IPv4Endpoint option
     \<Rightarrow> error + (byte list \<times> IPv4Endpoint)" where
  "send codes dg sock remote =
     (let st = serviceType (datagram dg) in
      if (st = ROUTING_INDICATION \<or> st = TUNNELING_REQUEST) \<and> cemi (datagram dg) = None
      then Inl TypeError
      else
        (case KNXNetHeader_write codes (dg_twoLevel dg) (datagram dg) of
           Inl e \<Rightarrow> Inl e
         | Inr buf \<Rightarrow>
             (case datagramDesc dg of
                Inl e \<Rightarrow> Inl e
              | Inr _ \<Rightarrow>
                  if \<not> sock then Inl TypeError
                  else (case remote of None \<Rightarrow> Inl TypeError | Some r \<Rightarrow> Inr (buf, r)))))"

text \<open>
  \<^verbatim>\<open>parseKnxMessage\<close>: \<open>None\<close> is \<^verbatim>\<open>null\<close>. A message that cannot be read is logged
  and dropped; so is a frame with a \<^verbatim>\<open>connstate\<close> or a \<^verbatim>\<open>tunnstate\<close> for another
  channel, when the channel of the session is known.
\<close>

definition other_channel :: "nat option \<Rightarrow> KNXNetHeader \<Rightarrow> bool" where
  "other_channel channelID d =
     (case channelID of
        None \<Rightarrow> False
      | Some c \<Rightarrow>
          (case connstate d of None \<Rightarrow> False | Some cs \<Rightarrow> cs_channelId cs \<noteq> Some c)
          \<or> (case tunnstate d of None \<Rightarrow> False | Some ts \<Rightarrow> ts_channelId ts \<noteq> Some c))"

definition parseKnxMessage ::
  "string list \<Rightarrow> nat \<Rightarrow> nat option \<Rightarrow> byte list \<Rightarrow> options \<Rightarrow> KnxDatagram option" where
  "parseKnxMessage codes fresh channelID msg opts =
     (let o' = KnxDatagram_options opts in
      case KNXNetHeader_read codes (truthy (twoLevelAddressing o')) msg of
        Inl e \<Rightarrow> None
      | Inr d \<Rightarrow>
          (let dg = \<lparr>dg_options = o', useTunneling = truthy (use_tunneling o'),
                     dg_channelID = None, dg_remoteControlEndpoint = None,
                     datagram = d, uuid = fresh\<rparr>
           in case datagramDesc dg of
                Inl e \<Rightarrow> None
              | Inr _ \<Rightarrow> if other_channel channelID d then None else Some dg))"

subsection \<open>Sample values\<close>

text \<open>
  Modelled from the spec: the entries of \<^verbatim>\<open>KnxConstants.APCICODES\<close> that the spec
  names, in the order it names them. The codec takes its table as a parameter; this
  one is used where a concrete table is needed.
\<close>

definition APCICODES :: "string list" where
  "APCICODES = [''GroupValue_Read'', ''GroupValue_Response'', ''GroupValue_Write'']"

text \<open>The options the state machine starts from when the caller gives none.\<close>

definition default_options :: options where
  "default_options =
     \<lparr>suppress_ack_ldatareq = None, use_tunneling = None, twoLevelAddressing = Some False,
      physAddr = None, remoteEndpoint = None, physServerAddr = Some (Physical 1 1 220)\<rparr>"

definition gateway :: IPv4Endpoint where
  "gateway = Endpoint [192, 168, 1, 10] 3671"

subsection \<open>Predicates of the statements\<close>

text \<open>
  The words of the claims about the APDU. The TPCI/APCI word is
  \<^verbatim>\<open>tpci<<10 | apci<<6 | data6\<close>. A value has the short payload \<open>d\<close> when its data
  is the integer \<open>d\<close> or the one-byte buffer holding \<open>d\<close>, with \<open>d\<close> at most 63, and
  its \<^verbatim>\<open>bitlength\<close>, if set, is at most 6; it has the long payload \<open>bs\<close> when its data
  is that buffer of 1 to 14 bytes and either its \<^verbatim>\<open>bitlength\<close> is set, above 6 and
  rounds up to as many bytes, or it is not set and a single byte is above 63.
\<close>

definition apdu_word :: "nat \<Rightarrow> nat \<Rightarrow> nat \<Rightarrow> nat" where
  "apdu_word t a d = or (push_bit 10 t) (or (push_bit 6 a) d)"

definition short_payload :: "APDU \<Rightarrow> nat \<Rightarrow> bool" where
  "short_payload v d =
     (d \<le> 63 \<and> (data v = Num (int d) \<or> data v = Buf [of_nat d])
      \<and> (case bitlength v of None \<Rightarrow> True | Some b \<Rightarrow> b \<le> 6))"

definition long_payload :: "APDU \<Rightarrow> byte list \<Rightarrow> bool" where
  "long_payload v bs =
     (data v = Buf bs \<and> 1 \<le> length bs \<and> length bs \<le> 14
      \<and> (case bitlength v of
            Some (Suc b) \<Rightarrow> 6 < Suc b \<and> (Suc b + 7) div 8 = length bs
          | _ \<Rightarrow> length bs \<noteq> 1 \<or> 63 < unat (hd bs)))"

text \<open>Sample APDU values: the default of the builder with another payload or name.\<close>

definition sample_apdu :: "string \<Rightarrow> payload \<Rightarrow> nat option \<Rightarrow> APDU" where
  "sample_apdu nm d bl =
     \<lparr>apduLength = None, apduRaw = None, tpci = 0, apci = Some nm, data = d, bitlength = bl\<rparr>"

subsection \<open>The connection state machine\<close>

text \<open>
  The state machine is a \<^verbatim>\<open>machina\<close> FSM: a table of states, each with handlers by
  input name, \<^verbatim>\<open>_onEnter\<close> and \<^verbatim>\<open>_onExit\<close>. An input is its name and its
  argument; \<open>Other\<close> stands for every name no state lists. The two inputs that carry a
  response or its absence (the timer passes \<^verbatim>\<open>null\<close>) take an \<open>option\<close>.
\<close>

datatype state_name =
    uninitialized | idle | searching | connecting | connected | waiting | online
  | inbound_TUNNELING_REQUEST_L_Data
  | outbound_CONNECTIONSTATE_REQUEST
  | outbound_TUNNELING_REQUEST
  | disconnecting

datatype input =
    In_startsearch
  | In_timeout
  | In_disconnect
  | In_ok
  | In_send_CONNECTIONSTATE_REQUEST
  | In_send_TUNNELING_REQUEST
  | In_outbound_CONNECTIONSTATE_REQUEST
  | In_outbound_TUNNELING_REQUEST KnxDatagram
  | In_inbound_SEARCH_RESPONSE KNXNetHeader
  | In_inbound_CONNECT_RESPONSE KNXNetHeader
  | In_inbound_CONNECTIONSTATE_RESPONSE "KNXNetHeader option"
  | In_inbound_DISCONNECT_REQUEST KNXNetHeader
  | In_inbound_DISCONNECT_RESPONSE KNXNetHeader
  | In_inbound_TUNNELING_REQUEST_L_Data_ind KNXNetHeader
  | In_inbound_TUNNELING_REQUEST_L_Data_con KNXNetHeader
  | In_inbound_TUNNELING_ACK "KNXNetHeader option"
  | Other

text \<open>
  What the state machine does to the outside: the buffers it hands to a socket, the
  events it emits, and the timers it arms and clears. An event carries the parts of
  its name and its arguments; the response code of \<^verbatim>\<open>ReceivedAck_<uuid>\<close> is the
  status byte, \<open>None\<close> for \<^verbatim>\<open>null\<close>.
\<close>

datatype event =
    Ev_online
  | Ev_offline
  | Ev_apci_dest "string option" knx_address knx_address payload
      \<comment> \<open>\<^verbatim>\<open><apci>_<dest>(src, data)\<close>: name parts, then source and payload\<close>
  | Ev_event_dest knx_address "string option" knx_address payload
      \<comment> \<open>\<^verbatim>\<open>event_<dest>(apci, src, data)\<close>\<close>
  | Ev_event "string option" knx_address knx_address payload
      \<comment> \<open>\<^verbatim>\<open>event(apci, src, dest, data)\<close>\<close>
  | Ev_ReceivedAck nat "nat option"

datatype timer_name = timer | ackTimer | connStateTimer | connStateRequestTimer

datatype timer_op =
    SetTimeout timer_name nat input
  | SetInterval timer_name nat input
  | Clear timer_name
  | SetImmediate input

record fsm =
  fsm_options :: options
  state :: state_name
  channelID :: "nat option"
  connectionHeartbeatFailures :: nat
  inboundSeqNum :: nat
  outboundSeqNum :: nat
  remoteControlEndpoint :: "IPv4Endpoint option"
  controlSocket :: bool
  discoverSocket :: bool
  outboundDatagram :: "KnxDatagram option"
  outboundFailures :: nat
  inputQueue :: "(input \<times> state_name option) list"
  sent :: "(byte list \<times> IPv4Endpoint) list"
  emitted :: "event list"
  timers :: "timer_op list"
  thrown :: "error list"

text \<open>
  \<^verbatim>\<open>initialize\<close>: the given options are assigned over the defaults of the state
  machine.
\<close>

definition initialize :: "options \<Rightarrow> fsm" where
  "initialize opts =
     \<lparr>fsm_options = opts\<lparr>physServerAddr := assign (Some (Physical 1 1 220)) (physServerAddr opts),
                          twoLevelAddressing := assign (Some False) (twoLevelAddressing opts)\<rparr>,
      state = uninitialized, channelID = None, connectionHeartbeatFailures = 0,
      inboundSeqNum = 0, outboundSeqNum = 0, remoteControlEndpoint = None,
      controlSocket = False, discoverSocket = False, outboundDatagram = None,
      outboundFailures = 0, inputQueue = [], sent = [], emitted = [], timers = [],
      thrown = []\<rparr>"

definition emit :: "event \<Rightarrow> fsm \<Rightarrow> fsm" where
  "emit e s = s\<lparr>emitted := emitted s @ [e]\<rparr>"

definition arm :: "timer_op \<Rightarrow> fsm \<Rightarrow> fsm" where
  "arm t s = s\<lparr>timers := timers s @ [t]\<rparr>"

definition throw :: "error \<Rightarrow> fsm \<Rightarrow> fsm" where
  "throw e s = s\<lparr>thrown := thrown s @ [e]\<rparr>"

definition deferUntilTransition :: "input \<Rightarrow> state_name option \<Rightarrow> fsm \<Rightarrow> fsm" where
  "deferUntilTransition i target s = s\<lparr>inputQueue := inputQueue s @ [(i, target)]\<rparr>"

text \<open>
  \<^verbatim>\<open>dg.send(socket, remote)\<close> from the state machine: a buffer that was written is
  handed to the socket; an error is logged inside \<^verbatim>\<open>send\<close> and nothing is sent.
\<close>

definition fsm_send :: "string list \<Rightarrow> KnxDatagram \<Rightarrow> bool \<Rightarrow> IPv4Endpoint option \<Rightarrow> fsm \<Rightarrow> fsm" where
  "fsm_send codes dg sock remote s =
     (case send codes dg sock remote of
        Inl e \<Rightarrow> s
      | Inr out \<Rightarrow> s\<lparr>sent := sent s @ [out]\<rparr>)"

text \<open>
  \<^verbatim>\<open>_prepareKnxDatagram\<close>. The correlation id of a datagram the state machine builds
  for itself is never read; it is 0 here.
\<close>

definition prepareKnxDatagram :: "nat \<Rightarrow> fsm \<Rightarrow> KnxDatagram" where
  "prepareKnxDatagram svcType s =
     fromServiceRequest 0 svcType (fsm_options s) (remoteControlEndpoint s) (channelID s)"

subsubsection \<open>Entering and leaving a state\<close>

definition exit_state :: "fsm \<Rightarrow> fsm" where
  "exit_state s =
     (case state s of
        idle \<Rightarrow> arm (Clear timer) s
      | searching \<Rightarrow> (arm (Clear timer) s)\<lparr>discoverSocket := False\<rparr>
      | connecting \<Rightarrow> arm (Clear timer) s
      | waiting \<Rightarrow> arm (Clear timer) s
      | outbound_CONNECTIONSTATE_REQUEST \<Rightarrow> arm (Clear connStateTimer) s
      | outbound_TUNNELING_REQUEST \<Rightarrow>
          (arm (Clear ackTimer) s)\<lparr>outboundDatagram := None, outboundFailures := 0\<rparr>
      | disconnecting \<Rightarrow> arm (Clear timer) s
      | _ \<Rightarrow> s)"

definition enter_idle :: "fsm \<Rightarrow> fsm" where
  "enter_idle s =
     arm (SetTimeout timer 2000 In_startsearch)
       ((emit Ev_offline s)\<lparr>controlSocket := False, channelID := None\<rparr>)"

text \<open>
  \<^verbatim>\<open>_startSearch\<close> opens the discovery socket and sends a SEARCH_REQUEST to the
  multicast group.
\<close>

definition startSearch :: "string list \<Rightarrow> fsm \<Rightarrow> fsm" where
  "startSearch codes s =
     (let s1 = s\<lparr>discoverSocket := True\<rparr> in
      fsm_send codes (prepareKnxDatagram SEARCH_REQUEST s1) True
        (Some (Endpoint [224, 0, 23, 12] 3671)) s1)"

definition enter_searching :: "string list \<Rightarrow> fsm \<Rightarrow> fsm" where
  "enter_searching codes s =
     (let s1 = arm (SetTimeout timer 15000 In_timeout) s in
      case remoteEndpoint (fsm_options s1) of
        None \<Rightarrow> startSearch codes s1
      | Some _ \<Rightarrow> s1)"

definition startConnect :: "string list \<Rightarrow> fsm \<Rightarrow> fsm" where
  "startConnect codes s =
     (let s1 = s\<lparr>controlSocket := True\<rparr> in
      fsm_send codes (prepareKnxDatagram CONNECT_REQUEST s1) True (remoteControlEndpoint s1) s1)"

definition enter_connecting :: "string list \<Rightarrow> fsm \<Rightarrow> fsm" where
  "enter_connecting codes s = startConnect codes (arm (SetTimeout timer 15000 In_timeout) s)"

definition enter_online :: "fsm \<Rightarrow> fsm" where
  "enter_online s = s"

definition enter_waiting :: "fsm \<Rightarrow> fsm" where
  "enter_waiting s = arm (SetTimeout timer 50 In_timeout) s"

text \<open>
  \<^verbatim>\<open>connected._onEnter\<close> resets the counters, arms the heartbeat, emits \<^verbatim>\<open>online\<close>
  and moves on to \<^verbatim>\<open>online\<close> at once (\<^verbatim>\<open>connected\<close> has no \<^verbatim>\<open>_onExit\<close>).
\<close>

definition enter_connected :: "fsm \<Rightarrow> fsm" where
  "enter_connected s =
     (let s1 = s\<lparr>connectionHeartbeatFailures := 0, inboundSeqNum := 0, outboundSeqNum := 0\<rparr>;
          s2 = arm (SetInterval connStateRequestTimer 45000 In_outbound_CONNECTIONSTATE_REQUEST) s1;
          s3 = emit Ev_online s2
      in enter_online (s3\<lparr>state := online\<rparr>))"

definition enter_disconnecting :: "string list \<Rightarrow> fsm \<Rightarrow> fsm" where
  "enter_disconnecting codes s =
     (let s1 = s\<lparr>inputQueue := []\<rparr>;
          s2 = arm (Clear connStateRequestTimer) s1;
          s3 = arm (SetTimeout timer 10000 In_timeout) s2
      in fsm_send codes (prepareKnxDatagram DISCONNECT_REQUEST s3) (controlSocket s3)
           (remoteControlEndpoint s3) s3)"

text \<open>
  \<^verbatim>\<open>inbound_TUNNELING_REQUEST_L_Data._onEnter\<close>. The acknowledgement is a
  TUNNELING_ACK skeleton with the sequence number of the inbound frame. The handler
  reads \<^verbatim>\<open>datagram.tunnstate.seqnum\<close> and, for an expected frame,
  \<^verbatim>\<open>datagram.cemi.apdu\<close>: it raises when they are missing. It ends in \<^verbatim>\<open>waiting\<close>
  (the state has no \<^verbatim>\<open>_onExit\<close>).
\<close>

definition enter_inbound_TUNNELING_REQUEST_L_Data ::
  "string list \<Rightarrow> KNXNetHeader \<Rightarrow> fsm \<Rightarrow> fsm" where
  "enter_inbound_TUNNELING_REQUEST_L_Data codes dgram s =
     (case tunnstate dgram of
        None \<Rightarrow> throw TypeError s
      | Some ts \<Rightarrow>
          (case seqnum ts of
             None \<Rightarrow> enter_waiting (s\<lparr>state := waiting\<rparr>)
           | Some sq \<Rightarrow>
               if sq = inboundSeqNum s \<or> sq = (inboundSeqNum s + 255) mod 256 then
                 (case setSeqNum sq (prepareKnxDatagram TUNNELING_ACK s) of
                    Inl e \<Rightarrow> throw e s
                  | Inr ack \<Rightarrow>
                      (let s1 = fsm_send codes ack (controlSocket s) (remoteControlEndpoint s) s
                       in
                       if sq = inboundSeqNum s1 then
                         (let s2 = s1\<lparr>inboundSeqNum := (inboundSeqNum s1 + 1) mod 256\<rparr> in
                          case cemi dgram of
                            None \<Rightarrow> throw TypeError s2
                          | Some ce \<Rightarrow>
                              (case apdu ce of
                                 None \<Rightarrow> throw TypeError s2
                               | Some a \<Rightarrow>
                                   enter_waiting
                                     ((emit (Ev_event (apci a) (srcAddr ce) (destAddr ce) (data a))
                                       (emit (Ev_event_dest (destAddr ce) (apci a) (srcAddr ce)
                                                (data a))
                                       (emit (Ev_apci_dest (apci a) (destAddr ce) (srcAddr ce)
                                                (data a))
                                          s2)))\<lparr>state := waiting\<rparr>)))
                       else enter_waiting (s1\<lparr>state := waiting\<rparr>)))
               else enter_waiting (s\<lparr>state := waiting\<rparr>)))"

text \<open>
  The handlers \<^verbatim>\<open>send_CONNECTIONSTATE_REQUEST\<close> and \<^verbatim>\<open>send_TUNNELING_REQUEST\<close>, which
  \<^verbatim>\<open>_onEnter\<close> of their states raises at once.
\<close>

definition send_CONNECTIONSTATE_REQUEST :: "string list \<Rightarrow> fsm \<Rightarrow> fsm" where
  "send_CONNECTIONSTATE_REQUEST codes s =
     (let s1 = arm (SetTimeout connStateTimer 10000 (In_inbound_CONNECTIONSTATE_RESPONSE None)) s
      in fsm_send codes (prepareKnxDatagram CONNECTIONSTATE_REQUEST s1) (controlSocket s1)
           (remoteControlEndpoint s1) s1)"

definition send_TUNNELING_REQUEST :: "string list \<Rightarrow> fsm \<Rightarrow> fsm" where
  "send_TUNNELING_REQUEST codes s =
     (let s1 = arm (SetTimeout ackTimer 1000 (In_inbound_TUNNELING_ACK None)) s in
      case outboundDatagram s1 of
        None \<Rightarrow> throw TypeError s1
      | Some dg \<Rightarrow> fsm_send codes dg (controlSocket s1) (remoteControlEndpoint s1) s1)"

definition enter_outbound_TUNNELING_REQUEST :: "string list \<Rightarrow> KnxDatagram \<Rightarrow> fsm \<Rightarrow> fsm" where
  "enter_outbound_TUNNELING_REQUEST codes dg s =
     (case setSeqNum (outboundSeqNum s) dg of
        Inl e \<Rightarrow> throw e s
      | Inr dg' \<Rightarrow>
          send_TUNNELING_REQUEST codes (s\<lparr>outboundDatagram := Some dg', outboundFailures := 0\<rparr>))"

text \<open>
  \<^verbatim>\<open>transition\<close>: nothing happens when the target is the current state; otherwise
  \<^verbatim>\<open>_onExit\<close> of the current state runs, the state changes, and \<^verbatim>\<open>_onEnter\<close> of the
  target runs with the argument of the transition. After a transition \<^verbatim>\<open>machina\<close>
  hands the queued inputs that are due back to \<^verbatim>\<open>handle\<close>, one by one; here each of
  them is a later input of the run, and the queue records what was deferred.
\<close>

datatype arg = NoArg | Frame KNXNetHeader | Dg KnxDatagram

definition enter_state :: "string list \<Rightarrow> state_name \<Rightarrow> arg \<Rightarrow> fsm \<Rightarrow> fsm" where
  "enter_state codes target a s =
     (case target of
        idle \<Rightarrow> enter_idle s
      | searching \<Rightarrow> enter_searching codes s
      | connecting \<Rightarrow> enter_connecting codes s
      | connected \<Rightarrow> enter_connected s
      | waiting \<Rightarrow> enter_waiting s
      | online \<Rightarrow> enter_online s
      | inbound_TUNNELING_REQUEST_L_Data \<Rightarrow>
          (case a of
             Frame d \<Rightarrow> enter_inbound_TUNNELING_REQUEST_L_Data codes d s
           | _ \<Rightarrow> throw TypeError s)
      | outbound_CONNECTIONSTATE_REQUEST \<Rightarrow> send_CONNECTIONSTATE_REQUEST codes s
      | outbound_TUNNELING_REQUEST \<Rightarrow>
          (case a of
             Dg dg \<Rightarrow> enter_outbound_TUNNELING_REQUEST codes dg s
           | _ \<Rightarrow> throw TypeError s)
      | disconnecting \<Rightarrow> enter_disconnecting codes s
      | uninitialized \<Rightarrow> s)"

definition transition :: "string list \<Rightarrow> state_name \<Rightarrow> arg \<Rightarrow> fsm \<Rightarrow> fsm" where
  "transition codes target a s =
     (if target = state s then s
      else enter_state codes target a ((exit_state s)\<lparr>state := target\<rparr>))"

subsubsection \<open>The handlers\<close>

definition inbound_SEARCH_RESPONSE :: "string list \<Rightarrow> KNXNetHeader \<Rightarrow> fsm \<Rightarrow> fsm" where
  "inbound_SEARCH_RESPONSE codes dgram s =
     (case (hpai dgram, devinfo dgram) of
        (Some h, Some dv) \<Rightarrow>
          (if physServerAddr (fsm_options s) = None
              \<or> Some (physicalAddr dv) = physServerAddr (fsm_options s)
           then
             (case tunnelEndpoint h of
                None \<Rightarrow> throw TypeError s
              | Some ep \<Rightarrow> transition codes connecting NoArg (s\<lparr>remoteControlEndpoint := Some ep\<rparr>))
           else s)
      | _ \<Rightarrow> throw TypeError s)"

definition inbound_CONNECT_RESPONSE :: "string list \<Rightarrow> KNXNetHeader \<Rightarrow> fsm \<Rightarrow> fsm" where
  "inbound_CONNECT_RESPONSE codes dgram s =
     (case connstate dgram of
        None \<Rightarrow> throw TypeError s
      | Some cs \<Rightarrow>
          if cs_status cs = Some E_NO_MORE_CONNECTIONS
          then transition codes idle NoArg s
          else transition codes connected NoArg (s\<lparr>channelID := cs_channelId cs\<rparr>))"

text \<open>
  \<^verbatim>\<open>inbound_CONNECTIONSTATE_RESPONSE\<close>. After the transition to \<^verbatim>\<open>disconnecting\<close>
  the handler does not return: it still schedules the next request.
\<close>

definition inbound_CONNECTIONSTATE_RESPONSE ::
  "string list \<Rightarrow> KNXNetHeader option \<Rightarrow> fsm \<Rightarrow> fsm" where
  "inbound_CONNECTIONSTATE_RESPONSE codes dgram s =
     (let s0 = arm (Clear connStateTimer) s;
          failed = (\<lambda>s1.
            (let s2 = s1\<lparr>connectionHeartbeatFailures := connectionHeartbeatFailures s1 + 1\<rparr>;
                 s3 = (if connectionHeartbeatFailures s2 > 3
                       then transition codes disconnecting NoArg s2 else s2)
             in arm (SetImmediate In_send_CONNECTIONSTATE_REQUEST) s3))
      in case dgram of
           None \<Rightarrow> failed s0
         | Some d \<Rightarrow>
             (case connstate d of
                None \<Rightarrow> throw TypeError s0
              | Some cs \<Rightarrow>
                  if cs_status cs = Some NO_ERROR
                  then transition codes waiting NoArg (s0\<lparr>connectionHeartbeatFailures := 0\<rparr>)
                  else failed s0))"

text \<open>
  \<^verbatim>\<open>inbound_TUNNELING_ACK\<close>. An acknowledgement with the current outbound sequence
  number and NO_ERROR advances the counter, emits the completion event and raises
  \<^verbatim>\<open>ok\<close>, which leads to \<^verbatim>\<open>waiting\<close>. One with another sequence number is ignored.
  An error status and a timeout (\<^verbatim>\<open>null\<close>) count as failures: after more than one
  the completion event is emitted and the machine disconnects, otherwise the request
  is sent again.
\<close>

definition inbound_TUNNELING_ACK :: "string list \<Rightarrow> KNXNetHeader option \<Rightarrow> fsm \<Rightarrow> fsm" where
  "inbound_TUNNELING_ACK codes dgram s =
     (let uuid_of = (\<lambda>s1. case outboundDatagram s1 of None \<Rightarrow> None | Some dg \<Rightarrow> Some (uuid dg));
          failed = (\<lambda>responseCode s1.
            (let s2 = s1\<lparr>outboundFailures := outboundFailures s1 + 1\<rparr> in
             if outboundFailures s2 > 1 then
               (case uuid_of s2 of
                  None \<Rightarrow> throw TypeError s2
                | Some u \<Rightarrow>
                    transition codes disconnecting NoArg (emit (Ev_ReceivedAck u responseCode) s2))
             else arm (SetImmediate In_send_TUNNELING_REQUEST) s2))
      in case dgram of
           None \<Rightarrow> failed None s
         | Some d \<Rightarrow>
             (case tunnstate d of
                None \<Rightarrow> throw TypeError s
              | Some ts \<Rightarrow>
                  if seqnum ts = Some (outboundSeqNum s) then
                    (let s1 = arm (Clear ackTimer) s in
                     if ts_status ts = Some NO_ERROR then
                       (let s2 = s1\<lparr>outboundSeqNum := (outboundSeqNum s1 + 1) mod 256\<rparr> in
                        case uuid_of s2 of
                          None \<Rightarrow> throw TypeError s2
                        | Some u \<Rightarrow>
                            transition codes waiting NoArg
                              (emit (Ev_ReceivedAck u (Some NO_ERROR)) s2))
                     else failed (ts_status ts) s1)
                  else s))"

text \<open>
  \<^verbatim>\<open>handle\<close>: the handler of the current state for the input, else its \<^verbatim>\<open>"*"\<close>
  handler, else nothing (\<^verbatim>\<open>machina\<close> emits \<^verbatim>\<open>nohandler\<close>).
\<close>

definition handle :: "string list \<Rightarrow> fsm \<Rightarrow> input \<Rightarrow> fsm" where
  "handle codes s i =
     (case state s of
        uninitialized \<Rightarrow> transition codes idle NoArg (deferUntilTransition i None s)
      | idle \<Rightarrow>
          (case i of In_startsearch \<Rightarrow> transition codes searching NoArg s | _ \<Rightarrow> s)
      | searching \<Rightarrow>
          (case i of
             In_inbound_SEARCH_RESPONSE d \<Rightarrow> inbound_SEARCH_RESPONSE codes d s
           | In_timeout \<Rightarrow> transition codes idle NoArg s
           | _ \<Rightarrow> s)
      | connecting \<Rightarrow>
          (case i of
             In_disconnect \<Rightarrow> transition codes disconnecting NoArg s
           | In_inbound_CONNECT_RESPONSE d \<Rightarrow> inbound_CONNECT_RESPONSE codes d s
           | In_timeout \<Rightarrow> transition codes disconnecting NoArg s
           | _ \<Rightarrow> s)
      | connected \<Rightarrow> deferUntilTransition i (Some online) s
      | waiting \<Rightarrow>
          (case i of
             In_inbound_TUNNELING_REQUEST_L_Data_ind d \<Rightarrow>
               transition codes inbound_TUNNELING_REQUEST_L_Data (Frame d) s
           | In_disconnect \<Rightarrow> transition codes disconnecting NoArg s
           | In_timeout \<Rightarrow> transition codes online NoArg s
           | _ \<Rightarrow> deferUntilTransition i (Some online) s)
      | online \<Rightarrow>
          (case i of
             In_disconnect \<Rightarrow> transition codes disconnecting NoArg s
           | In_inbound_DISCONNECT_REQUEST d \<Rightarrow>
               transition codes idle NoArg (arm (Clear connStateRequestTimer) s)
           | In_inbound_TUNNELING_REQUEST_L_Data_con d \<Rightarrow>
               transition codes inbound_TUNNELING_REQUEST_L_Data (Frame d) s
           | In_inbound_TUNNELING_REQUEST_L_Data_ind d \<Rightarrow>
               transition codes inbound_TUNNELING_REQUEST_L_Data (Frame d) s
           | In_outbound_CONNECTIONSTATE_REQUEST \<Rightarrow>
               transition codes outbound_CONNECTIONSTATE_REQUEST NoArg s
           | In_outbound_TUNNELING_REQUEST dg \<Rightarrow>
               transition codes outbound_TUNNELING_REQUEST (Dg dg) s
           | _ \<Rightarrow> s)
      | inbound_TUNNELING_REQUEST_L_Data \<Rightarrow> deferUntilTransition i None s
      | outbound_CONNECTIONSTATE_REQUEST \<Rightarrow>
          (case i of
             In_send_CONNECTIONSTATE_REQUEST \<Rightarrow> send_CONNECTIONSTATE_REQUEST codes s
           | In_inbound_CONNECTIONSTATE_RESPONSE d \<Rightarrow> inbound_CONNECTIONSTATE_RESPONSE codes d s
           | In_ok \<Rightarrow> transition codes waiting NoArg s
           | _ \<Rightarrow> deferUntilTransition i None s)
      | outbound_TUNNELING_REQUEST \<Rightarrow>
          (case i of
             In_send_TUNNELING_REQUEST \<Rightarrow> send_TUNNELING_REQUEST codes s
           | In_inbound_TUNNELING_ACK d \<Rightarrow> inbound_TUNNELING_ACK codes d s
           | In_ok \<Rightarrow> transition codes waiting NoArg s
           | _ \<Rightarrow> deferUntilTransition i None s)
      | disconnecting \<Rightarrow>
          (case i of
             In_inbound_DISCONNECT_RESPONSE d \<Rightarrow> transition codes idle NoArg s
           | In_timeout \<Rightarrow> transition codes idle NoArg s
           | _ \<Rightarrow> s))"

text \<open>A run of the state machine: the inputs it is given, in order.\<close>

definition run :: "string list \<Rightarrow> fsm \<Rightarrow> input list \<Rightarrow> fsm" where
  "run codes s ins = foldl (handle codes) s ins"

subsubsection \<open>The message handlers of the two sockets\<close>

text \<open>
  The name of the input an inbound frame raises is \<^verbatim>\<open>"inbound_"\<close> and its
  description.
\<close>

definition inbound_input :: "nat \<times> nat option \<Rightarrow> KNXNetHeader \<Rightarrow> input" where
  "inbound_input desc d =
     (case desc of (st, mc) \<Rightarrow>
        if st = SEARCH_RESPONSE then In_inbound_SEARCH_RESPONSE d
        else if st = CONNECT_RESPONSE then In_inbound_CONNECT_RESPONSE d
        else if st = CONNECTIONSTATE_RESPONSE then In_inbound_CONNECTIONSTATE_RESPONSE (Some d)
        else if st = DISCONNECT_REQUEST then In_inbound_DISCONNECT_REQUEST d
        else if st = DISCONNECT_RESPONSE then In_inbound_DISCONNECT_RESPONSE d
        else if st = TUNNELING_ACK then In_inbound_TUNNELING_ACK (Some d)
        else if st = TUNNELING_REQUEST \<and> mc = Some L_Data_ind
          then In_inbound_TUNNELING_REQUEST_L_Data_ind d
        else if st = TUNNELING_REQUEST \<and> mc = Some L_Data_con
          then In_inbound_TUNNELING_REQUEST_L_Data_con d
        else Other)"

text \<open>
  The input a message raises on each socket, \<open>None\<close> when it raises none. \<open>rinfo\<close> is
  the source address and port of the UDP datagram. The handler of the discovery
  socket (in \<^verbatim>\<open>_startSearch\<close>) reads \<^verbatim>\<open>response.datagram.hpai.tunnelEndpoint\<close>, so it
  raises on a frame without an HPAI, and replaces the endpoint 0.0.0.0:0 by \<open>rinfo\<close>.
  The handler of the control socket (in \<^verbatim>\<open>_startConnect\<close>) passes the frame as it was
  read.
\<close>

definition discover_message ::
  "string list \<Rightarrow> nat option \<Rightarrow> byte list \<Rightarrow> IPv4Endpoint \<Rightarrow> options \<Rightarrow> error + input option" where
  "discover_message codes chan msg rinfo opts =
     (case parseKnxMessage codes 0 chan msg opts of
        None \<Rightarrow> Inr None
      | Some response \<Rightarrow>
          (case hpai (datagram response) of
             None \<Rightarrow> Inl TypeError
           | Some h \<Rightarrow>
               (let d = (if tunnelEndpoint h = Some (Endpoint [0, 0, 0, 0] 0)
                         then (datagram response)\<lparr>hpai := Some (h\<lparr>tunnelEndpoint := Some rinfo\<rparr>)\<rparr>
                         else datagram response)
                in case datagramDesc (response\<lparr>datagram := d\<rparr>) of
                     Inl e \<Rightarrow> Inl e
                   | Inr desc \<Rightarrow> Inr (Some (inbound_input desc d)))))"

definition control_message ::
  "string list \<Rightarrow> nat option \<Rightarrow> byte list \<Rightarrow> IPv4Endpoint \<Rightarrow> options \<Rightarrow> error + input option" where
  "control_message codes chan msg rinfo opts =
     (case parseKnxMessage codes 0 chan msg opts of
        None \<Rightarrow> Inr None
      | Some dg \<Rightarrow>
          (case datagramDesc dg of
             Inl e \<Rightarrow> Inl e
           | Inr desc \<Rightarrow> Inr (Some (inbound_input desc (datagram dg)))))"

definition on_discover_message :: "string list \<Rightarrow> byte list \<Rightarrow> IPv4Endpoint \<Rightarrow> fsm \<Rightarrow> fsm" where
  "on_discover_message codes msg rinfo s =
     (case discover_message codes (channelID s) msg rinfo (fsm_options s) of
        Inl e \<Rightarrow> throw e s
      | Inr None \<Rightarrow> s
      | Inr (Some i) \<Rightarrow> handle codes s i)"

text \<open>On the control socket a DISCONNECT_REQUEST clears the queue before it is handled.\<close>

definition on_control_message :: "string list \<Rightarrow> byte list \<Rightarrow> IPv4Endpoint \<Rightarrow> fsm \<Rightarrow> fsm" where
  "on_control_message codes msg rinfo s =
     (case control_message codes (channelID s) msg rinfo (fsm_options s) of
        Inl e \<Rightarrow> throw e s
      | Inr None \<Rightarrow> s
      | Inr (Some (In_inbound_DISCONNECT_REQUEST d)) \<Rightarrow>
          handle codes (s\<lparr>inputQueue := []\<rparr>) (In_inbound_DISCONNECT_REQUEST d)
      | Inr (Some i) \<Rightarrow> handle codes s i)"

subsection \<open>Predicates and samples for the state machine\<close>

text \<open>
  A step enters \<^verbatim>\<open>connected\<close> when \<^verbatim>\<open>connecting\<close> handles a CONNECT_RESPONSE whose
  status is not E_NO_MORE_CONNECTIONS. A step is a positive acknowledgement when
  \<^verbatim>\<open>outbound_TUNNELING_REQUEST\<close> (where a request has been sent and awaits its
  acknowledgement) handles a TUNNELING_ACK with the current outbound sequence number
  and the status NO_ERROR: it completes a round trip. \<open>round_trips\<close> counts, along a
  run, the round trips completed since \<^verbatim>\<open>connected\<close> was last entered, on top of \<open>n\<close>.
\<close>

definition enters_connected :: "fsm \<Rightarrow> input \<Rightarrow> bool" where
  "enters_connected s i =
     (state s = connecting
      \<and> (case i of
            In_inbound_CONNECT_RESPONSE d \<Rightarrow>
              (case connstate d of
                 Some cs \<Rightarrow> cs_status cs \<noteq> Some E_NO_MORE_CONNECTIONS
               | None \<Rightarrow> False)
          | _ \<Rightarrow> False))"

definition good_ack :: "fsm \<Rightarrow> input \<Rightarrow> bool" where
  "good_ack s i =
     (state s = outbound_TUNNELING_REQUEST
      \<and> (case i of
            In_inbound_TUNNELING_ACK (Some d) \<Rightarrow>
              (case tunnstate d of
                 Some ts \<Rightarrow> seqnum ts = Some (outboundSeqNum s) \<and> ts_status ts = Some NO_ERROR
               | None \<Rightarrow> False)
          | _ \<Rightarrow> False))"

fun round_trips :: "string list \<Rightarrow> fsm \<Rightarrow> input list \<Rightarrow> nat \<Rightarrow> nat" where
  "round_trips codes s [] n = n"
| "round_trips codes s (i # ins) n =
     round_trips codes (handle codes s i) ins
       (if enters_connected s i then 0 else if good_ack s i then n + 1 else n)"

text \<open>
  The byte written for a channel (0 when the channel is \<^verbatim>\<open>null\<close>), and the ten bytes
  of a TUNNELING_ACK for a channel and a sequence number, with the status NO_ERROR.
\<close>

definition channel_byte :: "nat option \<Rightarrow> nat" where
  "channel_byte ch = (case ch of None \<Rightarrow> 0 | Some c \<Rightarrow> c)"

definition ack_frame :: "nat \<Rightarrow> nat \<Rightarrow> byte list" where
  "ack_frame c sq = [0x06, 0x10, 0x04, 0x21, 0x00, 0x0A, 0x04, of_nat c, of_nat sq, 0x00]"

text \<open>
  A session: a search response from the gateway 1.1.220 at 192.168.1.10:3671, a connect
  response giving channel 7, and the run of the state machine through them, up to
  \<^verbatim>\<open>online\<close>. Then a group write from 1.1.1 to 0/1/2 with the payload 0x42 arriving as
  L_Data.ind, an acknowledgement, and a read request for 1/2/3 as the request API
  builds it.
\<close>

definition search_response :: KNXNetHeader where
  "search_response =
     \<lparr>headerLength = 6, protocolVersion = 16, serviceType = SEARCH_RESPONSE,
      totalLength = Some 68,
      hpai = Some \<lparr>hpai_headerLength = Some 8, protocolType = 1,
                     tunnelEndpoint = Some gateway\<rparr>,
      tunn = None, cri = None, connstate = None, tunnstate = None, cemi = None,
      devinfo = Some \<lparr>dib_headerLength = 54, descriptionType = 1,
                        dib_unused = [0, 0, 0, 0, 0, 0], physicalAddr = Physical 1 1 220,
                        serial = [0, 1, 2, 3, 4, 5], name = []\<rparr>,
      description = None\<rparr>"

definition connect_response :: KNXNetHeader where
  "connect_response =
     \<lparr>headerLength = 6, protocolVersion = 16, serviceType = CONNECT_RESPONSE,
      totalLength = Some 8, hpai = None, tunn = None, cri = None,
      connstate = Some \<lparr>cs_channelId = Some 7, cs_status = Some 0, cs_state = None\<rparr>,
      tunnstate = None, cemi = None, devinfo = None, description = None\<rparr>"

definition connecting_session :: fsm where
  "connecting_session =
     run APCICODES (initialize default_options)
       [In_startsearch, In_startsearch, In_inbound_SEARCH_RESPONSE search_response]"

definition online_session :: fsm where
  "online_session =
     handle APCICODES connecting_session (In_inbound_CONNECT_RESPONSE connect_response)"

definition group_write_ind :: "nat \<Rightarrow> KNXNetHeader" where
  "group_write_ind sq =
     \<lparr>headerLength = 6, protocolVersion = 16, serviceType = TUNNELING_REQUEST,
      totalLength = Some 22, hpai = None, tunn = None, cri = None, connstate = None,
      tunnstate = Some \<lparr>ts_headerLength = Some 4, ts_channelId = Some 7, seqnum = Some sq,
                         ts_status = Some 0, ts_tunnelEndpoint = None\<rparr>,
      cemi = Some
        \<lparr>msgcode = L_Data_ind, addinfoLength = Some 0,
         cemi_ctrl = Some \<lparr>frameType = 1, reserved = 0, repeat = 1, broadcast = 1,
                           priority = 3, acknowledge = 0, confirm = 0, destAddrType = 1,
                           hopCount = 6, extendedFrame = 0\<rparr>,
         srcAddr = Physical 1 1 1, destAddr = Group3 0 1 2,
         apdu = Some \<lparr>apduLength = Some 2, apduRaw = Some [0x00, 0x80, 0x42], tpci = 0,
                       apci = Some ''GroupValue_Write'', data = Buf [0x42],
                       bitlength = None\<rparr>\<rparr>,
      devinfo = None, description = None\<rparr>"

definition tunneling_ack :: "nat \<Rightarrow> nat \<Rightarrow> KNXNetHeader" where
  "tunneling_ack sq st =
     \<lparr>headerLength = 6, protocolVersion = 16, serviceType = TUNNELING_ACK,
      totalLength = Some 10, hpai = None, tunn = None, cri = None, connstate = None,
      tunnstate = Some \<lparr>ts_headerLength = Some 4, ts_channelId = Some 7, seqnum = Some sq,
                         ts_status = Some st, ts_tunnelEndpoint = None\<rparr>,
      cemi = None, devinfo = None, description = None\<rparr>"

definition read_request :: "nat \<Rightarrow> KnxDatagram" where
  "read_request u =
     (let dg = fromServiceRequest u TUNNELING_REQUEST default_options (Some gateway) (Some 7)
      in case makeReadRequest (Group3 1 2 3) dg of Inl e \<Rightarrow> dg | Inr dg' \<Rightarrow> dg')"

definition two_round_trips :: "input list" where
  "two_round_trips =
     [In_outbound_TUNNELING_REQUEST (read_request 41),
      In_inbound_TUNNELING_ACK (Some (tunneling_ack 0 NO_ERROR)),
      In_timeout,
      In_outbound_TUNNELING_REQUEST (read_request 42),
      In_inbound_TUNNELING_ACK (Some (tunneling_ack 1 NO_ERROR))]"

definition awaiting_ack :: fsm where
  "awaiting_ack = handle APCICODES online_session (In_outbound_TUNNELING_REQUEST (read_request 41))"

text \<open>
  A CONNECT_RESPONSE for channel 7 whose HPAI carries 0.0.0.0:0, followed by a CRI: 20
  bytes.
\<close>

definition connect_response_unset_endpoint :: "byte list" where
  "connect_response_unset_endpoint =
     [0x06, 0x10, 0x02, 0x06, 0x00, 0x14,
      0x07, 0x00,
      0x08, 0x01, 0x00, 0x00, 0x00, 0x00, 0x00, 0x00,
      0x04, 0x04, 0x02, 0x00]"

subsection \<open>The sockets and the channel\<close>

text \<open>
  The states before a connection is asked for, and what holds of the sockets and the
  channel in every state the machine reaches: the discovery socket is open in
  \<^verbatim>\<open>searching\<close> only, and no channel is set before \<^verbatim>\<open>connecting\<close>.
\<close>

definition early :: "state_name \<Rightarrow> bool" where
  "early t = (t = uninitialized \<or> t = idle \<or> t = searching)"

definition sockets_inv :: "fsm \<Rightarrow> bool" where
  "sockets_inv s =
     ((discoverSocket s \<longrightarrow> state s = searching) \<and> (early (state s) \<longrightarrow> channelID s = None))"

subsection \<open>Frames that are written and read back\<close>

text \<open>
  What a frame must satisfy for its bytes to be read back, and the value the reader
  then gives. A one-byte field that is not set is written as 0 and read as 0.
\<close>

definition byte_field :: "nat option \<Rightarrow> bool" where
  "byte_field x = (case x of None \<Rightarrow> True | Some n \<Rightarrow> n \<le> 255)"

definition read_byte :: "nat option \<Rightarrow> nat option" where
  "read_byte x = Some (case x of None \<Rightarrow> 0 | Some n \<Rightarrow> n)"

text \<open>
  An endpoint has four octets and a 16-bit port. An HPAI is read back when its
  protocol type is a byte other than TCP; a CRI when its connection type is one of
  the two the reader accepts. Both come back with their length set.
\<close>

definition valid_endpoint :: "IPv4Endpoint option \<Rightarrow> bool" where
  "valid_endpoint e =
     (case e of
        None \<Rightarrow> False
      | Some (Endpoint a p) \<Rightarrow> length a = 4 \<and> (\<forall>x \<in> set a. x \<le> 255) \<and> p \<le> 65535)"

definition valid_HPAI :: "HPAI \<Rightarrow> bool" where
  "valid_HPAI h =
     (protocolType h \<le> 255 \<and> protocolType h \<noteq> IPV4_TCP \<and> valid_endpoint (tunnelEndpoint h))"

definition canon_HPAI :: "HPAI \<Rightarrow> HPAI" where
  "canon_HPAI h = h\<lparr>hpai_headerLength := Some 8\<rparr>"

definition valid_CRI :: "CRI \<Rightarrow> bool" where
  "valid_CRI c =
     ((connectionType c = DEVICE_MGMT_CONNECTION \<or> connectionType c = TUNNEL_CONNECTION)
      \<and> knxLayer c \<le> 255 \<and> unused c \<le> 255)"

definition canon_CRI :: "CRI \<Rightarrow> CRI" where
  "canon_CRI c = c\<lparr>cri_headerLength := Some 4\<rparr>"

text \<open>
  The connection state comes back with both its bytes set and without the
  \<^verbatim>\<open>state\<close> of the builder; the tunnelling state with its length and its three
  bytes set and without the endpoint of the builder.
\<close>

definition valid_ConnState :: "ConnState \<Rightarrow> bool" where
  "valid_ConnState cs = (byte_field (cs_channelId cs) \<and> byte_field (cs_status cs))"

definition canon_ConnState :: "ConnState \<Rightarrow> ConnState" where
  "canon_ConnState cs =
     \<lparr>cs_channelId = read_byte (cs_channelId cs), cs_status = read_byte (cs_status cs),
      cs_state = None\<rparr>"

definition valid_TunnState :: "TunnState \<Rightarrow> bool" where
  "valid_TunnState ts =
     (byte_field (ts_channelId ts) \<and> byte_field (seqnum ts) \<and> byte_field (ts_status ts))"

definition canon_TunnState :: "TunnState \<Rightarrow> TunnState" where
  "canon_TunnState ts =
     \<lparr>ts_headerLength = Some 4, ts_channelId = read_byte (ts_channelId ts),
      seqnum = read_byte (seqnum ts), ts_status = read_byte (ts_status ts),
      ts_tunnelEndpoint = None\<rparr>"

text \<open>
  The control fields fit their bit widths; an address is one the address codec
  accepts for its type. An APDU has a TPCI below 64, an APCI name at a position below
  16 of the table and a short or a long payload; it comes back with the length byte
  and the raw bytes that were written, its payload as a buffer and no bit length.
\<close>

definition valid_ctrl :: "ctrl \<Rightarrow> bool" where
  "valid_ctrl c =
     (frameType c < 2 \<and> reserved c < 2 \<and> repeat c < 2 \<and> broadcast c < 2 \<and> priority c < 4
      \<and> acknowledge c < 2 \<and> confirm c < 2 \<and> destAddrType c < 2 \<and> hopCount c < 8
      \<and> extendedFrame c < 16)"

definition valid_address :: "knx_address \<Rightarrow> nat \<Rightarrow> bool \<Rightarrow> bool" where
  "valid_address addr ty twoLevel =
     (case Address_parse addr ty twoLevel of Inl e \<Rightarrow> False | Inr bs \<Rightarrow> True)"

definition valid_APDU :: "string list \<Rightarrow> APDU \<Rightarrow> bool" where
  "valid_APDU codes a =
     (tpci a < 64
      \<and> (case apci_index codes (apci a) of None \<Rightarrow> False | Some idx \<Rightarrow> idx < 16)
      \<and> (case data a of
            Num n \<Rightarrow> 0 \<le> n \<and> short_payload a (nat n)
          | Buf bs \<Rightarrow> long_payload a bs \<or> (length bs = 1 \<and> short_payload a (unat (hd bs)))))"

definition canon_APDU :: "string list \<Rightarrow> APDU \<Rightarrow> APDU" where
  "canon_APDU codes a =
     (case APDU_write codes (Some a) of
        Inr (l # rw) \<Rightarrow>
          \<lparr>apduLength = Some (unat l), apduRaw = Some rw, tpci = tpci a, apci = apci a,
           data = (case data a of Num n \<Rightarrow> Buf [of_nat (nat n)] | Buf bs \<Rightarrow> Buf bs),
           bitlength = None\<rparr>
      | _ \<Rightarrow> a)"

text \<open>
  A cEMI frame has a control field, valid addresses, and an APDU exactly when its
  message code is one of L_Data.req, L_Data.ind and L_Data.con.
\<close>

definition valid_CEMI :: "string list \<Rightarrow> bool \<Rightarrow> CEMI \<Rightarrow> bool" where
  "valid_CEMI codes twoLevel ce =
     (msgcode ce \<le> 255 \<and> byte_field (addinfoLength ce)
      \<and> (case cemi_ctrl ce of
            None \<Rightarrow> False
          | Some c \<Rightarrow>
              valid_ctrl c \<and> valid_address (srcAddr ce) TYPE_PHYSICAL twoLevel
              \<and> valid_address (destAddr ce) (destAddrType c) twoLevel)
      \<and> (if is_L_Data (msgcode ce)
          then (case apdu ce of None \<Rightarrow> False | Some a \<Rightarrow> valid_APDU codes a)
          else apdu ce = None))"

definition canon_CEMI :: "string list \<Rightarrow> CEMI \<Rightarrow> CEMI" where
  "canon_CEMI codes ce =
     ce\<lparr>addinfoLength := read_byte (addinfoLength ce),
        apdu := map_option (canon_APDU codes) (apdu ce)\<rparr>"

text \<open>
  The frames, by service type: a SEARCH_REQUEST or CONNECT_REQUEST carries two HPAIs
  and a CRI; a CONNECT_RESPONSE, CONNECTIONSTATE_REQUEST, CONNECTIONSTATE_RESPONSE or
  DISCONNECT_REQUEST a connection state, then possibly an HPAI, then possibly a CRI; a
  TUNNELING_REQUEST a tunnelling state and a cEMI frame; a TUNNELING_ACK a tunnelling
  state alone; a ROUTING_INDICATION a cEMI frame alone. The value read back has the
  header constants, the total length the writer computed, the substructures of its
  service type and no other.
\<close>

definition valid_frame :: "string list \<Rightarrow> bool \<Rightarrow> KNXNetHeader \<Rightarrow> bool" where
  "valid_frame codes twoLevel v =
     (let st = serviceType v in
      if st = SEARCH_REQUEST \<or> st = CONNECT_REQUEST then
        (case hpai v of None \<Rightarrow> False | Some h \<Rightarrow> valid_HPAI h)
        \<and> (case tunn v of None \<Rightarrow> False | Some t \<Rightarrow> valid_HPAI t)
        \<and> (case cri v of None \<Rightarrow> False | Some c \<Rightarrow> valid_CRI c)
      else if st = CONNECT_RESPONSE \<or> st = CONNECTIONSTATE_REQUEST
              \<or> st = CONNECTIONSTATE_RESPONSE \<or> st = DISCONNECT_REQUEST then
        (case connstate v of None \<Rightarrow> False | Some cs \<Rightarrow> valid_ConnState cs)
        \<and> (case hpai v of
              None \<Rightarrow> cri v = None
            | Some h \<Rightarrow> valid_HPAI h \<and> (case cri v of None \<Rightarrow> True | Some c \<Rightarrow> valid_CRI c))
      else if st = TUNNELING_REQUEST then
        (case tunnstate v of None \<Rightarrow> False | Some ts \<Rightarrow> valid_TunnState ts)
        \<and> (case cemi v of None \<Rightarrow> False | Some ce \<Rightarrow> valid_CEMI codes twoLevel ce)
      else if st = TUNNELING_ACK then
        (case tunnstate v of None \<Rightarrow> False | Some ts \<Rightarrow> valid_TunnState ts) \<and> cemi v = None
      else if st = ROUTING_INDICATION then
        tunnstate v = None
        \<and> (case cemi v of None \<Rightarrow> False | Some ce \<Rightarrow> valid_CEMI codes twoLevel ce)
      else False)"

definition canon_frame :: "string list \<Rightarrow> KNXNetHeader \<Rightarrow> KNXNetHeader" where
  "canon_frame codes v =
     (let st = serviceType v;
          base = \<lparr>headerLength = 6, protocolVersion = 16, serviceType = st,
                  totalLength = (case lengths_KNXNetHeader v of Inl e \<Rightarrow> None | Inr n \<Rightarrow> n),
                  hpai = None, tunn = None, cri = None, connstate = None, tunnstate = None,
                  cemi = None, devinfo = None, description = None\<rparr>
      in
      if st = SEARCH_REQUEST \<or> st = CONNECT_REQUEST then
        base\<lparr>hpai := map_option canon_HPAI (hpai v), tunn := map_option canon_HPAI (tunn v),
             cri := map_option canon_CRI (cri v)\<rparr>
      else if st = CONNECT_RESPONSE \<or> st = CONNECTIONSTATE_REQUEST
              \<or> st = CONNECTIONSTATE_RESPONSE \<or> st = DISCONNECT_REQUEST then
        base\<lparr>connstate := map_option canon_ConnState (connstate v),
             hpai := map_option canon_HPAI (hpai v), cri := map_option canon_CRI (cri v)\<rparr>
      else if st = TUNNELING_REQUEST then
        base\<lparr>tunnstate := map_option canon_TunnState (tunnstate v),
             cemi := map_option (canon_CEMI codes) (cemi v)\<rparr>
      else if st = TUNNELING_ACK then
        base\<lparr>tunnstate := map_option canon_TunnState (tunnstate v)\<rparr>
      else if st = ROUTING_INDICATION then
        base\<lparr>cemi := map_option (canon_CEMI codes) (cemi v)\<rparr>
      else base)"

text \<open>
  The canonicalisation of defaults in the words of the specification: the header
  constants, the total length, and the lengths of the HPAIs and of the CRI.
\<close>

definition up_to_defaults :: "KNXNetHeader \<Rightarrow> KNXNetHeader" where
  "up_to_defaults v =
     v\<lparr>headerLength := 6, protocolVersion := 16, totalLength := None,
       hpai := map_option canon_HPAI (hpai v), tunn := map_option canon_HPAI (tunn v),
       cri := map_option canon_CRI (cri v)\<rparr>"

text \<open>
  Frames that are written and not read back as they were. The skeletons of a
  SEARCH_REQUEST and of a CONNECT_REQUEST as the builder makes them; the second with
  TCP as the protocol of its HPAI, and with a connection type that is neither of the
  two the reader accepts. A raw write of the one-byte buffer holding 5 with a bit
  length of 16. The read request of the builder with the message code L_Busmon.ind,
  which carries no APDU on the wire; with a priority of 4, which does not fit its two
  bits; and retargeted to ROUTING_INDICATION, still carrying its \<^verbatim>\<open>tunnstate\<close>.
\<close>

definition search_request :: KNXNetHeader where
  "search_request = datagram (fromServiceRequest 1 SEARCH_REQUEST default_options None None)"

definition connect_request :: KNXNetHeader where
  "connect_request = datagram (fromServiceRequest 1 CONNECT_REQUEST default_options None None)"

definition connect_request_tcp :: KNXNetHeader where
  "connect_request_tcp =
     connect_request\<lparr>hpai := Some \<lparr>hpai_headerLength = None, protocolType = IPV4_TCP,
                                    tunnelEndpoint = Some (Endpoint [0, 0, 0, 0] 0)\<rparr>\<rparr>"

definition connect_request_cri5 :: KNXNetHeader where
  "connect_request_cri5 =
     connect_request\<lparr>cri := Some \<lparr>cri_headerLength = None, connectionType = 5,
                                   knxLayer = LINK_LAYER, unused = 0\<rparr>\<rparr>"

definition raw_write_request :: KNXNetHeader where
  "raw_write_request =
     (let dg = fromServiceRequest 1 TUNNELING_REQUEST default_options (Some gateway) (Some 7)
      in case makeWriteRawRequest (Group3 1 2 3) [5] (Some 16) dg of
           Inl e \<Rightarrow> datagram dg | Inr dg' \<Rightarrow> datagram dg')"

definition with_cemi :: "(CEMI \<Rightarrow> CEMI) \<Rightarrow> KNXNetHeader \<Rightarrow> KNXNetHeader" where
  "with_cemi f v = v\<lparr>cemi := map_option f (cemi v)\<rparr>"

definition busmon_request :: KNXNetHeader where
  "busmon_request = with_cemi (\<lambda>ce. ce\<lparr>msgcode := 0x2B\<rparr>) (datagram (read_request 41))"

definition priority4_request :: KNXNetHeader where
  "priority4_request =
     with_cemi (\<lambda>ce. ce\<lparr>cemi_ctrl := map_option (\<lambda>c. c\<lparr>priority := 4, broadcast := 0\<rparr>)
                                      (cemi_ctrl ce)\<rparr>) (datagram (read_request 41))"

definition routing_read_request :: KNXNetHeader where
  "routing_read_request =
     (let dg = fromServiceRequest 1 TUNNELING_REQUEST
                 (default_options\<lparr>use_tunneling := Some False\<rparr>) (Some gateway) (Some 7)
      in case makeReadRequest (Group3 1 2 3) dg of
           Inl e \<Rightarrow> datagram dg | Inr dg' \<Rightarrow> datagram dg')"

text \<open>
  A request whose template sets an APCI name that is not in the table, as
  \<^verbatim>\<open>_makeRequest\<close> applies it to the skeleton of a TUNNELING_REQUEST.
\<close>

definition unknown_apci_request :: "error + KnxDatagram" where
  "unknown_apci_request =
     with_apdu (\<lambda>ce a. ce\<lparr>apdu := Some (a\<lparr>apci := Some ''No_Such_APCI''\<rparr>)\<rparr>)
       (fromServiceRequest 1 TUNNELING_REQUEST default_options (Some gateway) (Some 7))"

section \<open>Properties\<close>

lemmas builder_defs =
  fromServiceRequest_def buildDatagram_def KnxDatagram_options_def assign_def truthy_def
  addHPAI_def addTunn_def addCRI_def addConnState_def addTunnState_def addCEMI_def
  dg_twoLevel_def default_options_def gateway_def Let_def

lemmas write_defs =
  KNXNetHeader_write_def KNXNetHeader_body_def lengths_KNXNetHeader_def lengths_CEMI_def
  lengths_APDU_def lengths_TunnState_def lengths_HPAI_def lengths_CRI_def
  lengths_ConnState_def present_def TunnState_write_def HPAI_write_def CRI_write_def
  ConnState_write_def CEMI_write_def APDU_write_def IPv4Endpoint_write_def UInt8_def
  UInt8_opt_def UInt16BE_def UInt16BE_opt_def UInt16BE_int_def raw_def andThen_def
  apci_index_def Buffer_from_def is_L_Data_def ctrlField1_def ctrlField2_def APCICODES_def

lemmas read_defs =
  KNXNetHeader_read_def KNXNetHeader_rd_def KNXNetHeader_read_body_def rd_bind_def
  rd_return_def rd_throw_def rd_UInt8_def rd_UInt16BE_def rd_raw_def TunnState_read_def
  CEMI_read_def APDU_read_def HPAI_read_def CRI_read_def ConnState_read_def
  DIBdevinfo_read_def IPv4Endpoint_read_def ctrlStruct_parse_def apduStruct_parse_def
  js_less_def reader_totalLength_def nth_opt_def is_L_Data_def Address_toString_def
  APCICODES_def

subsection \<open>The sequence number of a datagram\<close>

text \<open>
  C10. On a datagram with a \<^verbatim>\<open>tunnstate\<close>, \<^verbatim>\<open>getSeqNum\<close> after \<^verbatim>\<open>setSeqNum(n)\<close>
  returns -1 when \<open>n\<close> is 0 and \<open>n\<close> itself otherwise; it never returns 0.
\<close>

theorem getSeqNum_after_setSeqNum:
  "tunnstate (datagram dg) = Some ts \<Longrightarrow>
     (\<exists>dg'. setSeqNum n dg = Inr dg'
            \<and> getSeqNum dg' = Inr (if n = 0 then - 1 else int n))
     \<and> getSeqNum dg \<noteq> Inr 0"
  by (cases n) (simp_all add: setSeqNum_def getSeqNum_def split: option.splits nat.splits)

theorem getSeqNum_after_setSeqNum_witness:
  "(\<exists>dg'. setSeqNum 0 (fromServiceRequest 1 TUNNELING_REQUEST default_options
                          (Some gateway) (Some 7)) = Inr dg'
          \<and> getSeqNum dg' = Inr (- 1))
   \<and> (\<exists>dg'. setSeqNum 5 (fromServiceRequest 1 TUNNELING_REQUEST default_options
                            (Some gateway) (Some 7)) = Inr dg'
            \<and> getSeqNum dg' = Inr 5)"
  using getSeqNum_after_setSeqNum
          [of "fromServiceRequest 1 TUNNELING_REQUEST default_options (Some gateway) (Some 7)"
              _ 0]
        getSeqNum_after_setSeqNum
          [of "fromServiceRequest 1 TUNNELING_REQUEST default_options (Some gateway) (Some 7)"
              _ 5]
  by (simp add: builder_defs)

subsection \<open>The header's guard against an incomplete packet\<close>

text \<open>
  No reader raises the error of an incomplete packet, and the guard of the header,
  which compares with a property the reader does not have, does not either.
\<close>

lemma rd_bind_Inl:
  "rd_bind m f bs = Inl e \<Longrightarrow>
     m bs = Inl e \<or> (\<exists>a r. m bs = Inr (a, r) \<and> f a r = Inl e)"
  by (auto simp: rd_bind_def split: sum.splits)

lemma prim_not_incomplete:
  "rd_UInt8 bs = Inl e \<Longrightarrow> e \<noteq> IncompletePacket"
  "rd_UInt16BE bs = Inl e \<Longrightarrow> e \<noteq> IncompletePacket"
  "rd_raw n bs = Inl e \<Longrightarrow> e \<noteq> IncompletePacket"
  by (auto simp: rd_UInt8_def rd_UInt16BE_def rd_raw_def split: list.splits if_splits)

lemma IPv4Endpoint_not_incomplete:
  "IPv4Endpoint_read bs = Inl e \<Longrightarrow> e \<noteq> IncompletePacket"
  unfolding IPv4Endpoint_read_def
  by (auto dest!: rd_bind_Inl dest: prim_not_incomplete simp: rd_return_def)

lemma CRI_not_incomplete: "CRI_read bs = Inl e \<Longrightarrow> e \<noteq> IncompletePacket"
  unfolding CRI_read_def
  by (auto dest!: rd_bind_Inl dest: prim_not_incomplete simp: rd_return_def rd_throw_def
        split: if_splits)

lemma ConnState_not_incomplete: "ConnState_read bs = Inl e \<Longrightarrow> e \<noteq> IncompletePacket"
  unfolding ConnState_read_def
  by (auto dest!: rd_bind_Inl dest: prim_not_incomplete simp: rd_return_def)

lemma TunnState_not_incomplete: "TunnState_read bs = Inl e \<Longrightarrow> e \<noteq> IncompletePacket"
  unfolding TunnState_read_def
  by (auto dest!: rd_bind_Inl dest: prim_not_incomplete simp: rd_return_def)

lemma HPAI_not_incomplete: "HPAI_read n bs = Inl e \<Longrightarrow> e \<noteq> IncompletePacket"
  unfolding HPAI_read_def
  by (auto dest!: rd_bind_Inl dest: prim_not_incomplete IPv4Endpoint_not_incomplete
        simp: rd_return_def rd_throw_def split: if_splits)

lemma DIBdevinfo_not_incomplete:
  "DIBdevinfo_read n twoLevel bs = Inl e \<Longrightarrow> e \<noteq> IncompletePacket"
  unfolding DIBdevinfo_read_def
  by (auto dest!: rd_bind_Inl dest: prim_not_incomplete
        simp: rd_return_def rd_throw_def split: if_splits)

lemma APDU_not_incomplete: "APDU_read codes bs = Inl e \<Longrightarrow> e \<noteq> IncompletePacket"
  unfolding APDU_read_def
  by (auto dest!: rd_bind_Inl dest: prim_not_incomplete
        simp: rd_return_def rd_throw_def apduStruct_parse_def Let_def
        split: sum.splits list.splits prod.splits)

lemma CEMI_not_incomplete:
  "CEMI_read codes twoLevel bs = Inl e \<Longrightarrow> e \<noteq> IncompletePacket"
  unfolding CEMI_read_def Let_def
  by (auto dest!: rd_bind_Inl dest: prim_not_incomplete APDU_not_incomplete
        simp: rd_return_def split: if_splits)

lemma body_not_incomplete:
  "KNXNetHeader_read_body codes twoLevel n tot hdr bs = Inl e \<Longrightarrow> e \<noteq> IncompletePacket"
  unfolding KNXNetHeader_read_body_def Let_def
  by (auto dest!: rd_bind_Inl
        dest: prim_not_incomplete HPAI_not_incomplete CRI_not_incomplete
          ConnState_not_incomplete TunnState_not_incomplete CEMI_not_incomplete
          DIBdevinfo_not_incomplete
        simp: rd_return_def split: if_splits)

lemma rd_not_incomplete:
  "KNXNetHeader_rd codes twoLevel n bs = Inl e \<Longrightarrow> e \<noteq> IncompletePacket"
  unfolding KNXNetHeader_rd_def
  by (auto dest!: rd_bind_Inl dest: prim_not_incomplete body_not_incomplete
        simp: js_less_def reader_totalLength_def)

text \<open>
  C4. A TUNNELING_ACK whose header announces 100 bytes, in a buffer of 10: four bytes
  follow the header where 94 are announced, and the reader returns the frame. The
  guard compares with a property of the reader that does not exist, so it never
  raises: no message at all is refused as an incomplete packet.
\<close>

theorem KNXNetHeader_read_short_buffer:
  "KNXNetHeader_read codes twoLevel [6, 16, 4, 33, 0, 100, 4, 7, 0, 0] =
     Inr \<lparr>headerLength = 6, protocolVersion = 16, serviceType = TUNNELING_ACK,
          totalLength = Some 100, hpai = None, tunn = None, cri = None, connstate = None,
          tunnstate = Some \<lparr>ts_headerLength = Some 4, ts_channelId = Some 7,
                             seqnum = Some 0, ts_status = Some 0,
                             ts_tunnelEndpoint = None\<rparr>,
          cemi = None, devinfo = None, description = None\<rparr>
   \<and> KNXNetHeader_read codes twoLevel msg \<noteq> Inl IncompletePacket"
proof -
  have "KNXNetHeader_read codes twoLevel msg \<noteq> Inl IncompletePacket"
    using rd_not_incomplete[of codes twoLevel "length msg" msg]
    by (auto simp: KNXNetHeader_read_def split: sum.splits)
  then show ?thesis by (simp add: read_defs)
qed

subsection \<open>The total length of a written frame\<close>

text \<open>
  C5. The skeleton of a TUNNELING_REQUEST, turned into a read request with
  \<^verbatim>\<open>use_tunneling\<close> off (so retargeted to ROUTING_INDICATION), is written as 21 bytes
  whose header announces 17: the writer emits the \<^verbatim>\<open>tunnstate\<close> that the length of
  a ROUTING_INDICATION leaves out.
\<close>

theorem totalLength_of_retargeted_skeleton:
  "\<exists>dg bytes.
     makeReadRequest (Group3 1 2 3)
       (fromServiceRequest 1 TUNNELING_REQUEST (default_options\<lparr>use_tunneling := Some False\<rparr>)
          (Some gateway) (Some 7)) = Inr dg
     \<and> serviceType (datagram dg) = ROUTING_INDICATION
     \<and> KNXNetHeader_write APCICODES (dg_twoLevel dg) (datagram dg) = Inr bytes
     \<and> length bytes = 21
     \<and> unat (bytes ! 4) * 256 + unat (bytes ! 5) = 17"
  by (simp add: makeReadRequest_def with_apdu_def request_serviceType_def builder_defs
        write_defs)

subsection \<open>Writing an APDU: what is refused\<close>

text \<open>
  C6. An APCI name that is not in the table is not refused by an exception:
  \<^verbatim>\<open>APDU.write\<close> logs it and returns, having written nothing, where the checks next
  to it raise (a length above 17, a payload of 64). So \<^verbatim>\<open>send\<close>, which an
  exception stops, hands the frame to the socket: 18 bytes under a header that
  announces 21. Nor is the payload 100 refused when the bit length 6 comes with it: it
  is added to the TPCI/APCI word.
\<close>

theorem APDU_write_unknown_apci_not_refused:
  "apci_index APCICODES (Some ''No_Such_APCI'') = None
   \<and> APDU_write APCICODES (Some (sample_apdu ''No_Such_APCI'' (Num 0) None)) = Inr []
   \<and> (\<exists>dg bytes. unknown_apci_request = Inr dg
         \<and> send APCICODES dg True (Some gateway) = Inr (bytes, gateway)
         \<and> length bytes = 18 \<and> unat (bytes ! 4) * 256 + unat (bytes ! 5) = 21)
   \<and> APDU_write APCICODES (Some (sample_apdu ''GroupValue_Write'' (Num 0) (Some 200)))
       = Inl ApduTooBig
   \<and> APDU_write APCICODES (Some (sample_apdu ''GroupValue_Write'' (Num 64) None))
       = Inl ApduPayloadInvalid
   \<and> APDU_write APCICODES (Some (sample_apdu ''GroupValue_Write'' (Buf (replicate 15 1)) None))
       = Inl ApduValueTooBig
   \<and> APDU_write APCICODES (Some (sample_apdu ''GroupValue_Write'' (Num 100) (Some 6)))
       = Inr [1, 0, 228]"
proof -
  have 1: "apci_index APCICODES (Some ''No_Such_APCI'') = None
           \<and> APDU_write APCICODES (Some (sample_apdu ''No_Such_APCI'' (Num 0) None)) = Inr []"
    by (simp add: sample_apdu_def write_defs)
  have 2: "\<exists>dg bytes. unknown_apci_request = Inr dg
         \<and> send APCICODES dg True (Some gateway) = Inr (bytes, gateway)
         \<and> length bytes = 18 \<and> unat (bytes ! 4) * 256 + unat (bytes ! 5) = 21"
    by (simp add: unknown_apci_request_def with_apdu_def request_serviceType_def send_def
          datagramDesc_def builder_defs write_defs)
  have 3: "APDU_write APCICODES (Some (sample_apdu ''GroupValue_Write'' (Num 0) (Some 200)))
             = Inl ApduTooBig"
    by (simp add: sample_apdu_def write_defs)
  have 4: "APDU_write APCICODES (Some (sample_apdu ''GroupValue_Write'' (Num 64) None))
             = Inl ApduPayloadInvalid"
    by (simp add: sample_apdu_def write_defs)
  have 5: "APDU_write APCICODES
             (Some (sample_apdu ''GroupValue_Write'' (Buf (replicate 15 1)) None))
             = Inl ApduValueTooBig"
    by (simp add: sample_apdu_def write_defs numeral_eq_Suc)
  have 6: "APDU_write APCICODES (Some (sample_apdu ''GroupValue_Write'' (Num 100) (Some 6)))
             = Inr [1, 0, 228]"
    by (simp add: sample_apdu_def write_defs)
  from 1 2 3 4 5 6 show ?thesis by (intro conjI) simp_all
qed

subsection \<open>Writing and reading an APDU\<close>

lemma bit_below: "(d::nat) < 2 ^ k \<Longrightarrow> bit d n \<Longrightarrow> n < k"
  by (metis bit_take_bit_iff take_bit_nat_eq_self)

text \<open>The word the writer computes with sums and products is the word of the shifts.\<close>

lemma apdu_word_sum:
  assumes "a < 16" "d < 64"
  shows "apdu_word t a d = t * 1024 + a * 64 + d"
proof -
  have d: "\<And>n. bit d n \<Longrightarrow> n < 6" using bit_below[of d 6] assms by simp
  have a: "\<And>n. bit a n \<Longrightarrow> n < 4" using bit_below[of a 4] assms by simp
  have 1: "push_bit 6 a + d = or (push_bit 6 a) d"
    by (rule disjunctive_add) (auto simp: bit_simps dest: d)
  have 2: "push_bit 10 t + (push_bit 6 a + d) = or (push_bit 10 t) (push_bit 6 a + d)"
    by (rule disjunctive_add) (auto simp: 1 bit_simps dest!: d a)
  show ?thesis using 1 2 by (simp add: apdu_word_def push_bit_eq_mult)
qed

lemma word_div_1024:
  fixes t a d :: nat
  assumes "a < 16" "d < 64"
  shows "(t * 1024 + a * 64 + d) div 1024 = t"
proof -
  have r: "a * 64 + d < 1024" using assms by linarith
  have "(a * 64 + d + t * 1024) div 1024 = t + (a * 64 + d) div 1024"
    by (rule div_mult_self1) simp
  then show ?thesis using r by (simp add: add.commute add.left_commute)
qed

lemma word_div_64_mod_16:
  fixes t a d :: nat
  assumes "a < 16" "d < 64"
  shows "((t * 1024 + a * 64 + d) div 64) mod 16 = a"
proof -
  have "(d + (t * 16 + a) * 64) div 64 = (t * 16 + a) + d div 64"
    by (rule div_mult_self1) simp
  then have q: "(t * 1024 + a * 64 + d) div 64 = t * 16 + a"
    using assms by (simp add: algebra_simps)
  show ?thesis unfolding q using assms by simp
qed

lemma word_mod_64:
  fixes t a d :: nat
  assumes "d < 64"
  shows "(t * 1024 + a * 64 + d) mod 64 = d"
proof -
  have "(d + (t * 16 + a) * 64) mod 64 = d mod 64"
    by (rule mod_mult_self1)
  then show ?thesis using assms by (simp add: algebra_simps)
qed

lemma UInt16BE_bytes:
  "w \<le> 65535 \<Longrightarrow>
     unat (of_nat (w div 256) :: byte) * 256 + unat (of_nat (w mod 256) :: byte) = w"
  by (simp add: unat_of_nat)

lemma indexOf_nth: "indexOf xs x = Some i \<Longrightarrow> i < length xs \<and> xs ! i = x"
  by (induction xs arbitrary: i) (auto split: if_splits)

lemma apdu_word_le: "t < 64 \<Longrightarrow> a < 16 \<Longrightarrow> d < 64 \<Longrightarrow> apdu_word t a d \<le> 65535"
  by (simp add: apdu_word_sum)

lemma apduStruct_parse_word:
  assumes "t < 64" "a < 16" "d < 64"
  shows "apduStruct_parse
           (of_nat (apdu_word t a d div 256) # of_nat (apdu_word t a d mod 256) # r)
         = Inr (t, a, d)"
proof -
  have w: "unat (of_nat (apdu_word t a d div 256) :: byte) * 256
             + unat (of_nat (apdu_word t a d mod 256) :: byte) = apdu_word t a d"
    using apdu_word_le[OF assms] by (rule UInt16BE_bytes)
  show ?thesis
    unfolding apduStruct_parse_def list.case w Let_def
    using word_div_1024[of a d t] word_div_64_mod_16[of a d t] word_mod_64[of d t a] assms
    by (simp add: apdu_word_sum)
qed

lemma lengths_short: "short_payload v d \<Longrightarrow> lengths_APDU (Some v) = Inr 3"
  by (auto simp: short_payload_def lengths_APDU_def unat_of_nat
           split: option.splits nat.splits)

lemma lengths_long: "long_payload v bs \<Longrightarrow> lengths_APDU (Some v) = Inr (3 + length bs)"
  by (cases bs) (auto simp: long_payload_def lengths_APDU_def split: option.splits nat.splits)

lemma UInt16BE_int_nat: "UInt16BE_int (int n) = UInt16BE n"
  by (simp add: UInt16BE_int_def UInt16BE_def)

lemma unat_Suc_byte: "n \<le> 14 \<Longrightarrow> unat (1 + of_nat n :: byte) = Suc n"
  apply (subst of_nat_Suc[symmetric])
  apply (subst unat_of_nat)
  apply simp
  done

lemma APDU_write_short:
  assumes "tpci v < 64" "apci_index codes (apci v) = Some idx" "idx < 16" "short_payload v d"
  shows "APDU_write codes (Some v) =
           Inr [1, of_nat (apdu_word (tpci v) idx d div 256),
                of_nat (apdu_word (tpci v) idx d mod 256)]"
proof -
  have d: "d < 64" using assms(4) by (simp add: short_payload_def)
  have le: "tpci v * 1024 + idx * 64 + d \<le> 65535"
    using apdu_word_le[OF assms(1,3) d] by (simp add: apdu_word_sum assms(3) d)
  have i: "int (tpci v * 1024 + idx * 64) + int d = int (tpci v * 1024 + idx * 64 + d)"
    by simp
  from assms(4) have "data v = Num (int d) \<or> data v = Buf [of_nat d]"
    by (simp add: short_payload_def)
  then show ?thesis
  proof
    assume "data v = Num (int d)"
    then show ?thesis
      using lengths_short[OF assms(4)] assms(2) le
      by (simp add: APDU_write_def Let_def i UInt16BE_int_nat UInt8_def UInt16BE_def
            andThen_def apdu_word_sum assms(3) d del: of_nat_add of_nat_mult)
  next
    assume "data v = Buf [of_nat d]"
    then show ?thesis
      using lengths_short[OF assms(4)] assms(2) le d
      by (simp add: APDU_write_def Let_def UInt8_def UInt16BE_def andThen_def
            apdu_word_sum assms(3) unat_of_nat)
  qed
qed

lemma APDU_read_short:
  assumes "t < 64" "nth_opt codes a = Some s" "a < 16" "d < 64"
  shows "APDU_read codes
           ([1, of_nat (apdu_word t a d div 256), of_nat (apdu_word t a d mod 256)] @ rest)
         = Inr (\<lparr>apduLength = Some 1,
                  apduRaw = Some [of_nat (apdu_word t a d div 256),
                                  of_nat (apdu_word t a d mod 256)],
                  tpci = t, apci = Some s, data = Buf [of_nat d], bitlength = None\<rparr>, rest)"
  using apduStruct_parse_word[OF assms(1,3,4), of "[]"] assms(2)
  by (simp add: APDU_read_def rd_bind_def rd_UInt8_def rd_raw_def rd_return_def)

lemma APDU_write_long:
  assumes "tpci v < 64" "apci_index codes (apci v) = Some idx" "idx < 16" "long_payload v bs"
  shows "APDU_write codes (Some v) =
           Inr (of_nat (Suc (length bs)) # of_nat (apdu_word (tpci v) idx 0 div 256)
                  # of_nat (apdu_word (tpci v) idx 0 mod 256) # bs)"
proof -
  have le: "tpci v * 1024 + idx * 64 \<le> 65535"
    using apdu_word_le[OF assms(1,3), of 0] by (simp add: apdu_word_sum assms(3))
  have n: "bs \<noteq> []" "length bs \<le> 14" "data v = Buf bs"
    using assms(4) by (auto simp: long_payload_def)
  show ?thesis
    using lengths_long[OF assms(4)] assms(2) le n
    by (simp add: APDU_write_def Let_def UInt8_def UInt16BE_def andThen_def apdu_word_sum
          assms(3) Buffer_from_def raw_def)
qed

lemma APDU_read_long:
  assumes "t < 64" "nth_opt codes a = Some s" "a < 16" "bs \<noteq> []" "length bs \<le> 14"
  shows "APDU_read codes
           ((of_nat (Suc (length bs)) # of_nat (apdu_word t a 0 div 256)
               # of_nat (apdu_word t a 0 mod 256) # bs) @ rest)
         = Inr (\<lparr>apduLength = Some (Suc (length bs)),
                  apduRaw = Some (of_nat (apdu_word t a 0 div 256)
                                    # of_nat (apdu_word t a 0 mod 256) # bs),
                  tpci = t, apci = Some s, data = Buf bs, bitlength = None\<rparr>, rest)"
  using apduStruct_parse_word[OF assms(1,3), of 0 bs] assms(2,4,5) unat_Suc_byte[OF assms(5)]
  by (simp add: APDU_read_def rd_bind_def rd_UInt8_def rd_raw_def rd_return_def)

text \<open>
  C7, as the claim states it, fails: \<^verbatim>\<open>makeWriteRawRequest\<close> with the one-byte buffer
  holding 5 and no bit length sets \<^verbatim>\<open>bitlength\<close> to 8, and the APDU, whose payload 5
  is within 0..63, is written as 4 bytes.
\<close>

theorem APDU_short_payload_counterexample:
  "\<exists>dg ce a bytes.
     makeWriteRawRequest (Group3 1 2 3) [5] None
       (fromServiceRequest 1 TUNNELING_REQUEST default_options (Some gateway) (Some 7)) = Inr dg
     \<and> cemi (datagram dg) = Some ce \<and> apdu ce = Some a
     \<and> data a = Buf [5] \<and> bitlength a = Some 8
     \<and> APDU_write APCICODES (Some a) = Inr bytes \<and> length bytes = 4"
  by (simp add: makeWriteRawRequest_def with_apdu_def request_serviceType_def builder_defs
        write_defs)

text \<open>
  C7, amended. Let the TPCI be below 64 and the APCI name stand in the table at a
  position below 16. A value with the short payload \<open>d\<close> is written as the length
  byte 1 and the word \<^verbatim>\<open>tpci<<10 | apci<<6 | d\<close>, high byte first, and reading these
  three bytes gives the TPCI, the APCI name and the one-byte buffer holding \<open>d\<close>. A
  value with the long payload \<open>bs\<close> of \<open>n\<close> bytes is written as the length byte
  \<open>n + 1\<close>, the word \<^verbatim>\<open>tpci<<10 | apci<<6\<close> and the payload, \<open>3 + n\<close> bytes in all,
  and reading them gives the TPCI, the APCI name and the payload.
\<close>

theorem APDU_write_then_read:
  assumes "tpci v < 64" and "apci v = Some s" and "indexOf codes s = Some idx"
    and "idx < 16"
  shows
    "(short_payload v d \<longrightarrow>
        APDU_write codes (Some v)
          = Inr [1, of_nat (apdu_word (tpci v) idx d div 256),
                 of_nat (apdu_word (tpci v) idx d mod 256)]
        \<and> (\<exists>a. APDU_read codes
                  ([1, of_nat (apdu_word (tpci v) idx d div 256),
                    of_nat (apdu_word (tpci v) idx d mod 256)] @ rest) = Inr (a, rest)
               \<and> tpci a = tpci v \<and> apci a = Some s \<and> data a = Buf [of_nat d]))
     \<and> (long_payload v bs \<longrightarrow>
        APDU_write codes (Some v)
          = Inr (of_nat (Suc (length bs)) # of_nat (apdu_word (tpci v) idx 0 div 256)
                   # of_nat (apdu_word (tpci v) idx 0 mod 256) # bs)
        \<and> length (of_nat (Suc (length bs)) # of_nat (apdu_word (tpci v) idx 0 div 256)
                   # of_nat (apdu_word (tpci v) idx 0 mod 256) # bs :: byte list)
            = 3 + length bs
        \<and> (\<exists>a. APDU_read codes
                  ((of_nat (Suc (length bs)) # of_nat (apdu_word (tpci v) idx 0 div 256)
                      # of_nat (apdu_word (tpci v) idx 0 mod 256) # bs) @ rest)
                  = Inr (a, rest)
               \<and> tpci a = tpci v \<and> apci a = Some s \<and> data a = Buf bs))"
proof -
  have i: "apci_index codes (apci v) = Some idx"
    using assms(2,3) by (simp add: apci_index_def)
  have n: "nth_opt codes idx = Some s"
    using indexOf_nth[OF assms(3)] by (simp add: nth_opt_def)
  have S1: "APDU_write codes (Some v)
              = Inr [1, of_nat (apdu_word (tpci v) idx d div 256),
                     of_nat (apdu_word (tpci v) idx d mod 256)]"
    if "short_payload v d"
    by (rule APDU_write_short[OF assms(1) i assms(4) that])
  have S2: "\<exists>a. APDU_read codes
                  ([1, of_nat (apdu_word (tpci v) idx d div 256),
                    of_nat (apdu_word (tpci v) idx d mod 256)] @ rest) = Inr (a, rest)
               \<and> tpci a = tpci v \<and> apci a = Some s \<and> data a = Buf [of_nat d]"
    if "short_payload v d"
  proof -
    have "d < 64" using that by (simp add: short_payload_def)
    from APDU_read_short[OF assms(1) n assms(4) this, of rest] show ?thesis by simp
  qed
  have L1: "APDU_write codes (Some v)
              = Inr (of_nat (Suc (length bs)) # of_nat (apdu_word (tpci v) idx 0 div 256)
                       # of_nat (apdu_word (tpci v) idx 0 mod 256) # bs)"
    if "long_payload v bs"
    by (rule APDU_write_long[OF assms(1) i assms(4) that])
  have L2: "length (of_nat (Suc (length bs)) # of_nat (apdu_word (tpci v) idx 0 div 256)
                   # of_nat (apdu_word (tpci v) idx 0 mod 256) # bs :: byte list)
            = 3 + length bs"
    by simp
  have L3: "\<exists>a. APDU_read codes
                  ((of_nat (Suc (length bs)) # of_nat (apdu_word (tpci v) idx 0 div 256)
                      # of_nat (apdu_word (tpci v) idx 0 mod 256) # bs) @ rest)
                  = Inr (a, rest)
               \<and> tpci a = tpci v \<and> apci a = Some s \<and> data a = Buf bs"
    if "long_payload v bs"
  proof -
    have "bs \<noteq> []" "length bs \<le> 14" using that by (auto simp: long_payload_def)
    from APDU_read_long[OF assms(1) n assms(4) this, of rest] show ?thesis by simp
  qed
  show ?thesis using S1 S2 L1 L2 L3 by blast
qed

theorem APDU_write_then_read_witness:
  "APDU_write APCICODES (Some (sample_apdu ''GroupValue_Write'' (Num 1) None))
     = Inr [1, 0, 0x81]
   \<and> (\<exists>a. APDU_read APCICODES [1, 0, 0x81] = Inr (a, [])
          \<and> tpci a = 0 \<and> apci a = Some ''GroupValue_Write'' \<and> data a = Buf [1])
   \<and> APDU_write APCICODES (Some (sample_apdu ''GroupValue_Write'' (Buf [0x0C, 0x1A]) None))
       = Inr [3, 0, 0x80, 0x0C, 0x1A]
   \<and> (\<exists>a. APDU_read APCICODES [3, 0, 0x80, 0x0C, 0x1A] = Inr (a, [])
          \<and> tpci a = 0 \<and> apci a = Some ''GroupValue_Write'' \<and> data a = Buf [0x0C, 0x1A])"
proof -
  let ?v = "sample_apdu ''GroupValue_Write'' (Num 1) None"
  let ?u = "sample_apdu ''GroupValue_Write'' (Buf [0x0C, 0x1A]) None"
  have t: "tpci ?v < 64" "tpci ?u < 64" by (simp_all add: sample_apdu_def)
  have a: "apci ?v = Some ''GroupValue_Write''" "apci ?u = Some ''GroupValue_Write''"
    by (simp_all add: sample_apdu_def)
  have i: "indexOf APCICODES ''GroupValue_Write'' = Some 2" by (simp add: APCICODES_def)
  have s: "short_payload ?v 1" by (simp add: short_payload_def sample_apdu_def)
  have l: "long_payload ?u [0x0C, 0x1A]" by (simp add: long_payload_def sample_apdu_def)
  have w1: "apdu_word 0 2 (Suc 0) = 129" and w0: "apdu_word 0 2 0 = 128"
    by (simp_all add: apdu_word_sum)
  have k: "(2::nat) < 16" by simp
  from APDU_write_then_read[OF t(1) a(1) i k, where d = 1 and rest = "[]" and bs = "[]"] s
  have 1: "APDU_write APCICODES (Some ?v) = Inr [1, 0, 0x81]
           \<and> (\<exists>a. APDU_read APCICODES [1, 0, 0x81] = Inr (a, [])
                  \<and> tpci a = 0 \<and> apci a = Some ''GroupValue_Write'' \<and> data a = Buf [1])"
    by (simp add: w1 sample_apdu_def)
  from APDU_write_then_read[OF t(2) a(2) i k, where d = 0 and rest = "[]"
         and bs = "[0x0C, 0x1A]"] l
  have 2: "APDU_write APCICODES (Some ?u) = Inr [3, 0, 0x80, 0x0C, 0x1A]
           \<and> (\<exists>a. APDU_read APCICODES [3, 0, 0x80, 0x0C, 0x1A] = Inr (a, [])
                  \<and> tpci a = 0 \<and> apci a = Some ''GroupValue_Write''
                  \<and> data a = Buf [0x0C, 0x1A])"
    by (simp add: w0 sample_apdu_def)
  show ?thesis using 1 2 by simp
qed

subsection \<open>The state machine: evaluation and preservation lemmas\<close>

lemmas fsm_defs =
  run_def handle_def transition_def enter_state_def exit_state_def enter_idle_def
  enter_searching_def startSearch_def enter_connecting_def startConnect_def enter_online_def
  enter_waiting_def enter_disconnecting_def enter_connected_def
  send_CONNECTIONSTATE_REQUEST_def send_TUNNELING_REQUEST_def
  enter_outbound_TUNNELING_REQUEST_def enter_inbound_TUNNELING_REQUEST_L_Data_def
  inbound_SEARCH_RESPONSE_def inbound_CONNECT_RESPONSE_def
  inbound_CONNECTIONSTATE_RESPONSE_def inbound_TUNNELING_ACK_def emit_def arm_def throw_def
  deferUntilTransition_def fsm_send_def send_def datagramDesc_def prepareKnxDatagram_def
  initialize_def setSeqNum_def

lemmas sample_defs =
  connecting_session_def online_session_def search_response_def connect_response_def
  group_write_ind_def tunneling_ack_def read_request_def makeReadRequest_def with_apdu_def
  request_serviceType_def

lemma online_session_fields:
  "state online_session = online" "channelID online_session = Some 7"
  "controlSocket online_session" "remoteControlEndpoint online_session = Some gateway"
  "inboundSeqNum online_session = 0" "outboundSeqNum online_session = 0"
  "emitted online_session = [Ev_offline, Ev_online]"
  by (simp_all add: sample_defs fsm_defs builder_defs write_defs)

lemma out_basic:
  "outboundSeqNum (emit e s) = outboundSeqNum s"
  "outboundSeqNum (arm t s) = outboundSeqNum s"
  "outboundSeqNum (throw er s) = outboundSeqNum s"
  "outboundSeqNum (deferUntilTransition i tg s) = outboundSeqNum s"
  "outboundSeqNum (fsm_send codes dg sock remote s) = outboundSeqNum s"
  by (simp_all add: emit_def arm_def throw_def deferUntilTransition_def fsm_send_def
        split: sum.splits)

lemma in_basic:
  "inboundSeqNum (emit e s) = inboundSeqNum s"
  "inboundSeqNum (arm t s) = inboundSeqNum s"
  "inboundSeqNum (throw er s) = inboundSeqNum s"
  "inboundSeqNum (deferUntilTransition i tg s) = inboundSeqNum s"
  "inboundSeqNum (fsm_send codes dg sock remote s) = inboundSeqNum s"
  by (simp_all add: emit_def arm_def throw_def deferUntilTransition_def fsm_send_def
        split: sum.splits)

lemma st_basic:
  "state (emit e s) = state s"
  "state (arm t s) = state s"
  "state (throw er s) = state s"
  "state (deferUntilTransition i tg s) = state s"
  "state (fsm_send codes dg sock remote s) = state s"
  by (simp_all add: emit_def arm_def throw_def deferUntilTransition_def fsm_send_def
        split: sum.splits)

lemma out_exit: "outboundSeqNum (exit_state s) = outboundSeqNum s"
  by (simp add: exit_state_def out_basic split: state_name.splits)

lemma in_exit: "inboundSeqNum (exit_state s) = inboundSeqNum s"
  by (simp add: exit_state_def in_basic split: state_name.splits)

lemmas enter_defs =
  enter_idle_def enter_searching_def startSearch_def enter_connecting_def startConnect_def
  enter_online_def enter_waiting_def enter_disconnecting_def send_CONNECTIONSTATE_REQUEST_def
  send_TUNNELING_REQUEST_def enter_outbound_TUNNELING_REQUEST_def

lemma out_enter_inbound:
  "outboundSeqNum (enter_inbound_TUNNELING_REQUEST_L_Data codes d s) = outboundSeqNum s"
  by (simp add: enter_inbound_TUNNELING_REQUEST_L_Data_def enter_waiting_def out_basic Let_def
        split: option.splits sum.splits)

lemma in_enter_inbound:
  "inboundSeqNum s \<le> 255 \<Longrightarrow>
     inboundSeqNum (enter_inbound_TUNNELING_REQUEST_L_Data codes d s) \<le> 255"
  by (auto simp add: enter_inbound_TUNNELING_REQUEST_L_Data_def enter_waiting_def in_basic
        Let_def split: option.splits sum.splits)

lemma out_enter_state:
  "outboundSeqNum (enter_state codes t a s) = (if t = connected then 0 else outboundSeqNum s)"
  by (cases t)
     (simp_all add: enter_state_def enter_defs enter_connected_def out_basic out_enter_inbound
        Let_def split: option.splits sum.splits arg.splits)

lemma in_enter_state:
  "inboundSeqNum s \<le> 255 \<Longrightarrow> inboundSeqNum (enter_state codes t a s) \<le> 255"
  by (cases t)
     (simp_all add: enter_state_def enter_defs enter_connected_def in_basic in_enter_inbound
        Let_def split: option.splits sum.splits arg.splits)

lemma out_transition:
  "outboundSeqNum (transition codes t a s) =
     (if t \<noteq> state s \<and> t = connected then 0 else outboundSeqNum s)"
  by (simp add: transition_def out_enter_state out_exit)

lemma in_transition:
  "inboundSeqNum s \<le> 255 \<Longrightarrow> inboundSeqNum (transition codes t a s) \<le> 255"
  by (simp add: transition_def in_enter_state in_exit)

text \<open>What one step does to the outbound counter.\<close>

lemma out_handle:
  "outboundSeqNum (handle codes s i) =
     (if enters_connected s i then 0
      else if good_ack s i then (outboundSeqNum s + 1) mod 256
      else outboundSeqNum s)"
  by (cases "state s"; cases i)
     (simp_all add: handle_def good_ack_def enters_connected_def out_transition out_basic
        st_basic inbound_SEARCH_RESPONSE_def inbound_CONNECT_RESPONSE_def
        inbound_CONNECTIONSTATE_RESPONSE_def inbound_TUNNELING_ACK_def
        send_CONNECTIONSTATE_REQUEST_def send_TUNNELING_REQUEST_def Let_def
        split: option.splits)

lemma in_handle:
  "inboundSeqNum s \<le> 255 \<Longrightarrow> inboundSeqNum (handle codes s i) \<le> 255"
  by (cases "state s"; cases i)
     (simp_all add: handle_def in_transition in_basic st_basic inbound_SEARCH_RESPONSE_def
        inbound_CONNECT_RESPONSE_def inbound_CONNECTIONSTATE_RESPONSE_def
        inbound_TUNNELING_ACK_def send_CONNECTIONSTATE_REQUEST_def
        send_TUNNELING_REQUEST_def Let_def split: option.splits)

lemma in_enter_connected: "inboundSeqNum (enter_connected s) = 0"
  by (simp add: enter_connected_def enter_online_def in_basic Let_def)

lemma in_handle_connect:
  "enters_connected s i \<Longrightarrow> inboundSeqNum (handle codes s i) = 0"
  by (cases i)
     (auto simp add: handle_def enters_connected_def inbound_CONNECT_RESPONSE_def
        transition_def enter_state_def in_enter_connected split: option.splits)

lemma mod_256_le: "(n::nat) mod 256 \<le> 255"
proof -
  have "n mod 256 < 256" by simp
  then show ?thesis by linarith
qed

lemma out_le_handle:
  "outboundSeqNum s \<le> 255 \<Longrightarrow> outboundSeqNum (handle codes s i) \<le> 255"
  unfolding out_handle using mod_256_le[of "outboundSeqNum s + 1"] by simp

lemma run_snoc: "run codes s (ins @ [i]) = handle codes (run codes s ins) i"
  by (simp add: run_def)

lemma counters_bounded_run:
  "inboundSeqNum s \<le> 255 \<Longrightarrow> outboundSeqNum s \<le> 255 \<Longrightarrow>
     inboundSeqNum (run codes s ins) \<le> 255 \<and> outboundSeqNum (run codes s ins) \<le> 255"
proof (induction ins rule: rev_induct)
  case Nil
  then show ?case by (simp add: run_def)
next
  case (snoc i ins)
  then show ?case by (simp add: run_snoc in_handle out_le_handle)
qed

lemma round_trips_run:
  "outboundSeqNum s = n mod 256 \<Longrightarrow>
     outboundSeqNum (run codes s ins) = round_trips codes s ins n mod 256"
proof (induction ins arbitrary: s n)
  case Nil
  then show ?case by (simp add: run_def)
next
  case (Cons i ins)
  have "outboundSeqNum (handle codes s i)
          = (if enters_connected s i then 0 else if good_ack s i then n + 1 else n) mod 256"
    using Cons.prems by (simp add: out_handle mod_Suc_eq)
  from Cons.IH[OF this] show ?case by (simp add: run_def)
qed

subsection \<open>Inbound tunneling requests\<close>

lemma send_ack:
  assumes "channel_byte (channelID s) \<le> 255" "sq \<le> 255"
  shows "\<exists>ack. setSeqNum sq (prepareKnxDatagram TUNNELING_ACK s) = Inr ack
           \<and> send codes ack True (Some r) = Inr (ack_frame (channel_byte (channelID s)) sq, r)"
  using assms
  by (cases "channelID s")
     (auto simp: prepareKnxDatagram_def setSeqNum_def send_def datagramDesc_def channel_byte_def
        ack_frame_def fromServiceRequest_def buildDatagram_def addHPAI_def addTunnState_def Let_def
        KNXNetHeader_write_def KNXNetHeader_body_def lengths_KNXNetHeader_def lengths_CEMI_def
        lengths_TunnState_def present_def TunnState_write_def UInt8_def UInt8_opt_def UInt16BE_def
        UInt16BE_opt_def andThen_def split: nat.splits)

lemma read_ack:
  assumes "c \<le> 255" "sq \<le> 255"
  shows "\<exists>d ts. KNXNetHeader_read codes twoLevel (ack_frame c sq) = Inr d
           \<and> serviceType d = TUNNELING_ACK \<and> tunnstate d = Some ts
           \<and> ts_channelId ts = Some c \<and> seqnum ts = Some sq \<and> ts_status ts = Some NO_ERROR"
  using assms
  by (simp add: ack_frame_def KNXNetHeader_read_def KNXNetHeader_rd_def KNXNetHeader_read_body_def
        rd_bind_def rd_return_def rd_throw_def rd_UInt8_def rd_UInt16BE_def TunnState_read_def
        js_less_def reader_totalLength_def unat_of_nat)

lemma enter_inbound_cases:
  assumes "tunnstate dgram = Some ts" "seqnum ts = Some sq" "cemi dgram = Some ce" "apdu ce = Some a"
    and "controlSocket s" "remoteControlEndpoint s = Some r"
    and "channel_byte (channelID s) \<le> 255" "sq \<le> 255"
  shows "enter_inbound_TUNNELING_REQUEST_L_Data codes dgram s =
     (if sq = inboundSeqNum s then
        enter_waiting
          (s\<lparr>sent := sent s @ [(ack_frame (channel_byte (channelID s)) sq, r)],
             inboundSeqNum := (inboundSeqNum s + 1) mod 256,
             emitted := emitted s @
               [Ev_apci_dest (apci a) (destAddr ce) (srcAddr ce) (data a),
                Ev_event_dest (destAddr ce) (apci a) (srcAddr ce) (data a),
                Ev_event (apci a) (srcAddr ce) (destAddr ce) (data a)],
             state := waiting\<rparr>)
      else if sq = (inboundSeqNum s + 255) mod 256 then
        enter_waiting
          (s\<lparr>sent := sent s @ [(ack_frame (channel_byte (channelID s)) sq, r)],
             state := waiting\<rparr>)
      else enter_waiting (s\<lparr>state := waiting\<rparr>))"
proof -
  obtain ack where ack: "setSeqNum sq (prepareKnxDatagram TUNNELING_ACK s) = Inr ack"
     "send codes ack True (Some r) = Inr (ack_frame (channel_byte (channelID s)) sq, r)"
    using send_ack[OF assms(7,8)] by blast
  show ?thesis
    using assms(1-6) ack
    by (auto simp: enter_inbound_TUNNELING_REQUEST_L_Data_def fsm_send_def emit_def Let_def)
qed

lemma handle_inbound_L_Data:
  assumes "(state s = online \<and> (i = In_inbound_TUNNELING_REQUEST_L_Data_ind dgram
                                 \<or> i = In_inbound_TUNNELING_REQUEST_L_Data_con dgram))
           \<or> (state s = waiting \<and> i = In_inbound_TUNNELING_REQUEST_L_Data_ind dgram)"
  shows "\<exists>s0. handle codes s i = enter_inbound_TUNNELING_REQUEST_L_Data codes dgram s0
           \<and> sent s0 = sent s \<and> emitted s0 = emitted s \<and> inboundSeqNum s0 = inboundSeqNum s
           \<and> controlSocket s0 = controlSocket s
           \<and> remoteControlEndpoint s0 = remoteControlEndpoint s \<and> channelID s0 = channelID s"
  using assms
  by (auto simp: handle_def transition_def enter_state_def exit_state_def arm_def)

text \<open>
  C2. Let an inbound tunneling frame carry a sequence number \<open>sq\<close> (a byte) and a CEMI
  with an APDU, and let the state machine handle it as L_Data.ind in \<^verbatim>\<open>online\<close> or
  \<^verbatim>\<open>waiting\<close>, or as L_Data.con in \<^verbatim>\<open>online\<close>, with its control socket open and the
  gateway's endpoint known. Then a TUNNELING_ACK with the session's channel, the
  sequence number \<open>sq\<close> and the status NO_ERROR is sent exactly when \<open>sq\<close> is the
  expected inbound number or the one before it modulo 256; the expected number advances
  modulo 256 and the three user events are emitted exactly when \<open>sq\<close> is the expected
  number; in every case the machine ends in \<^verbatim>\<open>waiting\<close>.
\<close>

theorem inbound_L_Data_handled:
  assumes "tunnstate dgram = Some ts" and "seqnum ts = Some sq" and "sq \<le> 255"
    and "cemi dgram = Some ce" and "apdu ce = Some a"
    and "(state s = online \<and> (i = In_inbound_TUNNELING_REQUEST_L_Data_ind dgram
                                 \<or> i = In_inbound_TUNNELING_REQUEST_L_Data_con dgram))
         \<or> (state s = waiting \<and> i = In_inbound_TUNNELING_REQUEST_L_Data_ind dgram)"
    and "controlSocket s" and "remoteControlEndpoint s = Some r"
    and "channel_byte (channelID s) \<le> 255"
  shows
    "(sq = inboundSeqNum s \<or> sq = (inboundSeqNum s + 255) mod 256 \<longrightarrow>
        sent (handle codes s i) = sent s @ [(ack_frame (channel_byte (channelID s)) sq, r)])
     \<and> (sq \<noteq> inboundSeqNum s \<and> sq \<noteq> (inboundSeqNum s + 255) mod 256 \<longrightarrow>
        sent (handle codes s i) = sent s)
     \<and> (sq = inboundSeqNum s \<longrightarrow>
        inboundSeqNum (handle codes s i) = (inboundSeqNum s + 1) mod 256
        \<and> emitted (handle codes s i) = emitted s @
             [Ev_apci_dest (apci a) (destAddr ce) (srcAddr ce) (data a),
              Ev_event_dest (destAddr ce) (apci a) (srcAddr ce) (data a),
              Ev_event (apci a) (srcAddr ce) (destAddr ce) (data a)])
     \<and> (sq \<noteq> inboundSeqNum s \<longrightarrow>
        inboundSeqNum (handle codes s i) = inboundSeqNum s
        \<and> emitted (handle codes s i) = emitted s)
     \<and> state (handle codes s i) = waiting
     \<and> (\<exists>d t. KNXNetHeader_read codes twoLevel (ack_frame (channel_byte (channelID s)) sq) = Inr d
            \<and> serviceType d = TUNNELING_ACK \<and> tunnstate d = Some t
            \<and> seqnum t = Some sq \<and> ts_status t = Some NO_ERROR)"
proof -
  obtain s0 where s0: "handle codes s i = enter_inbound_TUNNELING_REQUEST_L_Data codes dgram s0"
    "sent s0 = sent s" "emitted s0 = emitted s" "inboundSeqNum s0 = inboundSeqNum s"
    "controlSocket s0 = controlSocket s" "remoteControlEndpoint s0 = remoteControlEndpoint s"
    "channelID s0 = channelID s"
    using handle_inbound_L_Data[OF assms(6), of codes] by blast
  have e: "enter_inbound_TUNNELING_REQUEST_L_Data codes dgram s0 =
     (if sq = inboundSeqNum s0 then
        enter_waiting
          (s0\<lparr>sent := sent s0 @ [(ack_frame (channel_byte (channelID s0)) sq, r)],
             inboundSeqNum := (inboundSeqNum s0 + 1) mod 256,
             emitted := emitted s0 @
               [Ev_apci_dest (apci a) (destAddr ce) (srcAddr ce) (data a),
                Ev_event_dest (destAddr ce) (apci a) (srcAddr ce) (data a),
                Ev_event (apci a) (srcAddr ce) (destAddr ce) (data a)],
             state := waiting\<rparr>)
      else if sq = (inboundSeqNum s0 + 255) mod 256 then
        enter_waiting
          (s0\<lparr>sent := sent s0 @ [(ack_frame (channel_byte (channelID s0)) sq, r)],
             state := waiting\<rparr>)
      else enter_waiting (s0\<lparr>state := waiting\<rparr>))"
    using assms(7,8,9) s0(5,6,7)
    by (intro enter_inbound_cases[OF assms(1,2,4,5)] assms(3)) simp_all
  have r: "\<exists>d t. KNXNetHeader_read codes twoLevel (ack_frame (channel_byte (channelID s)) sq) = Inr d
            \<and> serviceType d = TUNNELING_ACK \<and> tunnstate d = Some t
            \<and> seqnum t = Some sq \<and> ts_status t = Some NO_ERROR"
    using read_ack[OF assms(9,3), of codes twoLevel] by blast
  show ?thesis
    using r by (simp add: s0 e enter_waiting_def arm_def)
qed

theorem inbound_L_Data_handled_witness:
  "sent (handle APCICODES online_session
           (In_inbound_TUNNELING_REQUEST_L_Data_ind (group_write_ind 0)))
     = sent online_session @ [(ack_frame 7 0, gateway)]
   \<and> inboundSeqNum (handle APCICODES online_session
                       (In_inbound_TUNNELING_REQUEST_L_Data_ind (group_write_ind 0))) = 1
   \<and> emitted (handle APCICODES online_session
                 (In_inbound_TUNNELING_REQUEST_L_Data_ind (group_write_ind 0)))
       = [Ev_offline, Ev_online,
          Ev_apci_dest (Some ''GroupValue_Write'') (Group3 0 1 2) (Physical 1 1 1) (Buf [0x42]),
          Ev_event_dest (Group3 0 1 2) (Some ''GroupValue_Write'') (Physical 1 1 1) (Buf [0x42]),
          Ev_event (Some ''GroupValue_Write'') (Physical 1 1 1) (Group3 0 1 2) (Buf [0x42])]
   \<and> sent (handle APCICODES online_session
              (In_inbound_TUNNELING_REQUEST_L_Data_ind (group_write_ind 255)))
       = sent online_session @ [(ack_frame 7 255, gateway)]
   \<and> inboundSeqNum (handle APCICODES online_session
                       (In_inbound_TUNNELING_REQUEST_L_Data_ind (group_write_ind 255))) = 0
   \<and> emitted (handle APCICODES online_session
                 (In_inbound_TUNNELING_REQUEST_L_Data_ind (group_write_ind 255)))
       = [Ev_offline, Ev_online]
   \<and> sent (handle APCICODES online_session
              (In_inbound_TUNNELING_REQUEST_L_Data_ind (group_write_ind 9)))
       = sent online_session
   \<and> emitted (handle APCICODES online_session
                 (In_inbound_TUNNELING_REQUEST_L_Data_ind (group_write_ind 9)))
       = [Ev_offline, Ev_online]"
proof -
  note f = online_session_fields
  have st: "(state online_session = online
              \<and> (In_inbound_TUNNELING_REQUEST_L_Data_ind (group_write_ind sq)
                    = In_inbound_TUNNELING_REQUEST_L_Data_ind (group_write_ind sq)
                  \<or> In_inbound_TUNNELING_REQUEST_L_Data_ind (group_write_ind sq)
                    = In_inbound_TUNNELING_REQUEST_L_Data_con (group_write_ind sq)))
            \<or> (state online_session = waiting
                \<and> In_inbound_TUNNELING_REQUEST_L_Data_ind (group_write_ind sq)
                    = In_inbound_TUNNELING_REQUEST_L_Data_ind (group_write_ind sq))" for sq
    using f(1) by simp
  have cb: "channel_byte (channelID online_session) \<le> 255"
    using f(2) by (simp add: channel_byte_def)
  have fr: "tunnstate (group_write_ind sq)
              = Some \<lparr>ts_headerLength = Some 4, ts_channelId = Some 7, seqnum = Some sq,
                      ts_status = Some 0, ts_tunnelEndpoint = None\<rparr>"
    "seqnum \<lparr>ts_headerLength = Some 4, ts_channelId = Some 7, seqnum = Some sq,
             ts_status = Some 0, ts_tunnelEndpoint = None\<rparr> = Some sq"
    "\<exists>ce a. cemi (group_write_ind sq) = Some ce \<and> apdu ce = Some a
       \<and> apci a = Some ''GroupValue_Write'' \<and> data a = Buf [0x42]
       \<and> srcAddr ce = Physical 1 1 1 \<and> destAddr ce = Group3 0 1 2" for sq
    by (simp_all add: group_write_ind_def)
  obtain ce a where ca: "cemi (group_write_ind sq) = Some ce" "apdu ce = Some a"
      "apci a = Some ''GroupValue_Write''" "data a = Buf [0x42]"
      "srcAddr ce = Physical 1 1 1" "destAddr ce = Group3 0 1 2" for sq
    by (simp add: group_write_ind_def)
  have l: "(0::nat) \<le> 255" "(255::nat) \<le> 255" "(9::nat) \<le> 255" by simp_all
  from inbound_L_Data_handled[OF fr(1,2) l(1) ca(1,2) st f(3,4) cb, of APCICODES False]
  have 1: "sent (handle APCICODES online_session
                   (In_inbound_TUNNELING_REQUEST_L_Data_ind (group_write_ind 0)))
             = sent online_session @ [(ack_frame 7 0, gateway)]
           \<and> inboundSeqNum (handle APCICODES online_session
                   (In_inbound_TUNNELING_REQUEST_L_Data_ind (group_write_ind 0))) = 1
           \<and> emitted (handle APCICODES online_session
                   (In_inbound_TUNNELING_REQUEST_L_Data_ind (group_write_ind 0)))
               = [Ev_offline, Ev_online,
                  Ev_apci_dest (Some ''GroupValue_Write'') (Group3 0 1 2) (Physical 1 1 1)
                    (Buf [0x42]),
                  Ev_event_dest (Group3 0 1 2) (Some ''GroupValue_Write'') (Physical 1 1 1)
                    (Buf [0x42]),
                  Ev_event (Some ''GroupValue_Write'') (Physical 1 1 1) (Group3 0 1 2)
                    (Buf [0x42])]"
    by (simp add: f ca channel_byte_def)
  from inbound_L_Data_handled[OF fr(1,2) l(2) ca(1,2) st f(3,4) cb, of APCICODES False]
  have 2: "sent (handle APCICODES online_session
                   (In_inbound_TUNNELING_REQUEST_L_Data_ind (group_write_ind 255)))
             = sent online_session @ [(ack_frame 7 255, gateway)]
           \<and> inboundSeqNum (handle APCICODES online_session
                   (In_inbound_TUNNELING_REQUEST_L_Data_ind (group_write_ind 255))) = 0
           \<and> emitted (handle APCICODES online_session
                   (In_inbound_TUNNELING_REQUEST_L_Data_ind (group_write_ind 255)))
               = [Ev_offline, Ev_online]"
    by (simp add: f channel_byte_def)
  from inbound_L_Data_handled[OF fr(1,2) l(3) ca(1,2) st f(3,4) cb, of APCICODES False]
  have 3: "sent (handle APCICODES online_session
                   (In_inbound_TUNNELING_REQUEST_L_Data_ind (group_write_ind 9)))
             = sent online_session
           \<and> emitted (handle APCICODES online_session
                   (In_inbound_TUNNELING_REQUEST_L_Data_ind (group_write_ind 9)))
               = [Ev_offline, Ev_online]"
    by (simp add: f channel_byte_def)
  show ?thesis using 1 2 3 by simp
qed

subsection \<open>The sequence counters\<close>

text \<open>
  C3. Along every run from the initial state both counters stay within 0..255. A step
  that enters \<^verbatim>\<open>connected\<close> leaves both at 0, and from there on the outbound counter
  is the number of round trips completed since, modulo 256. A step changes the
  outbound counter only when it is a positive acknowledgement for the current value
  (then by one, modulo 256) or when it enters \<^verbatim>\<open>connected\<close> (then to 0).
\<close>

theorem sequence_counters:
  "(inboundSeqNum (run codes (initialize opts) ins0) \<le> 255
      \<and> outboundSeqNum (run codes (initialize opts) ins0) \<le> 255)
   \<and> (enters_connected s i \<longrightarrow>
        inboundSeqNum (handle codes s i) = 0 \<and> outboundSeqNum (handle codes s i) = 0
        \<and> outboundSeqNum (run codes (handle codes s i) ins)
            = round_trips codes (handle codes s i) ins 0 mod 256)
   \<and> (outboundSeqNum (handle codes s i) \<noteq> outboundSeqNum s \<longrightarrow>
        (good_ack s i \<and> outboundSeqNum (handle codes s i) = (outboundSeqNum s + 1) mod 256)
        \<or> (enters_connected s i \<and> outboundSeqNum (handle codes s i) = 0))"
proof -
  have i0: "inboundSeqNum (initialize opts) \<le> 255" "outboundSeqNum (initialize opts) \<le> 255"
    by (simp_all add: initialize_def)
  have c: "outboundSeqNum (handle codes s i) = 0 mod 256" if "enters_connected s i"
    using that by (simp add: out_handle)
  show ?thesis
    using counters_bounded_run[OF i0, of codes ins0] round_trips_run[OF c, of codes ins]
      in_handle_connect[of s i codes] out_handle[of codes s i]
    by auto
qed

theorem sequence_counters_witness:
  "inboundSeqNum (run APCICODES (initialize default_options)
                    ([In_startsearch, In_startsearch,
                      In_inbound_SEARCH_RESPONSE search_response,
                      In_inbound_CONNECT_RESPONSE connect_response] @ two_round_trips)) \<le> 255
   \<and> outboundSeqNum (run APCICODES (initialize default_options)
                    ([In_startsearch, In_startsearch,
                      In_inbound_SEARCH_RESPONSE search_response,
                      In_inbound_CONNECT_RESPONSE connect_response] @ two_round_trips)) \<le> 255
   \<and> enters_connected connecting_session (In_inbound_CONNECT_RESPONSE connect_response)
   \<and> inboundSeqNum online_session = 0 \<and> outboundSeqNum online_session = 0
   \<and> round_trips APCICODES online_session two_round_trips 0 = 2
   \<and> outboundSeqNum (run APCICODES online_session two_round_trips) = 2
   \<and> outboundSeqNum awaiting_ack = 0
   \<and> good_ack awaiting_ack (In_inbound_TUNNELING_ACK (Some (tunneling_ack 0 NO_ERROR)))
   \<and> outboundSeqNum (handle APCICODES awaiting_ack
                        (In_inbound_TUNNELING_ACK (Some (tunneling_ack 0 NO_ERROR)))) = 1"
proof -
  have ec: "enters_connected connecting_session (In_inbound_CONNECT_RESPONSE connect_response)"
    by (simp add: enters_connected_def sample_defs fsm_defs builder_defs write_defs)
  have rt: "round_trips APCICODES online_session two_round_trips 0 = 2"
    by (simp add: two_round_trips_def good_ack_def enters_connected_def sample_defs fsm_defs
          builder_defs write_defs)
  have a0: "outboundSeqNum awaiting_ack = 0"
    by (simp add: awaiting_ack_def out_handle enters_connected_def good_ack_def
          online_session_fields)
  have a1: "outboundSeqNum (handle APCICODES awaiting_ack
               (In_inbound_TUNNELING_ACK (Some (tunneling_ack 0 NO_ERROR)))) = 1"
    by (simp add: awaiting_ack_def tunneling_ack_def good_ack_def enters_connected_def
          sample_defs fsm_defs builder_defs write_defs)
  from sequence_counters
         [of APCICODES default_options
             "[In_startsearch, In_startsearch, In_inbound_SEARCH_RESPONSE search_response,
               In_inbound_CONNECT_RESPONSE connect_response] @ two_round_trips"
             connecting_session "In_inbound_CONNECT_RESPONSE connect_response" two_round_trips]
       ec rt
  have 1: "inboundSeqNum (run APCICODES (initialize default_options)
                    ([In_startsearch, In_startsearch,
                      In_inbound_SEARCH_RESPONSE search_response,
                      In_inbound_CONNECT_RESPONSE connect_response] @ two_round_trips)) \<le> 255
           \<and> outboundSeqNum (run APCICODES (initialize default_options)
                    ([In_startsearch, In_startsearch,
                      In_inbound_SEARCH_RESPONSE search_response,
                      In_inbound_CONNECT_RESPONSE connect_response] @ two_round_trips)) \<le> 255
           \<and> inboundSeqNum online_session = 0 \<and> outboundSeqNum online_session = 0
           \<and> outboundSeqNum (run APCICODES online_session two_round_trips) = 2"
    by (simp add: online_session_def)
  from sequence_counters
         [of APCICODES default_options "[]" awaiting_ack
             "In_inbound_TUNNELING_ACK (Some (tunneling_ack 0 NO_ERROR))" "[]"]
       a0 a1
  have 2: "good_ack awaiting_ack (In_inbound_TUNNELING_ACK (Some (tunneling_ack 0 NO_ERROR)))"
    by auto
  show ?thesis using ec rt a0 a1 1 2 by simp
qed

subsection \<open>Inbound messages: the channel filter\<close>

lemma rd_bind_Inr:
  "rd_bind m f bs = Inr y \<Longrightarrow> \<exists>x bs'. m bs = Inr (x, bs') \<and> f x bs' = Inr y"
  by (auto simp: rd_bind_def split: sum.splits)

lemma read_body_cemi:
  assumes "KNXNetHeader_read_body codes twoLevel buflen tot hdr bs = Inr (d, r)"
    and "serviceType hdr = TUNNELING_REQUEST \<or> serviceType hdr = ROUTING_INDICATION"
  shows "cemi d \<noteq> None \<and> serviceType d = serviceType hdr"
  using assms
  by (auto simp: KNXNetHeader_read_body_def rd_return_def dest!: rd_bind_Inr)

lemma read_body_serviceType:
  assumes "KNXNetHeader_read_body codes twoLevel buflen tot hdr bs = Inr (d, r)"
  shows "serviceType d = serviceType hdr"
  using assms
  by (auto simp: KNXNetHeader_read_body_def rd_return_def Let_def dest!: rd_bind_Inr
           split: if_splits)

text \<open>A tunneling request or routing indication that was read has its CEMI.\<close>

lemma read_cemi:
  assumes "KNXNetHeader_read codes twoLevel msg = Inr d"
    and "serviceType d = TUNNELING_REQUEST \<or> serviceType d = ROUTING_INDICATION"
  shows "cemi d \<noteq> None"
proof -
  from assms(1) obtain r where 1: "KNXNetHeader_rd codes twoLevel (length msg) msg = Inr (d, r)"
    by (auto simp: KNXNetHeader_read_def split: sum.splits)
  then obtain hdr tot bs
    where 2: "KNXNetHeader_read_body codes twoLevel (length msg) tot hdr bs = Inr (d, r)"
    unfolding KNXNetHeader_rd_def
    by (auto simp: js_less_def reader_totalLength_def dest!: rd_bind_Inr)
  from read_body_serviceType[OF 2] read_body_cemi[OF 2] assms(2) show ?thesis by auto
qed

lemma datagramDesc_read_value:
  assumes "KNXNetHeader_read codes twoLevel msg = Inr d"
  shows "datagramDesc \<lparr>dg_options = o', useTunneling = ut, dg_channelID = None,
            dg_remoteControlEndpoint = None, datagram = d, uuid = u\<rparr>
         = Inr (serviceType d,
                if serviceType d = TUNNELING_REQUEST \<or> serviceType d = ROUTING_INDICATION
                then map_option msgcode (cemi d) else None)"
  using read_cemi[OF assms] by (auto simp: datagramDesc_def Let_def split: option.splits)

lemma on_control_message_handle:
  assumes "control_message codes (channelID s) msg rinfo (fsm_options s)
             = Inr (Some (inbound_input (st, mc) d))"
  shows "on_control_message codes msg rinfo s
         = handle codes (if st = DISCONNECT_REQUEST then s\<lparr>inputQueue := []\<rparr> else s)
             (inbound_input (st, mc) d)"
  using assms by (simp add: on_control_message_def inbound_input_def)

text \<open>
  In every state the machine reaches, the discovery socket is open in \<^verbatim>\<open>searching\<close>
  only and no channel is set before \<^verbatim>\<open>connecting\<close>: while a channel is set, the
  discovery socket is closed, and inbound messages come through the control socket.
\<close>

lemma ds_basic:
  "discoverSocket (emit e s) = discoverSocket s"
  "discoverSocket (arm t s) = discoverSocket s"
  "discoverSocket (throw er s) = discoverSocket s"
  "discoverSocket (deferUntilTransition i tg s) = discoverSocket s"
  "discoverSocket (fsm_send codes dg sock remote s) = discoverSocket s"
  by (simp_all add: emit_def arm_def throw_def deferUntilTransition_def fsm_send_def
        split: sum.splits)

lemma ch_basic:
  "channelID (emit e s) = channelID s"
  "channelID (arm t s) = channelID s"
  "channelID (throw er s) = channelID s"
  "channelID (deferUntilTransition i tg s) = channelID s"
  "channelID (fsm_send codes dg sock remote s) = channelID s"
  by (simp_all add: emit_def arm_def throw_def deferUntilTransition_def fsm_send_def
        split: sum.splits)

lemma ds_exit: "discoverSocket (exit_state s) = (discoverSocket s \<and> state s \<noteq> searching)"
  by (simp add: exit_state_def ds_basic split: state_name.splits)

lemma ch_exit: "channelID (exit_state s) = channelID s"
  by (simp add: exit_state_def ch_basic split: state_name.splits)

lemma ds_enter_inbound:
  "discoverSocket (enter_inbound_TUNNELING_REQUEST_L_Data codes d s) = discoverSocket s"
  by (simp add: enter_inbound_TUNNELING_REQUEST_L_Data_def enter_waiting_def ds_basic Let_def
        split: option.splits sum.splits)

lemma ch_enter_inbound:
  "channelID (enter_inbound_TUNNELING_REQUEST_L_Data codes d s) = channelID s"
  by (simp add: enter_inbound_TUNNELING_REQUEST_L_Data_def enter_waiting_def ch_basic Let_def
        split: option.splits sum.splits)

lemma st_enter_inbound:
  "\<not> early (state s) \<Longrightarrow>
     \<not> early (state (enter_inbound_TUNNELING_REQUEST_L_Data codes d s))"
  by (simp add: enter_inbound_TUNNELING_REQUEST_L_Data_def enter_waiting_def st_basic Let_def
        early_def split: option.splits sum.splits)

lemma ds_enter_state:
  "discoverSocket (enter_state codes t a s) \<Longrightarrow> discoverSocket s \<or> t = searching"
  by (cases t)
     (simp_all add: enter_state_def enter_defs enter_connected_def ds_basic ds_enter_inbound
        Let_def split: option.splits sum.splits arg.splits)

lemma ch_enter_state:
  "channelID (enter_state codes t a s) = (if t = idle then None else channelID s)"
  by (cases t)
     (simp_all add: enter_state_def enter_defs enter_connected_def ch_basic ch_enter_inbound
        Let_def split: option.splits sum.splits arg.splits)

lemma st_enter_state:
  "state s = t \<Longrightarrow> early (state (enter_state codes t a s)) = early t"
  by (cases t)
     (auto simp add: enter_state_def enter_defs enter_connected_def st_basic st_enter_inbound
        Let_def early_def enter_inbound_TUNNELING_REQUEST_L_Data_def
        split: option.splits sum.splits arg.splits)

lemma st_enter_searching:
  "state s = searching \<Longrightarrow> state (enter_state codes searching a s) = searching"
  by (simp add: enter_state_def enter_defs st_basic Let_def split: option.splits)

lemma inv_transition:
  assumes "sockets_inv s" and "t \<noteq> uninitialized"
    and "t = searching \<longrightarrow> channelID s = None"
  shows "sockets_inv (transition codes t a s)"
proof (cases "t = state s")
  case True
  then show ?thesis using assms by (simp add: transition_def)
next
  case False
  let ?s1 = "(exit_state s)\<lparr>state := t\<rparr>"
  have r: "transition codes t a s = enter_state codes t a ?s1"
    using False by (simp add: transition_def)
  have d1: "\<not> discoverSocket ?s1" using assms(1) by (auto simp: ds_exit sockets_inv_def)
  have c1: "channelID ?s1 = channelID s" by (simp add: ch_exit)
  have e: "early (state (enter_state codes t a ?s1)) = early t"
    by (rule st_enter_state) simp
  have ds: "discoverSocket (enter_state codes t a ?s1) \<longrightarrow>
              state (enter_state codes t a ?s1) = searching"
  proof
    assume "discoverSocket (enter_state codes t a ?s1)"
    from ds_enter_state[OF this] d1 have "t = searching" by simp
    then show "state (enter_state codes t a ?s1) = searching"
      using st_enter_searching[of ?s1 codes a] by simp
  qed
  have ch: "early (state (enter_state codes t a ?s1)) \<longrightarrow>
              channelID (enter_state codes t a ?s1) = None"
  proof
    assume "early (state (enter_state codes t a ?s1))"
    with e have "early t" by simp
    with assms(2) have "t = idle \<or> t = searching" by (simp add: early_def)
    then show "channelID (enter_state codes t a ?s1) = None"
      using assms(3) by (auto simp: ch_enter_state c1)
  qed
  show ?thesis unfolding r sockets_inv_def using ds ch by simp
qed

lemma inv_update:
  "sockets_inv s \<Longrightarrow> sockets_inv (arm t s)"
  "sockets_inv s \<Longrightarrow> sockets_inv (emit e s)"
  "sockets_inv s \<Longrightarrow> sockets_inv (throw er s)"
  "sockets_inv s \<Longrightarrow> sockets_inv (deferUntilTransition i tg s)"
  "sockets_inv s \<Longrightarrow> sockets_inv (fsm_send codes dg sock remote s)"
  by (simp_all add: sockets_inv_def ds_basic ch_basic st_basic)

lemma inv_fields:
  "sockets_inv s \<Longrightarrow> sockets_inv (s\<lparr>remoteControlEndpoint := x\<rparr>)"
  "sockets_inv s \<Longrightarrow> sockets_inv (s\<lparr>connectionHeartbeatFailures := n\<rparr>)"
  "sockets_inv s \<Longrightarrow> sockets_inv (s\<lparr>outboundFailures := n\<rparr>)"
  "sockets_inv s \<Longrightarrow> sockets_inv (s\<lparr>outboundSeqNum := n\<rparr>)"
  "sockets_inv s \<Longrightarrow> sockets_inv (s\<lparr>outboundDatagram := y\<rparr>)"
  "sockets_inv s \<Longrightarrow> \<not> early (state s) \<Longrightarrow> sockets_inv (s\<lparr>channelID := c\<rparr>)"
  by (simp_all add: sockets_inv_def)

lemma inv_handle: "sockets_inv s \<Longrightarrow> sockets_inv (handle codes s i)"
proof -
  assume J: "sockets_inv s"
  have T: "\<And>t a s'. sockets_inv s' \<Longrightarrow> t \<noteq> uninitialized \<Longrightarrow> t \<noteq> searching
             \<Longrightarrow> sockets_inv (transition codes t a s')"
    by (rule inv_transition) simp_all
  have S: "state s = idle \<Longrightarrow> sockets_inv (transition codes searching NoArg s)"
    using J by (intro inv_transition) (simp_all add: sockets_inv_def early_def)
  show ?thesis
    using J S
    by (cases "state s"; cases i)
       (auto simp: handle_def inbound_SEARCH_RESPONSE_def inbound_CONNECT_RESPONSE_def
          inbound_CONNECTIONSTATE_RESPONSE_def inbound_TUNNELING_ACK_def
          send_CONNECTIONSTATE_REQUEST_def send_TUNNELING_REQUEST_def Let_def early_def
          intro!: T inv_update inv_fields split: option.splits)
qed

lemma inv_run: "sockets_inv (run codes (initialize opts) ins)"
proof (induction ins rule: rev_induct)
  case Nil
  show ?case by (simp add: run_def initialize_def sockets_inv_def early_def)
next
  case (snoc i ins)
  then show ?case by (simp add: run_snoc inv_handle)
qed

lemma channel_closes_discovery:
  "channelID (run codes (initialize opts) ins) \<noteq> None
     \<Longrightarrow> \<not> discoverSocket (run codes (initialize opts) ins)"
  using inv_run[of codes opts ins] by (auto simp: sockets_inv_def early_def)

text \<open>
  C8. Let a message be read as the frame \<open>d\<close> while the channel of the session is
  \<open>c\<close>. If \<open>d\<close> carries a \<^verbatim>\<open>connstate\<close> or a \<^verbatim>\<open>tunnstate\<close> whose channel is not
  \<open>c\<close>, \<^verbatim>\<open>parseKnxMessage\<close> returns \<^verbatim>\<open>null\<close>, neither socket raises an input and
  the handler of the control socket leaves the state machine as it is. Otherwise (the
  channel matches, or \<open>d\<close> carries neither) \<^verbatim>\<open>parseKnxMessage\<close> returns the datagram
  holding \<open>d\<close>, and the handler of the control socket hands to the state machine the
  input named after the service type of \<open>d\<close> (and, for a tunnelling request, the
  message code of its cEMI frame), carrying \<open>d\<close> itself; a DISCONNECT_REQUEST clears
  the queue first. The handler of the discovery socket raises the same input for a
  frame whose HPAI has its endpoint set, and raises an error on a frame without an
  HPAI; but in every state the machine reaches in which a channel is set, the
  discovery socket is closed.
\<close>

theorem parseKnxMessage_channel:
  assumes "KNXNetHeader_read codes (truthy (twoLevelAddressing (KnxDatagram_options opts))) msg
             = Inr d"
  shows
    "(other_channel (Some c) d \<longrightarrow>
        parseKnxMessage codes u (Some c) msg opts = None
        \<and> control_message codes (Some c) msg rinfo opts = Inr None
        \<and> discover_message codes (Some c) msg rinfo opts = Inr None
        \<and> (fsm_options s = opts \<and> channelID s = Some c \<longrightarrow>
             on_control_message codes msg rinfo s = s))
     \<and> (\<not> other_channel (Some c) d \<longrightarrow>
        (\<exists>dg. parseKnxMessage codes u (Some c) msg opts = Some dg \<and> datagram dg = d)
        \<and> (\<exists>i. control_message codes (Some c) msg rinfo opts = Inr (Some i)
              \<and> (serviceType d = SEARCH_RESPONSE \<longrightarrow> i = In_inbound_SEARCH_RESPONSE d)
              \<and> (serviceType d = CONNECT_RESPONSE \<longrightarrow> i = In_inbound_CONNECT_RESPONSE d)
              \<and> (serviceType d = CONNECTIONSTATE_RESPONSE \<longrightarrow>
                   i = In_inbound_CONNECTIONSTATE_RESPONSE (Some d))
              \<and> (serviceType d = DISCONNECT_REQUEST \<longrightarrow> i = In_inbound_DISCONNECT_REQUEST d)
              \<and> (serviceType d = DISCONNECT_RESPONSE \<longrightarrow> i = In_inbound_DISCONNECT_RESPONSE d)
              \<and> (serviceType d = TUNNELING_ACK \<longrightarrow> i = In_inbound_TUNNELING_ACK (Some d))
              \<and> (\<forall>ce. serviceType d = TUNNELING_REQUEST \<and> cemi d = Some ce
                         \<and> msgcode ce = L_Data_ind \<longrightarrow>
                    i = In_inbound_TUNNELING_REQUEST_L_Data_ind d)
              \<and> (\<forall>ce. serviceType d = TUNNELING_REQUEST \<and> cemi d = Some ce
                         \<and> msgcode ce = L_Data_con \<longrightarrow>
                    i = In_inbound_TUNNELING_REQUEST_L_Data_con d)
              \<and> (\<forall>ce. serviceType d = TUNNELING_REQUEST \<and> cemi d = Some ce
                         \<and> msgcode ce \<noteq> L_Data_ind \<and> msgcode ce \<noteq> L_Data_con \<longrightarrow>
                    i = Other)
              \<and> (serviceType d \<noteq> SEARCH_RESPONSE \<and> serviceType d \<noteq> CONNECT_RESPONSE
                  \<and> serviceType d \<noteq> CONNECTIONSTATE_RESPONSE
                  \<and> serviceType d \<noteq> DISCONNECT_REQUEST \<and> serviceType d \<noteq> DISCONNECT_RESPONSE
                  \<and> serviceType d \<noteq> TUNNELING_ACK \<and> serviceType d \<noteq> TUNNELING_REQUEST \<longrightarrow>
                    i = Other)
              \<and> (hpai d = None \<longrightarrow>
                    discover_message codes (Some c) msg rinfo opts = Inl TypeError)
              \<and> (\<forall>h. hpai d = Some h \<and> tunnelEndpoint h \<noteq> Some (Endpoint [0, 0, 0, 0] 0) \<longrightarrow>
                    discover_message codes (Some c) msg rinfo opts = Inr (Some i))
              \<and> (fsm_options s = opts \<and> channelID s = Some c \<longrightarrow>
                   on_control_message codes msg rinfo s
                   = handle codes
                       (if serviceType d = DISCONNECT_REQUEST then s\<lparr>inputQueue := []\<rparr> else s)
                       i)))
     \<and> (other_channel (Some c) d \<longleftrightarrow>
          (\<exists>cs. connstate d = Some cs \<and> cs_channelId cs \<noteq> Some c)
          \<or> (\<exists>ts. tunnstate d = Some ts \<and> ts_channelId ts \<noteq> Some c))
     \<and> (channelID (run codes (initialize given) ins) \<noteq> None \<longrightarrow>
          \<not> discoverSocket (run codes (initialize given) ins))"
proof -
  let ?mc = "if serviceType d = TUNNELING_REQUEST \<or> serviceType d = ROUTING_INDICATION
             then map_option msgcode (cemi d) else None"
  let ?i = "inbound_input (serviceType d, ?mc) d"
  have desc: "\<And>u. datagramDesc \<lparr>dg_options = KnxDatagram_options opts,
            useTunneling = truthy (use_tunneling (KnxDatagram_options opts)),
            dg_channelID = None, dg_remoteControlEndpoint = None, datagram = d,
            uuid = u\<rparr> = Inr (serviceType d, ?mc)"
    by (rule datagramDesc_read_value[OF assms])
  have p: "parseKnxMessage codes u (Some c) msg opts =
            (if other_channel (Some c) d then None
             else Some \<lparr>dg_options = KnxDatagram_options opts,
                    useTunneling = truthy (use_tunneling (KnxDatagram_options opts)),
                    dg_channelID = None, dg_remoteControlEndpoint = None, datagram = d,
                    uuid = u\<rparr>)" for u
    using assms desc[of u] by (simp add: parseKnxMessage_def Let_def)
  have cm: "control_message codes (Some c) msg rinfo opts =
              (if other_channel (Some c) d then Inr None else Inr (Some ?i))"
    using desc[of 0] by (simp add: control_message_def p)
  have dm: "other_channel (Some c) d \<Longrightarrow> discover_message codes (Some c) msg rinfo opts = Inr None"
    by (simp add: discover_message_def p)
  have oc: "on_control_message codes msg rinfo s =
              (if other_channel (Some c) d then s
               else handle codes
                      (if serviceType d = DISCONNECT_REQUEST then s\<lparr>inputQueue := []\<rparr> else s) ?i)"
    if "fsm_options s = opts" "channelID s = Some c"
  proof (cases "other_channel (Some c) d")
    case True
    then show ?thesis using cm that by (simp add: on_control_message_def)
  next
    case False
    then have "control_message codes (channelID s) msg rinfo (fsm_options s) = Inr (Some ?i)"
      using cm that by simp
    from on_control_message_handle[OF this] False show ?thesis by simp
  qed
  have nm:
    "serviceType d = SEARCH_RESPONSE \<longrightarrow> ?i = In_inbound_SEARCH_RESPONSE d"
    "serviceType d = CONNECT_RESPONSE \<longrightarrow> ?i = In_inbound_CONNECT_RESPONSE d"
    "serviceType d = CONNECTIONSTATE_RESPONSE \<longrightarrow>
       ?i = In_inbound_CONNECTIONSTATE_RESPONSE (Some d)"
    "serviceType d = DISCONNECT_REQUEST \<longrightarrow> ?i = In_inbound_DISCONNECT_REQUEST d"
    "serviceType d = DISCONNECT_RESPONSE \<longrightarrow> ?i = In_inbound_DISCONNECT_RESPONSE d"
    "serviceType d = TUNNELING_ACK \<longrightarrow> ?i = In_inbound_TUNNELING_ACK (Some d)"
    "\<forall>ce. serviceType d = TUNNELING_REQUEST \<and> cemi d = Some ce \<and> msgcode ce = L_Data_ind \<longrightarrow>
       ?i = In_inbound_TUNNELING_REQUEST_L_Data_ind d"
    "\<forall>ce. serviceType d = TUNNELING_REQUEST \<and> cemi d = Some ce \<and> msgcode ce = L_Data_con \<longrightarrow>
       ?i = In_inbound_TUNNELING_REQUEST_L_Data_con d"
    "\<forall>ce. serviceType d = TUNNELING_REQUEST \<and> cemi d = Some ce
          \<and> msgcode ce \<noteq> L_Data_ind \<and> msgcode ce \<noteq> L_Data_con \<longrightarrow> ?i = Other"
    "serviceType d \<noteq> SEARCH_RESPONSE \<and> serviceType d \<noteq> CONNECT_RESPONSE
       \<and> serviceType d \<noteq> CONNECTIONSTATE_RESPONSE
       \<and> serviceType d \<noteq> DISCONNECT_REQUEST \<and> serviceType d \<noteq> DISCONNECT_RESPONSE
       \<and> serviceType d \<noteq> TUNNELING_ACK \<and> serviceType d \<noteq> TUNNELING_REQUEST \<longrightarrow> ?i = Other"
    by (simp_all add: inbound_input_def)
  have oth: "other_channel (Some c) d \<longleftrightarrow>
          (\<exists>cs. connstate d = Some cs \<and> cs_channelId cs \<noteq> Some c)
          \<or> (\<exists>ts. tunnstate d = Some ts \<and> ts_channelId ts \<noteq> Some c)"
    by (auto simp: other_channel_def split: option.splits)
  have inv: "channelID (run codes (initialize given) ins) \<noteq> None \<longrightarrow>
          \<not> discoverSocket (run codes (initialize given) ins)"
    using channel_closes_discovery[of codes given ins] by blast
  have A: "other_channel (Some c) d \<longrightarrow>
        parseKnxMessage codes u (Some c) msg opts = None
        \<and> control_message codes (Some c) msg rinfo opts = Inr None
        \<and> discover_message codes (Some c) msg rinfo opts = Inr None
        \<and> (fsm_options s = opts \<and> channelID s = Some c \<longrightarrow>
             on_control_message codes msg rinfo s = s)"
    using p[of u] cm dm oc by simp
  have B: "\<not> other_channel (Some c) d \<longrightarrow>
        (\<exists>dg. parseKnxMessage codes u (Some c) msg opts = Some dg \<and> datagram dg = d)
        \<and> (\<exists>i. control_message codes (Some c) msg rinfo opts = Inr (Some i)
              \<and> (serviceType d = SEARCH_RESPONSE \<longrightarrow> i = In_inbound_SEARCH_RESPONSE d)
              \<and> (serviceType d = CONNECT_RESPONSE \<longrightarrow> i = In_inbound_CONNECT_RESPONSE d)
              \<and> (serviceType d = CONNECTIONSTATE_RESPONSE \<longrightarrow>
                   i = In_inbound_CONNECTIONSTATE_RESPONSE (Some d))
              \<and> (serviceType d = DISCONNECT_REQUEST \<longrightarrow> i = In_inbound_DISCONNECT_REQUEST d)
              \<and> (serviceType d = DISCONNECT_RESPONSE \<longrightarrow> i = In_inbound_DISCONNECT_RESPONSE d)
              \<and> (serviceType d = TUNNELING_ACK \<longrightarrow> i = In_inbound_TUNNELING_ACK (Some d))
              \<and> (\<forall>ce. serviceType d = TUNNELING_REQUEST \<and> cemi d = Some ce
                         \<and> msgcode ce = L_Data_ind \<longrightarrow>
                    i = In_inbound_TUNNELING_REQUEST_L_Data_ind d)
              \<and> (\<forall>ce. serviceType d = TUNNELING_REQUEST \<and> cemi d = Some ce
                         \<and> msgcode ce = L_Data_con \<longrightarrow>
                    i = In_inbound_TUNNELING_REQUEST_L_Data_con d)
              \<and> (\<forall>ce. serviceType d = TUNNELING_REQUEST \<and> cemi d = Some ce
                         \<and> msgcode ce \<noteq> L_Data_ind \<and> msgcode ce \<noteq> L_Data_con \<longrightarrow>
                    i = Other)
              \<and> (serviceType d \<noteq> SEARCH_RESPONSE \<and> serviceType d \<noteq> CONNECT_RESPONSE
                  \<and> serviceType d \<noteq> CONNECTIONSTATE_RESPONSE
                  \<and> serviceType d \<noteq> DISCONNECT_REQUEST \<and> serviceType d \<noteq> DISCONNECT_RESPONSE
                  \<and> serviceType d \<noteq> TUNNELING_ACK \<and> serviceType d \<noteq> TUNNELING_REQUEST \<longrightarrow>
                    i = Other)
              \<and> (hpai d = None \<longrightarrow>
                    discover_message codes (Some c) msg rinfo opts = Inl TypeError)
              \<and> (\<forall>h. hpai d = Some h \<and> tunnelEndpoint h \<noteq> Some (Endpoint [0, 0, 0, 0] 0) \<longrightarrow>
                    discover_message codes (Some c) msg rinfo opts = Inr (Some i))
              \<and> (fsm_options s = opts \<and> channelID s = Some c \<longrightarrow>
                   on_control_message codes msg rinfo s
                   = handle codes
                       (if serviceType d = DISCONNECT_REQUEST then s\<lparr>inputQueue := []\<rparr> else s)
                       i))"
  proof (intro impI conjI)
    assume n: "\<not> other_channel (Some c) d"
    show "\<exists>dg. parseKnxMessage codes u (Some c) msg opts = Some dg \<and> datagram dg = d"
      using p[of u] n by simp
    have c1: "control_message codes (Some c) msg rinfo opts = Inr (Some ?i)"
      using cm n by simp
    have c2: "fsm_options s = opts \<and> channelID s = Some c \<longrightarrow>
                on_control_message codes msg rinfo s
                = handle codes
                    (if serviceType d = DISCONNECT_REQUEST then s\<lparr>inputQueue := []\<rparr> else s)
                    ?i"
      using oc n by simp
    have d1: "hpai d = None \<longrightarrow>
                discover_message codes (Some c) msg rinfo opts = Inl TypeError"
      using n by (simp add: discover_message_def p)
    have d2: "\<forall>h. hpai d = Some h \<and> tunnelEndpoint h \<noteq> Some (Endpoint [0, 0, 0, 0] 0) \<longrightarrow>
                discover_message codes (Some c) msg rinfo opts = Inr (Some ?i)"
      using n desc[of 0] by (simp add: discover_message_def p)
    show "\<exists>i. control_message codes (Some c) msg rinfo opts = Inr (Some i)
              \<and> (serviceType d = SEARCH_RESPONSE \<longrightarrow> i = In_inbound_SEARCH_RESPONSE d)
              \<and> (serviceType d = CONNECT_RESPONSE \<longrightarrow> i = In_inbound_CONNECT_RESPONSE d)
              \<and> (serviceType d = CONNECTIONSTATE_RESPONSE \<longrightarrow>
                   i = In_inbound_CONNECTIONSTATE_RESPONSE (Some d))
              \<and> (serviceType d = DISCONNECT_REQUEST \<longrightarrow> i = In_inbound_DISCONNECT_REQUEST d)
              \<and> (serviceType d = DISCONNECT_RESPONSE \<longrightarrow> i = In_inbound_DISCONNECT_RESPONSE d)
              \<and> (serviceType d = TUNNELING_ACK \<longrightarrow> i = In_inbound_TUNNELING_ACK (Some d))
              \<and> (\<forall>ce. serviceType d = TUNNELING_REQUEST \<and> cemi d = Some ce
                         \<and> msgcode ce = L_Data_ind \<longrightarrow>
                    i = In_inbound_TUNNELING_REQUEST_L_Data_ind d)
              \<and> (\<forall>ce. serviceType d = TUNNELING_REQUEST \<and> cemi d = Some ce
                         \<and> msgcode ce = L_Data_con \<longrightarrow>
                    i = In_inbound_TUNNELING_REQUEST_L_Data_con d)
              \<and> (\<forall>ce. serviceType d = TUNNELING_REQUEST \<and> cemi d = Some ce
                         \<and> msgcode ce \<noteq> L_Data_ind \<and> msgcode ce \<noteq> L_Data_con \<longrightarrow>
                    i = Other)
              \<and> (serviceType d \<noteq> SEARCH_RESPONSE \<and> serviceType d \<noteq> CONNECT_RESPONSE
                  \<and> serviceType d \<noteq> CONNECTIONSTATE_RESPONSE
                  \<and> serviceType d \<noteq> DISCONNECT_REQUEST \<and> serviceType d \<noteq> DISCONNECT_RESPONSE
                  \<and> serviceType d \<noteq> TUNNELING_ACK \<and> serviceType d \<noteq> TUNNELING_REQUEST \<longrightarrow>
                    i = Other)
              \<and> (hpai d = None \<longrightarrow>
                    discover_message codes (Some c) msg rinfo opts = Inl TypeError)
              \<and> (\<forall>h. hpai d = Some h \<and> tunnelEndpoint h \<noteq> Some (Endpoint [0, 0, 0, 0] 0) \<longrightarrow>
                    discover_message codes (Some c) msg rinfo opts = Inr (Some i))
              \<and> (fsm_options s = opts \<and> channelID s = Some c \<longrightarrow>
                   on_control_message codes msg rinfo s
                   = handle codes
                       (if serviceType d = DISCONNECT_REQUEST then s\<lparr>inputQueue := []\<rparr> else s)
                       i)"
      by (intro exI[of _ ?i] conjI c1 nm c2 d1 d2)
  qed
  show ?thesis
    by (intro conjI A B oth inv)
qed


theorem parseKnxMessage_channel_witness:
  "parseKnxMessage APCICODES 0 (Some 8) (ack_frame 7 0) default_options = None
   \<and> control_message APCICODES (Some 8) (ack_frame 7 0) gateway default_options = Inr None
   \<and> discover_message APCICODES (Some 8) (ack_frame 7 0) gateway default_options = Inr None
   \<and> (\<exists>dg. parseKnxMessage APCICODES 0 (Some 7) (ack_frame 7 0) default_options = Some dg
          \<and> datagram dg = tunneling_ack 0 0)
   \<and> control_message APCICODES (Some 7) (ack_frame 7 0) gateway default_options
       = Inr (Some (In_inbound_TUNNELING_ACK (Some (tunneling_ack 0 0))))
   \<and> channelID awaiting_ack = Some 7
   \<and> on_control_message APCICODES (ack_frame 8 0) gateway awaiting_ack = awaiting_ack
   \<and> on_control_message APCICODES (ack_frame 7 0) gateway awaiting_ack
       = handle APCICODES awaiting_ack (In_inbound_TUNNELING_ACK (Some (tunneling_ack 0 0)))
   \<and> outboundSeqNum (on_control_message APCICODES (ack_frame 7 0) gateway awaiting_ack) = 1
   \<and> channelID online_session = Some 7 \<and> \<not> discoverSocket online_session"
proof -
  have r: "KNXNetHeader_read APCICODES
             (truthy (twoLevelAddressing (KnxDatagram_options default_options)))
             (ack_frame 7 0) = Inr (tunneling_ack 0 0)"
    by (simp add: ack_frame_def tunneling_ack_def read_defs)
  have r8: "KNXNetHeader_read APCICODES
             (truthy (twoLevelAddressing (KnxDatagram_options default_options)))
             (ack_frame 8 0)
            = Inr ((tunneling_ack 0 0)\<lparr>tunnstate :=
                     Some \<lparr>ts_headerLength = Some 4, ts_channelId = Some 8, seqnum = Some 0,
                           ts_status = Some 0, ts_tunnelEndpoint = None\<rparr>\<rparr>)"
    by (simp add: ack_frame_def tunneling_ack_def read_defs)
  have o8: "other_channel (Some 8) (tunneling_ack 0 0)"
    and o7: "\<not> other_channel (Some 7) (tunneling_ack 0 0)"
    and o78: "other_channel (Some 7) ((tunneling_ack 0 0)\<lparr>tunnstate :=
                     Some \<lparr>ts_headerLength = Some 4, ts_channelId = Some 8, seqnum = Some 0,
                           ts_status = Some 0, ts_tunnelEndpoint = None\<rparr>\<rparr>)"
    by (simp_all add: other_channel_def tunneling_ack_def)
  have st: "serviceType (tunneling_ack 0 0) = TUNNELING_ACK"
    by (simp add: tunneling_ack_def)
  have f: "fsm_options awaiting_ack = default_options" "channelID awaiting_ack = Some 7"
    by (simp_all add: awaiting_ack_def sample_defs fsm_defs builder_defs write_defs)
  have a1: "outboundSeqNum (handle APCICODES awaiting_ack
               (In_inbound_TUNNELING_ACK (Some (tunneling_ack 0 NO_ERROR)))) = 1"
    by (simp add: awaiting_ack_def tunneling_ack_def good_ack_def enters_connected_def
          sample_defs fsm_defs builder_defs write_defs)
  have run: "online_session
             = run APCICODES (initialize default_options)
                 [In_startsearch, In_startsearch, In_inbound_SEARCH_RESPONSE search_response,
                  In_inbound_CONNECT_RESPONSE connect_response]"
    by (simp add: online_session_def connecting_session_def run_def)
  from parseKnxMessage_channel[OF r, where c = 8 and u = 0 and rinfo = gateway] o8
  have 1: "parseKnxMessage APCICODES 0 (Some 8) (ack_frame 7 0) default_options = None
           \<and> control_message APCICODES (Some 8) (ack_frame 7 0) gateway default_options
               = Inr None
           \<and> discover_message APCICODES (Some 8) (ack_frame 7 0) gateway default_options
               = Inr None"
    by blast
  from parseKnxMessage_channel[OF r, where c = 7 and u = 0 and rinfo = gateway and s = awaiting_ack] o7 st f
  have 2: "(\<exists>dg. parseKnxMessage APCICODES 0 (Some 7) (ack_frame 7 0) default_options = Some dg
                \<and> datagram dg = tunneling_ack 0 0)
           \<and> control_message APCICODES (Some 7) (ack_frame 7 0) gateway default_options
               = Inr (Some (In_inbound_TUNNELING_ACK (Some (tunneling_ack 0 0))))
           \<and> on_control_message APCICODES (ack_frame 7 0) gateway awaiting_ack
               = handle APCICODES awaiting_ack
                   (In_inbound_TUNNELING_ACK (Some (tunneling_ack 0 0)))"
    by auto
  from parseKnxMessage_channel[OF r8, where c = 7 and u = 0 and rinfo = gateway and s = awaiting_ack] o78 f
  have 3: "on_control_message APCICODES (ack_frame 8 0) gateway awaiting_ack = awaiting_ack"
    by blast
  from parseKnxMessage_channel
         [OF r, where c = 7 and given = default_options
            and ins = "[In_startsearch, In_startsearch,
                        In_inbound_SEARCH_RESPONSE search_response,
                        In_inbound_CONNECT_RESPONSE connect_response]"]
       online_session_fields(2)
  have 4: "\<not> discoverSocket online_session"
    unfolding run[symmetric] by simp
  show ?thesis using 1 2 3 4 a1 f(2) online_session_fields(2) by simp
qed

subsection \<open>Inbound messages: the endpoint 0.0.0.0:0\<close>

text \<open>
  C9. The same CONNECT_RESPONSE, with 0.0.0.0:0 in its HPAI, arriving from
  192.168.1.10:3671: the handler of the control socket raises the input with the
  endpoint 0.0.0.0:0 as read, while the handler of the discovery socket raises it with
  the source address and port in its place.
\<close>

theorem unset_endpoint_on_control_socket:
  "\<exists>d h d' h'.
     control_message APCICODES None connect_response_unset_endpoint gateway default_options
       = Inr (Some (In_inbound_CONNECT_RESPONSE d))
     \<and> hpai d = Some h \<and> tunnelEndpoint h = Some (Endpoint [0, 0, 0, 0] 0)
     \<and> discover_message APCICODES None connect_response_unset_endpoint gateway default_options
         = Inr (Some (In_inbound_CONNECT_RESPONSE d'))
     \<and> hpai d' = Some h' \<and> tunnelEndpoint h' = Some gateway"
  by (simp add: control_message_def discover_message_def parseKnxMessage_def
        connect_response_unset_endpoint_def other_channel_def datagramDesc_def
        inbound_input_def read_defs builder_defs)

subsection \<open>Writing a frame and reading it back\<close>

lemma UInt8_opt_read:
  "byte_field x \<Longrightarrow> \<exists>b. UInt8_opt x = Inr [b] \<and> Some (unat b) = read_byte x"
  by (cases x) (auto simp: byte_field_def read_byte_def UInt8_opt_def UInt8_def unat_of_nat)

lemma UInt16BE_read:
  "n \<le> 65535 \<Longrightarrow> \<exists>b1 b2. UInt16BE n = Inr [b1, b2] \<and> unat b1 * 256 + unat b2 = n"
  by (simp add: UInt16BE_def unat_of_nat)

lemma length4: "length a = 4 \<Longrightarrow> \<exists>a1 a2 a3 a4. a = [a1, a2, a3, a4]"
  by (cases a; simp; rename_tac x xs; case_tac xs; simp; rename_tac y ys; case_tac ys; simp;
      rename_tac z zs; case_tac zs; simp)

lemma IPv4Endpoint_roundtrip:
  assumes "valid_endpoint (Some e)"
  shows "\<exists>bs. IPv4Endpoint_write (Some e) = Inr bs \<and> length bs = 6
           \<and> (\<forall>rest. IPv4Endpoint_read (bs @ rest) = Inr (e, rest))"
proof -
  obtain a p where e: "e = Endpoint a p" by (cases e)
  with assms have v: "length a = 4" "\<forall>x \<in> set a. x \<le> 255" "p \<le> 65535"
    by (simp_all add: valid_endpoint_def)
  from length4[OF v(1)] obtain a1 a2 a3 a4 where a: "a = [a1, a2, a3, a4]" by blast
  from UInt16BE_read[OF v(3)] obtain b1 b2 where
    p: "UInt16BE p = Inr [b1, b2]" "unat b1 * 256 + unat b2 = p" by blast
  show ?thesis
    using v(2) p
    by (simp add: e a IPv4Endpoint_write_def IPv4Endpoint_read_def raw_def andThen_def
          rd_bind_def rd_raw_def rd_UInt16BE_def rd_return_def unat_of_nat)
qed

lemma HPAI_roundtrip:
  assumes "valid_HPAI h"
  shows "\<exists>bs. HPAI_write (Some h) = Inr bs \<and> length bs = 8
           \<and> (\<forall>buflen rest. 8 \<le> buflen \<longrightarrow>
                 HPAI_read buflen (bs @ rest) = Inr (canon_HPAI h, rest))"
proof -
  from assms obtain e where e: "tunnelEndpoint h = Some e" "valid_endpoint (Some e)"
    by (auto simp: valid_HPAI_def valid_endpoint_def split: option.splits)
  from IPv4Endpoint_roundtrip[OF e(2)] obtain eb where
    eb: "IPv4Endpoint_write (Some e) = Inr eb" "length eb = 6"
        "\<And>rest. IPv4Endpoint_read (eb @ rest) = Inr (e, rest)" by blast
  have pt: "protocolType h \<le> 255" "protocolType h \<noteq> 2" using assms by (simp_all add: valid_HPAI_def)
  show ?thesis
    using pt e(1) eb
    by (simp add: HPAI_write_def HPAI_read_def UInt8_def andThen_def rd_bind_def rd_UInt8_def
          rd_return_def rd_throw_def canon_HPAI_def unat_of_nat)
qed

lemma CRI_roundtrip:
  assumes "valid_CRI c"
  shows "\<exists>bs. CRI_write (Some c) = Inr bs \<and> length bs = 4
           \<and> (\<forall>rest. CRI_read (bs @ rest) = Inr (canon_CRI c, rest))"
  using assms
  by (auto simp: valid_CRI_def CRI_write_def CRI_read_def UInt8_def andThen_def rd_bind_def
        rd_UInt8_def rd_return_def rd_throw_def canon_CRI_def unat_of_nat)

lemma ConnState_roundtrip:
  assumes "valid_ConnState cs"
  shows "\<exists>bs. ConnState_write (Some cs) = Inr bs \<and> length bs = 2
           \<and> (\<forall>rest. ConnState_read (bs @ rest) = Inr (canon_ConnState cs, rest))"
proof -
  from assms obtain b1 b2 where
    b: "UInt8_opt (cs_channelId cs) = Inr [b1]" "Some (unat b1) = read_byte (cs_channelId cs)"
       "UInt8_opt (cs_status cs) = Inr [b2]" "Some (unat b2) = read_byte (cs_status cs)"
    using UInt8_opt_read[of "cs_channelId cs"] UInt8_opt_read[of "cs_status cs"]
    by (auto simp: valid_ConnState_def)
  show ?thesis
    using b
    by (simp add: ConnState_write_def ConnState_read_def andThen_def rd_bind_def rd_UInt8_def
          rd_return_def canon_ConnState_def)
qed

lemma TunnState_roundtrip:
  assumes "valid_TunnState ts"
  shows "\<exists>bs. TunnState_write (Some ts) = Inr bs \<and> length bs = 4
           \<and> (\<forall>rest. TunnState_read (bs @ rest) = Inr (canon_TunnState ts, rest))"
proof -
  from assms obtain b1 b2 b3 where
    b: "UInt8_opt (ts_channelId ts) = Inr [b1]" "Some (unat b1) = read_byte (ts_channelId ts)"
       "UInt8_opt (seqnum ts) = Inr [b2]" "Some (unat b2) = read_byte (seqnum ts)"
       "UInt8_opt (ts_status ts) = Inr [b3]" "Some (unat b3) = read_byte (ts_status ts)"
    using UInt8_opt_read[of "ts_channelId ts"] UInt8_opt_read[of "seqnum ts"]
      UInt8_opt_read[of "ts_status ts"]
    by (auto simp: valid_TunnState_def)
  show ?thesis
    using b
    by (simp add: TunnState_write_def TunnState_read_def UInt8_def andThen_def rd_bind_def
          rd_UInt8_def rd_return_def canon_TunnState_def)
qed

lemma peel:
  fixes lo hi k :: nat
  assumes "lo < k"
  shows "(hi * k + lo) div k = hi" "(hi * k + lo) mod k = lo"
  using assms by simp_all

lemma ctrl1_arith:
  fixes ft r rp b p a c :: nat
  assumes "ft < 2" "r < 2" "rp < 2" "b < 2" "p < 4" "a < 2" "c < 2"
  defines "n \<equiv> ft * 128 + r * 64 + rp * 32 + b * 16 + p * 4 + a * 2 + c"
  shows "n div 128 = ft" "(n div 64) mod 2 = r" "(n div 32) mod 2 = rp"
    "(n div 16) mod 2 = b" "(n div 4) mod 4 = p" "(n div 2) mod 2 = a" "n mod 2 = c"
proof -
  have e2: "n = (ft * 64 + r * 32 + rp * 16 + b * 8 + p * 2 + a) * 2 + c"
    by (simp add: n_def)
  have e4: "n = (ft * 32 + r * 16 + rp * 8 + b * 4 + p) * 4 + (a * 2 + c)"
    by (simp add: n_def)
  have e16: "n = (ft * 8 + r * 4 + rp * 2 + b) * 16 + (p * 4 + a * 2 + c)"
    by (simp add: n_def)
  have e32: "n = (ft * 4 + r * 2 + rp) * 32 + (b * 16 + p * 4 + a * 2 + c)"
    by (simp add: n_def)
  have e64: "n = (ft * 2 + r) * 64 + (rp * 32 + b * 16 + p * 4 + a * 2 + c)"
    by (simp add: n_def)
  have e128: "n = ft * 128 + (r * 64 + rp * 32 + b * 16 + p * 4 + a * 2 + c)"
    by (simp add: n_def)
  have d2: "n div 2 = ft * 64 + r * 32 + rp * 16 + b * 8 + p * 2 + a"
    unfolding e2 using assms(7) by (rule peel(1))
  have d4: "n div 4 = ft * 32 + r * 16 + rp * 8 + b * 4 + p"
    unfolding e4 by (rule peel(1)) (use assms in linarith)
  have d16: "n div 16 = ft * 8 + r * 4 + rp * 2 + b"
    unfolding e16 by (rule peel(1)) (use assms in linarith)
  have d32: "n div 32 = ft * 4 + r * 2 + rp"
    unfolding e32 by (rule peel(1)) (use assms in linarith)
  have d64: "n div 64 = ft * 2 + r"
    unfolding e64 by (rule peel(1)) (use assms in linarith)
  show "n div 128 = ft"
    unfolding e128 by (rule peel(1)) (use assms in linarith)
  show "(n div 64) mod 2 = r" unfolding d64 using assms(2) by (rule peel(2))
  show "(n div 32) mod 2 = rp" unfolding d32 using peel(2)[OF assms(3), of "ft * 2 + r"]
    by (simp add: algebra_simps)
  show "(n div 16) mod 2 = b" unfolding d16 using peel(2)[OF assms(4), of "ft * 4 + r * 2 + rp"]
    by (simp add: algebra_simps)
  show "(n div 4) mod 4 = p" unfolding d4
    using peel(2)[OF assms(5), of "ft * 8 + r * 4 + rp * 2 + b"]
    by (simp add: algebra_simps)
  show "(n div 2) mod 2 = a" unfolding d2
    using peel(2)[OF assms(6), of "ft * 32 + r * 16 + rp * 8 + b * 4 + p"]
    by (simp add: algebra_simps)
  show "n mod 2 = c" unfolding e2 using assms(7) by (rule peel(2))
qed

lemma ctrl2_arith:
  fixes dt hc ef :: nat
  assumes "dt < 2" "hc < 8" "ef < 16"
  defines "n \<equiv> dt * 128 + hc * 16 + ef"
  shows "n div 128 = dt" "(n div 16) mod 8 = hc" "n mod 16 = ef"
proof -
  have e16: "n = (dt * 8 + hc) * 16 + ef" by (simp add: n_def)
  have e128: "n = dt * 128 + (hc * 16 + ef)" by (simp add: n_def)
  have d16: "n div 16 = dt * 8 + hc" unfolding e16 using assms(3) by (rule peel(1))
  show "n div 128 = dt" unfolding e128 by (rule peel(1)) (use assms in linarith)
  show "(n div 16) mod 8 = hc" unfolding d16 using assms(2) by (rule peel(2))
  show "n mod 16 = ef" unfolding e16 using assms(3) by (rule peel(2))
qed

lemma ctrl_roundtrip:
  assumes "valid_ctrl c"
  shows "ctrlField1 c \<le> 255 \<and> ctrlField2 c \<le> 255
         \<and> ctrlStruct_parse [of_nat (ctrlField1 c), of_nat (ctrlField2 c)] = c"
proof -
  have v: "frameType c < 2" "reserved c < 2" "repeat c < 2" "broadcast c < 2"
    "priority c < 4" "acknowledge c < 2" "confirm c < 2"
    and w: "destAddrType c < 2" "hopCount c < 8" "extendedFrame c < 16"
    using assms by (simp_all add: valid_ctrl_def)
  have b: "ctrlField1 c \<le> 255" "ctrlField2 c \<le> 255"
    using v w by (simp_all add: ctrlField1_def ctrlField2_def)
  have u: "unat (of_nat (ctrlField1 c) :: byte) = ctrlField1 c"
          "unat (of_nat (ctrlField2 c) :: byte) = ctrlField2 c"
    using b by (simp_all add: unat_of_nat)
  have "ctrlStruct_parse [of_nat (ctrlField1 c), of_nat (ctrlField2 c)] = c"
    unfolding ctrlStruct_parse_def Let_def nth_Cons_0 One_nat_def nth_Cons_Suc u
    unfolding ctrlField1_def ctrlField2_def ctrl1_arith[OF v] ctrl2_arith[OF w]
    by simp
  with b show ?thesis by simp
qed

lemma Address_bytes:
  "a < 16 \<Longrightarrow> l < 16 \<Longrightarrow> unat (of_nat (a * 16 + l) :: byte) = a * 16 + l"
  "m < 32 \<Longrightarrow> mi < 8 \<Longrightarrow> unat (of_nat (m * 8 + mi) :: byte) = m * 8 + mi"
  by (simp_all add: unat_of_nat del: of_nat_add of_nat_mult)

lemma Address_roundtrip:
  assumes "valid_address addr ty twoLevel"
  shows "\<exists>b1 b2. Address_parse addr ty twoLevel = Inr [b1, b2]
           \<and> Address_toString [b1, b2] ty twoLevel = addr"
proof (cases addr)
  case (Physical a l d)
  with assms have v: "ty = 0" "a < 16" "l < 16" "d < 256"
    by (auto simp: valid_address_def split: if_splits)
  show ?thesis
    using v Address_bytes(1)[OF v(2,3)]
    by (simp add: Physical Address_toString_def Let_def unat_of_nat
          del: of_nat_add of_nat_mult)
next
  case (Group3 m mi s)
  with assms have v: "ty = 1" "\<not> twoLevel" "m < 32" "mi < 8" "s < 256"
    by (auto simp: valid_address_def split: if_splits)
  show ?thesis
    using v Address_bytes(2)[OF v(3,4)]
    by (simp add: Group3 Address_toString_def Let_def unat_of_nat
          del: of_nat_add of_nat_mult)
next
  case (Group2 m s)
  with assms have v: "ty = 1" "twoLevel" "m < 32" "s < 2048"
    by (auto simp: valid_address_def split: if_splits)
  have q: "s div 256 < 8" using v(4) by simp
  show ?thesis
    using v q Address_bytes(2)[OF v(3) q]
    by (simp add: Group2 Address_toString_def Let_def unat_of_nat
          del: of_nat_add of_nat_mult)
qed

lemma APDU_roundtrip:
  assumes "valid_APDU codes a"
  shows "\<exists>bs. APDU_write codes (Some a) = Inr bs \<and> lengths_APDU (Some a) = Inr (length bs)
           \<and> length bs \<le> 17
           \<and> (\<forall>rest. APDU_read codes (bs @ rest) = Inr (canon_APDU codes a, rest))"
proof -
  from assms obtain idx where
    t: "tpci a < 64" and i: "apci_index codes (apci a) = Some idx" and k: "idx < 16"
    by (auto simp: valid_APDU_def split: option.splits)
  from i obtain s where s: "apci a = Some s" "indexOf codes s = Some idx"
    by (cases "apci a") (auto simp: apci_index_def)
  have n: "nth_opt codes idx = Some s"
    using indexOf_nth[OF s(2)] by (simp add: nth_opt_def)
  have "(\<exists>d. short_payload a d
              \<and> (case data a of Num n \<Rightarrow> Buf [of_nat (nat n)] | Buf bs \<Rightarrow> Buf bs)
                  = Buf [of_nat d])
        \<or> (\<exists>bs. long_payload a bs)"
  proof (cases "data a")
    case (Num n)
    with assms have "short_payload a (nat n)" by (simp add: valid_APDU_def)
    with Num show ?thesis by auto
  next
    case (Buf bs)
    with assms consider "long_payload a bs" | "length bs = 1" "short_payload a (unat (hd bs))"
      by (auto simp: valid_APDU_def)
    then show ?thesis
    proof cases
      case 1
      then show ?thesis by blast
    next
      case 2
      from 2(1) obtain b where "bs = [b]" by (cases bs) auto
      with 2(2) Buf show ?thesis by auto
    qed
  qed
  then consider
      (short) d where "short_payload a d"
        "(case data a of Num n \<Rightarrow> Buf [of_nat (nat n)] | Buf bs \<Rightarrow> Buf bs) = Buf [of_nat d]"
    | (long) bs where "long_payload a bs"
    by blast
  then show ?thesis
  proof cases
    case short
    have d: "d < 64" using short(1) by (simp add: short_payload_def)
    note w = APDU_write_short[OF t i k short(1)]
    note r = APDU_read_short[OF t n k d]
    show ?thesis
      using w r lengths_short[OF short(1)] short(2) s(1)
      by (simp add: canon_APDU_def)
  next
    case long
    have b: "bs \<noteq> []" "length bs \<le> 14" "data a = Buf bs"
      using long by (auto simp: long_payload_def)
    note w = APDU_write_long[OF t i k long]
    note r = APDU_read_long[OF t n k b(1,2)]
    show ?thesis
      using w r lengths_long[OF long] b s(1) unat_Suc_byte[OF b(2)]
      by (simp add: canon_APDU_def)
  qed
qed

lemma CEMI_roundtrip:
  assumes "valid_CEMI codes twoLevel ce"
  shows "\<exists>bs. CEMI_write codes twoLevel (Some ce) = Inr bs
           \<and> lengths_CEMI (Some ce) = Inr (length bs) \<and> length bs \<le> 25
           \<and> (\<forall>rest. CEMI_read codes twoLevel (bs @ rest) = Inr (canon_CEMI codes ce, rest))"
proof -
  from assms obtain c where c: "cemi_ctrl ce = Some c" "valid_ctrl c"
    and sa: "valid_address (srcAddr ce) TYPE_PHYSICAL twoLevel"
    and da: "valid_address (destAddr ce) (destAddrType c) twoLevel"
    by (auto simp: valid_CEMI_def split: option.splits)
  have mc: "msgcode ce \<le> 255" using assms by (simp add: valid_CEMI_def)
  from assms obtain ab where
    ab: "UInt8_opt (addinfoLength ce) = Inr [ab]" "Some (unat ab) = read_byte (addinfoLength ce)"
    using UInt8_opt_read[of "addinfoLength ce"] by (auto simp: valid_CEMI_def)
  from Address_roundtrip[OF sa] obtain s1 s2 where
    s: "Address_parse (srcAddr ce) TYPE_PHYSICAL twoLevel = Inr [s1, s2]"
       "Address_toString [s1, s2] TYPE_PHYSICAL twoLevel = srcAddr ce" by blast
  from Address_roundtrip[OF da] obtain d1 d2 where
    d: "Address_parse (destAddr ce) (destAddrType c) twoLevel = Inr [d1, d2]"
       "Address_toString [d1, d2] (destAddrType c) twoLevel = destAddr ce" by blast
  note cr = ctrl_roundtrip[OF c(2)]
  show ?thesis
  proof (cases "is_L_Data (msgcode ce)")
    case True
    with assms obtain a where a: "apdu ce = Some a" "valid_APDU codes a"
      by (auto simp: valid_CEMI_def split: option.splits)
    from APDU_roundtrip[OF a(2)] obtain abs where
      w: "APDU_write codes (Some a) = Inr abs" "lengths_APDU (Some a) = Inr (length abs)"
         "length abs \<le> 17"
         "\<And>rest. APDU_read codes (abs @ rest) = Inr (canon_APDU codes a, rest)" by blast
    show ?thesis
      using True mc c(1) ab s d cr a(1) w
      by (simp add: CEMI_write_def CEMI_read_def lengths_CEMI_def UInt8_def andThen_def
            rd_bind_def rd_UInt8_def rd_raw_def rd_return_def canon_CEMI_def Let_def
            unat_of_nat)
  next
    case False
    with assms have a: "apdu ce = None" by (simp add: valid_CEMI_def)
    show ?thesis
      using False mc c(1) ab s d cr a
      by (simp add: CEMI_write_def CEMI_read_def lengths_CEMI_def lengths_APDU_def UInt8_def
            andThen_def rd_bind_def rd_UInt8_def rd_raw_def rd_return_def canon_CEMI_def
            Let_def unat_of_nat)
  qed
qed

lemmas frame_defs =
  KNXNetHeader_write_def KNXNetHeader_body_def KNXNetHeader_read_def KNXNetHeader_rd_def
  KNXNetHeader_read_body_def lengths_KNXNetHeader_def lengths_HPAI_def lengths_CRI_def
  lengths_ConnState_def lengths_TunnState_def present_def js_less_def reader_totalLength_def
  UInt8_def UInt16BE_def UInt16BE_opt_def andThen_def rd_bind_def rd_UInt8_def
  rd_UInt16BE_def rd_return_def canon_frame_def Let_def

lemma frame_roundtrip_request:
  assumes st: "serviceType V = SEARCH_REQUEST \<or> serviceType V = CONNECT_REQUEST"
    and f: "hpai V = Some h" "tunn V = Some t" "cri V = Some c"
    and v: "valid_HPAI h" "valid_HPAI t" "valid_CRI c"
  shows "\<exists>bytes. KNXNetHeader_write codes twoLevel V = Inr bytes
           \<and> totalLength (canon_frame codes V) = Some (length bytes)
           \<and> KNXNetHeader_read codes twoLevel bytes = Inr (canon_frame codes V)"
proof -
  from HPAI_roundtrip[OF v(1)] obtain hb where
    hb: "HPAI_write (Some h) = Inr hb" "length hb = 8"
        "\<And>buflen rest. 8 \<le> buflen \<Longrightarrow> HPAI_read buflen (hb @ rest) = Inr (canon_HPAI h, rest)"
    by blast
  from HPAI_roundtrip[OF v(2)] obtain tb where
    tb: "HPAI_write (Some t) = Inr tb" "length tb = 8"
        "\<And>buflen rest. 8 \<le> buflen \<Longrightarrow> HPAI_read buflen (tb @ rest) = Inr (canon_HPAI t, rest)"
    by blast
  from CRI_roundtrip[OF v(3)] obtain cb where
    cb: "CRI_write (Some c) = Inr cb" "length cb = 4"
        "\<And>rest. CRI_read (cb @ rest) = Inr (canon_CRI c, rest)"
    by blast
  from cb(3)[of "[]"] have cb0: "CRI_read cb = Inr (canon_CRI c, [])" by simp
  from st show ?thesis
  proof
    assume "serviceType V = SEARCH_REQUEST"
    then show ?thesis
      using f hb tb cb cb0 by (simp add: frame_defs unat_of_nat)
  next
    assume "serviceType V = CONNECT_REQUEST"
    then show ?thesis
      using f hb tb cb cb0 by (simp add: frame_defs unat_of_nat)
  qed
qed

lemma frame_roundtrip_connstate:
  assumes st: "serviceType V = CONNECT_RESPONSE \<or> serviceType V = CONNECTIONSTATE_REQUEST
               \<or> serviceType V = CONNECTIONSTATE_RESPONSE \<or> serviceType V = DISCONNECT_REQUEST"
    and f: "connstate V = Some cs" "valid_ConnState cs"
    and h: "case hpai V of
              None \<Rightarrow> cri V = None
            | Some h \<Rightarrow> valid_HPAI h \<and> (case cri V of None \<Rightarrow> True | Some c \<Rightarrow> valid_CRI c)"
  shows "\<exists>bytes. KNXNetHeader_write codes twoLevel V = Inr bytes
           \<and> totalLength (canon_frame codes V) = Some (length bytes)
           \<and> KNXNetHeader_read codes twoLevel bytes = Inr (canon_frame codes V)"
proof -
  from ConnState_roundtrip[OF f(2)] obtain sb where
    sb: "ConnState_write (Some cs) = Inr sb" "length sb = 2"
        "\<And>rest. ConnState_read (sb @ rest) = Inr (canon_ConnState cs, rest)"
    by blast
  from sb(3)[of "[]"] have sb0: "ConnState_read sb = Inr (canon_ConnState cs, [])" by simp
  show ?thesis
  proof (cases "hpai V")
    case None
    with h have c: "cri V = None" by simp
    from st show ?thesis
      using f(1) None c sb sb0 by (auto simp: frame_defs unat_of_nat)
  next
    case (Some hp)
    with h have vh: "valid_HPAI hp" by simp
    from HPAI_roundtrip[OF vh] obtain hb where
      hb: "HPAI_write (Some hp) = Inr hb" "length hb = 8"
          "\<And>buflen rest. 8 \<le> buflen \<Longrightarrow>
             HPAI_read buflen (hb @ rest) = Inr (canon_HPAI hp, rest)"
      by blast
    from hb(3)[of _ "[]"] have hb0:
      "\<And>buflen. 8 \<le> buflen \<Longrightarrow> HPAI_read buflen hb = Inr (canon_HPAI hp, [])" by simp
    show ?thesis
    proof (cases "cri V")
      case None
      from st show ?thesis
        using f(1) Some None sb hb hb0 by (auto simp: frame_defs unat_of_nat)
    next
      case (Some c)
      with h \<open>hpai V = Some hp\<close> have vc: "valid_CRI c" by simp
      from CRI_roundtrip[OF vc] obtain cb where
        cb: "CRI_write (Some c) = Inr cb" "length cb = 4"
            "\<And>rest. CRI_read (cb @ rest) = Inr (canon_CRI c, rest)"
        by blast
      from cb(3)[of "[]"] have cb0: "CRI_read cb = Inr (canon_CRI c, [])" by simp
      from st show ?thesis
        using f(1) \<open>hpai V = Some hp\<close> Some sb hb cb cb0
        by (auto simp: frame_defs unat_of_nat)
    qed
  qed
qed

lemma UInt16BE_small:
  "n \<le> 255 \<Longrightarrow> UInt16BE n = Inr [0, of_nat n]"
  by (simp add: UInt16BE_def)

lemma frame_roundtrip_tunneling_request:
  assumes st: "serviceType V = TUNNELING_REQUEST"
    and f: "tunnstate V = Some ts" "valid_TunnState ts"
    and c: "cemi V = Some ce" "valid_CEMI codes twoLevel ce"
  shows "\<exists>bytes. KNXNetHeader_write codes twoLevel V = Inr bytes
           \<and> totalLength (canon_frame codes V) = Some (length bytes)
           \<and> KNXNetHeader_read codes twoLevel bytes = Inr (canon_frame codes V)"
proof -
  from TunnState_roundtrip[OF f(2)] obtain tb where
    tb: "TunnState_write (Some ts) = Inr tb" "length tb = 4"
        "\<And>rest. TunnState_read (tb @ rest) = Inr (canon_TunnState ts, rest)"
    by blast
  from CEMI_roundtrip[OF c(2)] obtain eb where
    eb: "CEMI_write codes twoLevel (Some ce) = Inr eb"
        "lengths_CEMI (Some ce) = Inr (length eb)" "length eb \<le> 25"
        "\<And>rest. CEMI_read codes twoLevel (eb @ rest) = Inr (canon_CEMI codes ce, rest)"
    by blast
  from eb(4)[of "[]"] have eb0:
    "CEMI_read codes twoLevel eb = Inr (canon_CEMI codes ce, [])" by simp
  have n: "10 + length eb \<le> 255" using eb(3) by simp
  have u: "unat (of_nat (10 + length eb) :: byte) = 10 + length eb"
    using n by (simp add: unat_of_nat del: of_nat_add)
  have s: "UInt16BE TUNNELING_REQUEST = Inr [0x04, 0x20]" by (simp add: UInt16BE_def)
  show ?thesis
    using st f(1) c(1) tb eb(1,2) eb0 n u UInt16BE_small[OF n] s
    by (simp add: KNXNetHeader_write_def KNXNetHeader_body_def KNXNetHeader_read_def
          KNXNetHeader_rd_def KNXNetHeader_read_body_def lengths_KNXNetHeader_def
          lengths_TunnState_def present_def js_less_def reader_totalLength_def
          UInt8_def UInt16BE_opt_def andThen_def rd_bind_def rd_UInt8_def
          rd_UInt16BE_def rd_return_def canon_frame_def Let_def
          del: of_nat_add)
qed

lemma frame_roundtrip_tunneling_ack:
  assumes st: "serviceType V = TUNNELING_ACK"
    and f: "tunnstate V = Some ts" "valid_TunnState ts"
    and c: "cemi V = None"
  shows "\<exists>bytes. KNXNetHeader_write codes twoLevel V = Inr bytes
           \<and> totalLength (canon_frame codes V) = Some (length bytes)
           \<and> KNXNetHeader_read codes twoLevel bytes = Inr (canon_frame codes V)"
proof -
  from TunnState_roundtrip[OF f(2)] obtain tb where
    tb: "TunnState_write (Some ts) = Inr tb" "length tb = 4"
        "\<And>rest. TunnState_read (tb @ rest) = Inr (canon_TunnState ts, rest)"
    by blast
  from tb(3)[of "[]"] have tb0: "TunnState_read tb = Inr (canon_TunnState ts, [])" by simp
  show ?thesis
    using st f(1) c tb tb0
    by (simp add: frame_defs lengths_CEMI_def unat_of_nat)
qed

lemma frame_roundtrip_routing_indication:
  assumes st: "serviceType V = ROUTING_INDICATION"
    and f: "tunnstate V = None"
    and c: "cemi V = Some ce" "valid_CEMI codes twoLevel ce"
  shows "\<exists>bytes. KNXNetHeader_write codes twoLevel V = Inr bytes
           \<and> totalLength (canon_frame codes V) = Some (length bytes)
           \<and> KNXNetHeader_read codes twoLevel bytes = Inr (canon_frame codes V)"
proof -
  from CEMI_roundtrip[OF c(2)] obtain eb where
    eb: "CEMI_write codes twoLevel (Some ce) = Inr eb"
        "lengths_CEMI (Some ce) = Inr (length eb)" "length eb \<le> 25"
        "\<And>rest. CEMI_read codes twoLevel (eb @ rest) = Inr (canon_CEMI codes ce, rest)"
    by blast
  from eb(4)[of "[]"] have eb0:
    "CEMI_read codes twoLevel eb = Inr (canon_CEMI codes ce, [])" by simp
  have n: "6 + length eb \<le> 255" using eb(3) by simp
  have u: "unat (of_nat (6 + length eb) :: byte) = 6 + length eb"
    using n by (simp add: unat_of_nat del: of_nat_add)
  have s: "UInt16BE ROUTING_INDICATION = Inr [0x05, 0x30]" by (simp add: UInt16BE_def)
  show ?thesis
    using st f c(1) eb(1,2) eb0 n u UInt16BE_small[OF n] s
    by (simp add: KNXNetHeader_write_def KNXNetHeader_body_def KNXNetHeader_read_def
          KNXNetHeader_rd_def KNXNetHeader_read_body_def lengths_KNXNetHeader_def
          lengths_TunnState_def present_def js_less_def reader_totalLength_def
          UInt8_def UInt16BE_opt_def andThen_def rd_bind_def rd_UInt8_def
          rd_UInt16BE_def rd_return_def canon_frame_def Let_def
          del: of_nat_add)
qed

text \<open>
  C1, as the claim states it, fails. Each of these frames is written, and the bytes
  are not read back as the frame, whatever is done to the defaults the claim names.
  A SEARCH_RESPONSE is written as its header and its HPAI, 14 bytes, and the reader,
  which expects the device information after the HPAI, raises on them. The read
  request the builder makes for a tunnel comes back without the HPAI of the skeleton,
  which is not written, and with its payload 0 as a one-byte buffer. The skeleton of
  a SEARCH_REQUEST carries one HPAI where the reader expects two and a CRI. A
  CONNECT_REQUEST whose HPAI names TCP, and one whose CRI has the connection type 5,
  are refused by the reader. A raw write of one byte with the bit length 16 is
  written as 22 bytes under a header that announces 23, and its APDU announces a byte
  more than it has. A frame with the message code L_Busmon.ind is written without
  its APDU, 18 bytes under a header of 21. A priority of 4 is read back as the
  priority 0 of a broadcast frame. A ROUTING_INDICATION that carries a \<^verbatim>\<open>tunnstate\<close>
  has it written where the reader expects the cEMI frame.
\<close>

theorem KNXNetHeader_read_write_counterexample:
  "(\<exists>bytes. KNXNetHeader_write APCICODES False search_response = Inr bytes
       \<and> length bytes = 14
       \<and> KNXNetHeader_read APCICODES False bytes = Inl RangeError)
   \<and> (\<exists>bytes W ce a.
         KNXNetHeader_write APCICODES False (datagram (read_request 41)) = Inr bytes
       \<and> KNXNetHeader_read APCICODES False bytes = Inr W
       \<and> up_to_defaults W \<noteq> up_to_defaults (datagram (read_request 41))
       \<and> hpai (datagram (read_request 41)) \<noteq> None \<and> hpai W = None
       \<and> cemi W = Some ce \<and> apdu ce = Some a \<and> data a = Buf [0])
   \<and> (\<exists>bytes. KNXNetHeader_write APCICODES False search_request = Inr bytes
       \<and> length bytes = 14
       \<and> KNXNetHeader_read APCICODES False bytes = Inl RangeError)
   \<and> (\<exists>bytes. KNXNetHeader_write APCICODES False connect_request_tcp = Inr bytes
       \<and> KNXNetHeader_read APCICODES False bytes = Inl TcpNotSupported)
   \<and> (\<exists>bytes. KNXNetHeader_write APCICODES False connect_request_cri5 = Inr bytes
       \<and> KNXNetHeader_read APCICODES False bytes = Inl UnsupportedConnectionType)
   \<and> (\<exists>bytes. KNXNetHeader_write APCICODES False raw_write_request = Inr bytes
       \<and> length bytes = 22 \<and> unat (bytes ! 4) * 256 + unat (bytes ! 5) = 23
       \<and> KNXNetHeader_read APCICODES False bytes = Inl RangeError)
   \<and> (\<exists>bytes W ce ce'.
         KNXNetHeader_write APCICODES False busmon_request = Inr bytes
       \<and> length bytes = 18 \<and> unat (bytes ! 4) * 256 + unat (bytes ! 5) = 21
       \<and> KNXNetHeader_read APCICODES False bytes = Inr W
       \<and> cemi busmon_request = Some ce \<and> apdu ce \<noteq> None
       \<and> cemi W = Some ce' \<and> apdu ce' = None)
   \<and> (\<exists>bytes W ce c.
         KNXNetHeader_write APCICODES False priority4_request = Inr bytes
       \<and> KNXNetHeader_read APCICODES False bytes = Inr W
       \<and> cemi W = Some ce \<and> cemi_ctrl ce = Some c \<and> priority c = 0 \<and> broadcast c = 1)
   \<and> (\<exists>bytes W ce.
         KNXNetHeader_write APCICODES False routing_read_request = Inr bytes
       \<and> KNXNetHeader_read APCICODES False bytes = Inr W
       \<and> tunnstate routing_read_request \<noteq> None \<and> tunnstate W = None
       \<and> cemi W = Some ce \<and> msgcode ce = 4)"
proof -
  have 1: "\<exists>bytes. KNXNetHeader_write APCICODES False search_response = Inr bytes
       \<and> length bytes = 14
       \<and> KNXNetHeader_read APCICODES False bytes = Inl RangeError"
    by (simp add: search_response_def gateway_def write_defs read_defs)
  have w: "KNXNetHeader_write APCICODES False (datagram (read_request 41))
             = Inr [0x06, 0x10, 0x04, 0x20, 0x00, 0x15, 0x04, 0x07, 0x00, 0x00,
                    0x11, 0x00, 0xBC, 0xE0, 0xFF, 0x0F, 0x0A, 0x03, 0x01, 0x00, 0x00]"
    by (simp add: sample_defs builder_defs write_defs)
  have h: "hpai (datagram (read_request 41)) \<noteq> None"
    by (simp add: sample_defs builder_defs)
  have "\<exists>W ce a.
         KNXNetHeader_read APCICODES False
           [0x06, 0x10, 0x04, 0x20, 0x00, 0x15, 0x04, 0x07, 0x00, 0x00,
            0x11, 0x00, 0xBC, 0xE0, 0xFF, 0x0F, 0x0A, 0x03, 0x01, 0x00, 0x00] = Inr W
       \<and> hpai W = None
       \<and> cemi W = Some ce \<and> apdu ce = Some a \<and> data a = Buf [0]"
    by (simp add: read_defs Let_def)
  then obtain W ce a where r:
    "KNXNetHeader_read APCICODES False
           [0x06, 0x10, 0x04, 0x20, 0x00, 0x15, 0x04, 0x07, 0x00, 0x00,
            0x11, 0x00, 0xBC, 0xE0, 0xFF, 0x0F, 0x0A, 0x03, 0x01, 0x00, 0x00] = Inr W"
    "hpai W = None" "cemi W = Some ce" "apdu ce = Some a" "data a = Buf [0]"
    by blast
  have "hpai (up_to_defaults W) = None" using r(2) by (simp add: up_to_defaults_def)
  moreover have "hpai (up_to_defaults (datagram (read_request 41))) \<noteq> None"
    using h by (simp add: up_to_defaults_def)
  ultimately have d: "up_to_defaults W \<noteq> up_to_defaults (datagram (read_request 41))"
    by auto
  from w r d h have 2: "\<exists>bytes W ce a.
         KNXNetHeader_write APCICODES False (datagram (read_request 41)) = Inr bytes
       \<and> KNXNetHeader_read APCICODES False bytes = Inr W
       \<and> up_to_defaults W \<noteq> up_to_defaults (datagram (read_request 41))
       \<and> hpai (datagram (read_request 41)) \<noteq> None \<and> hpai W = None
       \<and> cemi W = Some ce \<and> apdu ce = Some a \<and> data a = Buf [0]"
    by blast
  have 3: "\<exists>bytes. KNXNetHeader_write APCICODES False search_request = Inr bytes
       \<and> length bytes = 14
       \<and> KNXNetHeader_read APCICODES False bytes = Inl RangeError"
    by (simp add: search_request_def builder_defs write_defs read_defs)
  have 4: "\<exists>bytes. KNXNetHeader_write APCICODES False connect_request_tcp = Inr bytes
       \<and> KNXNetHeader_read APCICODES False bytes = Inl TcpNotSupported"
    by (simp add: connect_request_tcp_def connect_request_def builder_defs write_defs
          read_defs)
  have 5: "\<exists>bytes. KNXNetHeader_write APCICODES False connect_request_cri5 = Inr bytes
       \<and> KNXNetHeader_read APCICODES False bytes = Inl UnsupportedConnectionType"
    by (simp add: connect_request_cri5_def connect_request_def builder_defs write_defs
          read_defs)
  have 6: "\<exists>bytes. KNXNetHeader_write APCICODES False raw_write_request = Inr bytes
       \<and> length bytes = 22 \<and> unat (bytes ! 4) * 256 + unat (bytes ! 5) = 23
       \<and> KNXNetHeader_read APCICODES False bytes = Inl RangeError"
    by (simp add: raw_write_request_def makeWriteRawRequest_def with_apdu_def
          request_serviceType_def builder_defs write_defs read_defs)
  have 7: "\<exists>bytes W ce ce'.
         KNXNetHeader_write APCICODES False busmon_request = Inr bytes
       \<and> length bytes = 18 \<and> unat (bytes ! 4) * 256 + unat (bytes ! 5) = 21
       \<and> KNXNetHeader_read APCICODES False bytes = Inr W
       \<and> cemi busmon_request = Some ce \<and> apdu ce \<noteq> None
       \<and> cemi W = Some ce' \<and> apdu ce' = None"
    by (simp add: busmon_request_def with_cemi_def sample_defs builder_defs write_defs
          read_defs)
  have 8: "\<exists>bytes W ce c.
         KNXNetHeader_write APCICODES False priority4_request = Inr bytes
       \<and> KNXNetHeader_read APCICODES False bytes = Inr W
       \<and> cemi W = Some ce \<and> cemi_ctrl ce = Some c \<and> priority c = 0 \<and> broadcast c = 1"
    by (simp add: priority4_request_def with_cemi_def sample_defs builder_defs write_defs
          read_defs)
  have 9: "\<exists>bytes W ce.
         KNXNetHeader_write APCICODES False routing_read_request = Inr bytes
       \<and> KNXNetHeader_read APCICODES False bytes = Inr W
       \<and> tunnstate routing_read_request \<noteq> None \<and> tunnstate W = None
       \<and> cemi W = Some ce \<and> msgcode ce = 4"
    by (simp add: routing_read_request_def makeReadRequest_def with_apdu_def
          request_serviceType_def builder_defs write_defs read_defs)
  show ?thesis
    by (intro conjI 1 2 3 4 5 6 7 8 9)
qed

text \<open>
  C1, amended. Let a frame have one of the service types and the substructures that
  go with it: for SEARCH_REQUEST and CONNECT_REQUEST, \<^verbatim>\<open>hpai\<close>, \<^verbatim>\<open>tunn\<close> and
  \<^verbatim>\<open>cri\<close>; for CONNECT_RESPONSE, CONNECTIONSTATE_REQUEST, CONNECTIONSTATE_RESPONSE
  and DISCONNECT_REQUEST, \<^verbatim>\<open>connstate\<close>, and a \<^verbatim>\<open>cri\<close> only along with an
  \<^verbatim>\<open>hpai\<close>; for TUNNELING_REQUEST, \<^verbatim>\<open>tunnstate\<close> and \<^verbatim>\<open>cemi\<close>; for TUNNELING_ACK,
  \<^verbatim>\<open>tunnstate\<close> and no \<^verbatim>\<open>cemi\<close>; for ROUTING_INDICATION, \<^verbatim>\<open>cemi\<close> and no
  \<^verbatim>\<open>tunnstate\<close>. Let each of these substructures be valid:
  \<^item> an HPAI has a protocol type from 0 to 255 other than 2 (TCP) and an endpoint of
    four octets from 0 to 255 with a port from 0 to 65535;
  \<^item> a CRI has the connection type 3 or 4, and a layer and a reserved byte from 0 to
    255;
  \<^item> each one-byte field of a \<^verbatim>\<open>connstate\<close> or \<^verbatim>\<open>tunnstate\<close> is unset or from 0
    to 255;
  \<^item> a cEMI frame has a message code from 0 to 255, an \<^verbatim>\<open>addinfoLength\<close> unset or
    from 0 to 255, a control field whose ten fields fit their bit widths (1, 1, 1, 1,
    2, 1, 1 and 1, 3, 4 bits), a source address the address codec accepts as physical
    and a destination address it accepts for the type in the control field, and an
    APDU exactly when its message code is L_Data.req, L_Data.ind or L_Data.con;
  \<^item> an APDU has a TPCI below 64, an APCI name at a position below 16 of the table,
    and a payload that is an integer from 0 to 63, or the one-byte buffer holding
    one, with a bit length unset or at most 6, or else a buffer of 1 to 14 bytes
    with a bit length above 6 that rounds up to as many bytes, or with no bit length
    (unset or 0) and, if of one byte, holding more than 63.

  Then the frame is written, the total length in its canonical form is the number of
  bytes written, and reading these bytes gives the canonical form of the frame: the
  header constants 6 and 16; the total length; the substructures of the service type
  and no other; the lengths of HPAI, CRI and \<^verbatim>\<open>tunnstate\<close> set to 8, 4 and 4; every
  one-byte field that was not set as 0; the fields of the builder alone
  (\<^verbatim>\<open>connstate.state\<close>, \<^verbatim>\<open>tunnstate.tunnelEndpoint\<close>, \<^verbatim>\<open>apdu.bitlength\<close>) dropped;
  and the APDU with the length byte and the raw bytes that were written and its
  payload as a buffer, the integer \<open>d\<close> as the one byte \<open>d\<close>.
\<close>

theorem KNXNetHeader_write_then_read:
  assumes "valid_frame codes twoLevel V"
  shows "\<exists>bytes. KNXNetHeader_write codes twoLevel V = Inr bytes
           \<and> totalLength (canon_frame codes V) = Some (length bytes)
           \<and> KNXNetHeader_read codes twoLevel bytes = Inr (canon_frame codes V)"
proof -
  consider
      (request) "serviceType V = SEARCH_REQUEST \<or> serviceType V = CONNECT_REQUEST"
    | (connstate) "serviceType V = CONNECT_RESPONSE \<or> serviceType V = CONNECTIONSTATE_REQUEST
               \<or> serviceType V = CONNECTIONSTATE_RESPONSE \<or> serviceType V = DISCONNECT_REQUEST"
    | (treq) "serviceType V = TUNNELING_REQUEST"
    | (tack) "serviceType V = TUNNELING_ACK"
    | (routing) "serviceType V = ROUTING_INDICATION"
    using assms by (auto simp: valid_frame_def Let_def split: if_splits)
  then show ?thesis
  proof cases
    case request
    with assms obtain h t c where
      "hpai V = Some h" "tunn V = Some t" "cri V = Some c"
      "valid_HPAI h" "valid_HPAI t" "valid_CRI c"
      by (auto simp: valid_frame_def Let_def split: option.splits)
    with request show ?thesis by (rule frame_roundtrip_request)
  next
    case connstate
    with assms obtain cs where
      "connstate V = Some cs" "valid_ConnState cs"
      "case hpai V of
         None \<Rightarrow> cri V = None
       | Some h \<Rightarrow> valid_HPAI h \<and> (case cri V of None \<Rightarrow> True | Some c \<Rightarrow> valid_CRI c)"
      by (cases "connstate V") (auto simp: valid_frame_def Let_def)
    with connstate show ?thesis by (rule frame_roundtrip_connstate)
  next
    case treq
    with assms obtain ts ce where
      "tunnstate V = Some ts" "valid_TunnState ts"
      "cemi V = Some ce" "valid_CEMI codes twoLevel ce"
      by (auto simp: valid_frame_def Let_def split: option.splits)
    with treq show ?thesis by (rule frame_roundtrip_tunneling_request)
  next
    case tack
    with assms obtain ts where
      "tunnstate V = Some ts" "valid_TunnState ts" "cemi V = None"
      by (auto simp: valid_frame_def Let_def split: option.splits)
    with tack show ?thesis by (rule frame_roundtrip_tunneling_ack)
  next
    case routing
    with assms obtain ce where
      "tunnstate V = None" "cemi V = Some ce" "valid_CEMI codes twoLevel ce"
      by (auto simp: valid_frame_def Let_def split: option.splits)
    with routing show ?thesis by (rule frame_roundtrip_routing_indication)
  qed
qed

theorem KNXNetHeader_write_then_read_witness:
  "valid_frame APCICODES False (group_write_ind 3)
   \<and> KNXNetHeader_write APCICODES False (group_write_ind 3)
       = Inr [0x06, 0x10, 0x04, 0x20, 0x00, 0x16, 0x04, 0x07, 0x03, 0x00,
              0x29, 0x00, 0xBC, 0xE0, 0x11, 0x01, 0x01, 0x02, 0x02, 0x00, 0x80, 0x42]
   \<and> KNXNetHeader_read APCICODES False
         [0x06, 0x10, 0x04, 0x20, 0x00, 0x16, 0x04, 0x07, 0x03, 0x00,
          0x29, 0x00, 0xBC, 0xE0, 0x11, 0x01, 0x01, 0x02, 0x02, 0x00, 0x80, 0x42]
       = Inr (group_write_ind 3)
   \<and> valid_frame APCICODES False
         (datagram (fromServiceRequest 1 CONNECT_REQUEST default_options None None))
   \<and> KNXNetHeader_write APCICODES False
         (datagram (fromServiceRequest 1 CONNECT_REQUEST default_options None None))
       = Inr [0x06, 0x10, 0x02, 0x05, 0x00, 0x1A,
              0x08, 0x01, 0x00, 0x00, 0x00, 0x00, 0x00, 0x00,
              0x08, 0x01, 0x00, 0x00, 0x00, 0x00, 0x00, 0x00,
              0x04, 0x04, 0x02, 0x00]
   \<and> (\<exists>W. KNXNetHeader_read APCICODES False
               [0x06, 0x10, 0x02, 0x05, 0x00, 0x1A,
                0x08, 0x01, 0x00, 0x00, 0x00, 0x00, 0x00, 0x00,
                0x08, 0x01, 0x00, 0x00, 0x00, 0x00, 0x00, 0x00,
                0x04, 0x04, 0x02, 0x00] = Inr W
          \<and> totalLength W = Some 26 \<and> connstate W = None
          \<and> cri W = Some \<lparr>cri_headerLength = Some 4, connectionType = TUNNEL_CONNECTION,
                             knxLayer = LINK_LAYER, unused = 0\<rparr>)"
proof -
  let ?V = "group_write_ind 3"
  let ?U = "datagram (fromServiceRequest 1 CONNECT_REQUEST default_options None None)"
  have v: "valid_frame APCICODES False ?V"
    by (simp add: group_write_ind_def valid_frame_def valid_TunnState_def valid_CEMI_def
          valid_ctrl_def valid_address_def valid_APDU_def byte_field_def is_L_Data_def
          apci_index_def APCICODES_def long_payload_def short_payload_def)
  have u: "valid_frame APCICODES False ?U"
    by (simp add: builder_defs valid_frame_def valid_HPAI_def valid_CRI_def
          valid_endpoint_def)
  have wv: "KNXNetHeader_write APCICODES False ?V
       = Inr [0x06, 0x10, 0x04, 0x20, 0x00, 0x16, 0x04, 0x07, 0x03, 0x00,
              0x29, 0x00, 0xBC, 0xE0, 0x11, 0x01, 0x01, 0x02, 0x02, 0x00, 0x80, 0x42]"
    by (simp add: group_write_ind_def write_defs)
  have wu: "KNXNetHeader_write APCICODES False ?U
       = Inr [0x06, 0x10, 0x02, 0x05, 0x00, 0x1A,
              0x08, 0x01, 0x00, 0x00, 0x00, 0x00, 0x00, 0x00,
              0x08, 0x01, 0x00, 0x00, 0x00, 0x00, 0x00, 0x00,
              0x04, 0x04, 0x02, 0x00]"
    by (simp add: builder_defs write_defs)
  have cv: "canon_frame APCICODES ?V = ?V"
    by (simp add: group_write_ind_def write_defs canon_frame_def canon_TunnState_def
          canon_CEMI_def canon_APDU_def read_byte_def)
  have cu: "totalLength (canon_frame APCICODES ?U) = Some 26
            \<and> connstate (canon_frame APCICODES ?U) = None
            \<and> cri (canon_frame APCICODES ?U)
                = Some \<lparr>cri_headerLength = Some 4, connectionType = TUNNEL_CONNECTION,
                         knxLayer = LINK_LAYER, unused = 0\<rparr>"
    by (simp add: builder_defs write_defs canon_frame_def canon_CRI_def)
  from KNXNetHeader_write_then_read[OF v] wv cv
  have rv: "KNXNetHeader_read APCICODES False
         [0x06, 0x10, 0x04, 0x20, 0x00, 0x16, 0x04, 0x07, 0x03, 0x00,
          0x29, 0x00, 0xBC, 0xE0, 0x11, 0x01, 0x01, 0x02, 0x02, 0x00, 0x80, 0x42]
       = Inr ?V"
    by auto
  from KNXNetHeader_write_then_read[OF u] wu
  have ru: "KNXNetHeader_read APCICODES False
               [0x06, 0x10, 0x02, 0x05, 0x00, 0x1A,
                0x08, 0x01, 0x00, 0x00, 0x00, 0x00, 0x00, 0x00,
                0x08, 0x01, 0x00, 0x00, 0x00, 0x00, 0x00, 0x00,
                0x04, 0x04, 0x02, 0x00] = Inr (canon_frame APCICODES ?U)"
    by auto
  from v u wv wu rv ru cu show ?thesis by blast
qed

end
